theory Spec2Isabelle
  imports Complex_Main
begin

section \<open>Values exchanged with the transport\<close>

text \<open>
  Tool arguments and the Overview document are JSON-shaped Python values. A Python
  \<open>dict\<close> keeps insertion order, so it is an association list; \<open>d[k]\<close> and \<open>k in d\<close>
  read it through \<open>map_of\<close>. A Python \<open>float\<close> is a binary64 number: a finite one is
  represented by the rational it denotes (\<open>Finite 0\<close> is \<open>0.0\<close>), and the negative zero,
  the two infinities and the NaN are values of their own.
\<close>

datatype pyfloat =
    Finite rat
  | NegZero
  | PosInf
  | NegInf
  | NaN

datatype json =
    JNull
  | JBool bool
  | JInt int
  | JNum pyfloat
  | JStr string
  | JList "json list"
  | JObj "(string \<times> json) list"

type_synonym pydict = "(string \<times> json) list"

text \<open>Python truthiness (\<open>bool(v)\<close>) of a JSON-shaped value.\<close>

fun truthy :: "json \<Rightarrow> bool" where
  "truthy JNull = False"
| "truthy (JBool b) = b"
| "truthy (JInt n) = (n \<noteq> 0)"
| "truthy (JNum x) = (x \<noteq> Finite 0 \<and> x \<noteq> NegZero)"
| "truthy (JStr s) = (s \<noteq> [])"
| "truthy (JList xs) = (xs \<noteq> [])"
| "truthy (JObj kvs) = (kvs \<noteq> [])"

text \<open>The exceptions an invocation can end with.\<close>

datatype error =
    ValidationError
  | ValueError string
  | TypeError
  | KeyError string
  | OverflowError
  | ZeroDivisionError
  | UpstreamServiceError string
  | StoreError string

text \<open>\<open>k in d\<close> and \<open>d[k] = v\<close> on a dict.\<close>

definition has_key :: "pydict \<Rightarrow> string \<Rightarrow> bool" where
  "has_key d k = (map_of d k \<noteq> None)"

fun dict_set :: "('k \<times> 'v) list \<Rightarrow> 'k \<Rightarrow> 'v \<Rightarrow> ('k \<times> 'v) list" where
  "dict_set [] k v = [(k, v)]"
| "dict_set ((k', v') # d) k v = (if k' = k then (k, v) # d else (k', v') # dict_set d k v)"

text \<open>\<open>d[k]\<close> as an expression: a missing key raises \<open>KeyError\<close>.\<close>

definition subscript :: "pydict \<Rightarrow> string \<Rightarrow> error + json" where
  "subscript d k = (case map_of d k of None \<Rightarrow> Inl (KeyError k) | Some v \<Rightarrow> Inr v)"

text \<open>\<open>not arguments\<close> for \<open>arguments: dict | None\<close>.\<close>

definition no_arguments :: "pydict option \<Rightarrow> bool" where
  "no_arguments arguments = (case arguments of None \<Rightarrow> True | Some a \<Rightarrow> a = [])"

text \<open>\<open>arguments or {}\<close>.\<close>

definition arguments_or_empty :: "pydict option \<Rightarrow> pydict" where
  "arguments_or_empty arguments = (case arguments of None \<Rightarrow> [] | Some a \<Rightarrow> a)"

text \<open>The content blocks the transport accepts as a tool result.\<close>

datatype content =
    TextContent string
  | ImageContent string string
  | EmbeddedResource string

section \<open>What the language runtime and the validation library provide\<close>

text \<open>
  Float formatting (\<open>:.2f\<close>, given the rational a finite float denotes or is nearest
  to), \<open>str()\<close> of values other than strings and integers, \<open>json.dumps(_, indent=2)\<close>,
  the lax-mode conversions of the schema library (what else than an integer an \<open>int\<close>
  field accepts, what else than a boolean a \<open>bool\<close> field accepts) and what the request
  models of the service SDK accept when they are constructed (\<open>NewTransaction\<close> and
  \<open>SaveTransactionWithIdOrImportId\<close> validate their keyword arguments: a date must
  be a date, and so on) are not part of the repository. They are parameters of the
  model, and the theorems below hold for all of them.
\<close>

record runtime =
  lax_int :: "json \<Rightarrow> int option"
  lax_bool :: "json \<Rightarrow> bool option"
  fmt2f :: "rat \<Rightarrow> string"
  str_other :: "json \<Rightarrow> string"
  json_dumps :: "pydict \<Rightarrow> string"
  new_transaction_accepts :: "pydict \<Rightarrow> bool"
  save_transaction_accepts :: "pydict \<Rightarrow> bool"

text \<open>Field coercion: a \<open>str\<close> field accepts exactly a string; an \<open>int\<close> field an
  integer as it is, a \<open>bool\<close> field a boolean as it is; \<open>None\<close> is no value of any
  of the three.\<close>

definition coerce_str :: "runtime \<Rightarrow> json \<Rightarrow> string option" where
  "coerce_str rt v = (case v of JStr s \<Rightarrow> Some s | _ \<Rightarrow> None)"

definition coerce_int :: "runtime \<Rightarrow> json \<Rightarrow> int option" where
  "coerce_int rt v = (case v of JInt n \<Rightarrow> Some n | JNull \<Rightarrow> None | _ \<Rightarrow> lax_int rt v)"

definition coerce_bool :: "runtime \<Rightarrow> json \<Rightarrow> bool option" where
  "coerce_bool rt v = (case v of JBool b \<Rightarrow> Some b | JNull \<Rightarrow> None | _ \<Rightarrow> lax_bool rt v)"

definition digit :: "nat \<Rightarrow> char" where
  "digit n = ''0123456789'' ! (n mod 10)"

function show_nat :: "nat \<Rightarrow> string" where
  "show_nat n = (if n < 10 then [digit n] else show_nat (n div 10) @ [digit (n mod 10)])"
  by pat_completeness auto
termination
  by (relation "measure id") auto

declare show_nat.simps [simp del]

definition show_int :: "int \<Rightarrow> string" where
  "show_int i = (if i < 0 then CHR ''-'' # show_nat (nat (- i)) else show_nat (nat i))"

text \<open>\<open>str(v)\<close>, as an f-string field without a format spec renders \<open>v\<close>.\<close>

definition py_str :: "runtime \<Rightarrow> json \<Rightarrow> string" where
  "py_str rt v = (case v of JStr s \<Rightarrow> s | JInt n \<Rightarrow> show_int n | _ \<Rightarrow> str_other rt v)"

text \<open>\<open>x or 'N/A'\<close> for an optional display string.\<close>

definition or_na :: "string option \<Rightarrow> string" where
  "or_na x = (case x of None \<Rightarrow> ''N/A'' | Some s \<Rightarrow> if s = [] then ''N/A'' else s)"

text \<open>\<open>"\n".join(lines)\<close>.\<close>

fun join_nl :: "string list \<Rightarrow> string" where
  "join_nl [] = []"
| "join_nl [l] = l"
| "join_nl (l # ls) = l @ ''\<newline>'' @ join_nl ls"

text \<open>\<open>f"{m / 1000:.2f}"\<close> for an integer amount of milliunits.\<close>

definition money :: "runtime \<Rightarrow> int \<Rightarrow> string" where
  "money rt m = fmt2f rt (of_int m / 1000)"

subsection \<open>Float arithmetic\<close>

text \<open>
  Python computes on floats as IEEE 754 prescribes for binary64: the exact result is
  rounded to the nearest number with a 53-bit significand, ties going to the even
  significand; below \<open>pow2 (- 1022)\<close> the numbers are spaced \<open>pow2 (- 1074)\<close> apart, and
  a result that rounds to \<open>pow2 1024\<close> or more is out of range.
\<close>

function bit_length :: "nat \<Rightarrow> nat" where
  "bit_length n = (if n = 0 then 0 else Suc (bit_length (n div 2)))"
  by pat_completeness auto
termination
  by (relation "measure id") auto

declare bit_length.simps [simp del]

definition pow2 :: "int \<Rightarrow> rat" where
  "pow2 k = (if 0 \<le> k then 2 ^ nat k else 1 / 2 ^ nat (- k))"

text \<open>For \<open>q > 0\<close>, the \<open>e\<close> with \<open>pow2 e \<le> q < pow2 (e + 1)\<close>.\<close>

definition exponent_of :: "rat \<Rightarrow> int" where
  "exponent_of q =
     (if 1 \<le> q then int (bit_length (nat \<lfloor>q\<rfloor>)) - 1
      else (let k = int (bit_length (nat \<lfloor>1 / q\<rfloor>)) - 1
            in if q * pow2 k = 1 then - k else - k - 1))"

text \<open>The integer nearest to \<open>q\<close>, the even one of the two when \<open>q\<close> is halfway.\<close>

definition nearest_even :: "rat \<Rightarrow> int" where
  "nearest_even q =
     (let n = \<lfloor>q\<rfloor>; r = q - of_int n
      in if r < 1 / 2 then n else if 1 / 2 < r then n + 1 else if even n then n else n + 1)"

text \<open>For \<open>q > 0\<close>, the binary64 magnitude nearest to \<open>q\<close>, if it is in range.\<close>

definition round_magnitude :: "rat \<Rightarrow> rat option" where
  "round_magnitude q =
     (let ulp = pow2 (max (exponent_of q) (- 1022) - 52);
          v = of_int (nearest_even (q / ulp)) * ulp
      in if v < pow2 1024 then Some v else None)"

text \<open>The float an exact result \<open>q\<close> is rounded to; one out of range is an infinity, a
  negative one that rounds to zero is the negative zero.\<close>

definition round64 :: "rat \<Rightarrow> pyfloat" where
  "round64 q =
     (if q = 0 then Finite 0
      else if 0 < q then (case round_magnitude q of None \<Rightarrow> PosInf | Some v \<Rightarrow> Finite v)
      else (case round_magnitude (- q) of
              None \<Rightarrow> NegInf
            | Some v \<Rightarrow> if v = 0 then NegZero else Finite (- v)))"

definition float_negative :: "pyfloat \<Rightarrow> bool" where
  "float_negative x =
     (case x of Finite q \<Rightarrow> q < 0 | NegZero \<Rightarrow> True | NegInf \<Rightarrow> True | _ \<Rightarrow> False)"

definition float_zero :: "pyfloat \<Rightarrow> bool" where
  "float_zero x = (x = Finite 0 \<or> x = NegZero)"

definition float_infinite :: "pyfloat \<Rightarrow> bool" where
  "float_infinite x = (x = PosInf \<or> x = NegInf)"

definition float_value :: "pyfloat \<Rightarrow> rat" where
  "float_value x = (case x of Finite q \<Rightarrow> q | _ \<Rightarrow> 0)"

definition signed_zero :: "bool \<Rightarrow> pyfloat" where
  "signed_zero negative = (if negative then NegZero else Finite 0)"

definition signed_infinity :: "bool \<Rightarrow> pyfloat" where
  "signed_infinity negative = (if negative then NegInf else PosInf)"

definition float_neg :: "pyfloat \<Rightarrow> pyfloat" where
  "float_neg x =
     (case x of
        Finite q \<Rightarrow> if q = 0 then NegZero else Finite (- q)
      | NegZero \<Rightarrow> Finite 0
      | PosInf \<Rightarrow> NegInf
      | NegInf \<Rightarrow> PosInf
      | NaN \<Rightarrow> NaN)"

text \<open>\<open>x * y\<close>, \<open>x + y\<close> and \<open>x - y\<close> on floats never raise.\<close>

definition float_mul :: "pyfloat \<Rightarrow> pyfloat \<Rightarrow> pyfloat" where
  "float_mul x y =
     (if x = NaN \<or> y = NaN then NaN
      else if float_infinite x \<or> float_infinite y
        then (if float_zero x \<or> float_zero y then NaN
              else signed_infinity (float_negative x \<noteq> float_negative y))
      else if float_zero x \<or> float_zero y
        then signed_zero (float_negative x \<noteq> float_negative y)
      else round64 (float_value x * float_value y))"

definition float_add :: "pyfloat \<Rightarrow> pyfloat \<Rightarrow> pyfloat" where
  "float_add x y =
     (if x = NaN \<or> y = NaN then NaN
      else if float_infinite x then (if float_infinite y \<and> y \<noteq> x then NaN else x)
      else if float_infinite y then y
      else if float_zero x \<and> float_zero y
        then (if x = NegZero \<and> y = NegZero then NegZero else Finite 0)
      else if float_zero x then y
      else if float_zero y then x
      else if float_value x + float_value y = 0 then Finite 0
      else round64 (float_value x + float_value y))"

definition float_sub :: "pyfloat \<Rightarrow> pyfloat \<Rightarrow> pyfloat" where
  "float_sub x y = float_add x (float_neg y)"

text \<open>\<open>x / y\<close> on floats raises \<open>ZeroDivisionError\<close> for a zero divisor.\<close>

definition float_div :: "pyfloat \<Rightarrow> pyfloat \<Rightarrow> error + pyfloat" where
  "float_div x y =
     (if float_zero y then Inl ZeroDivisionError
      else if x = NaN \<or> y = NaN then Inr NaN
      else if float_infinite x
        then Inr (if float_infinite y then NaN
                  else signed_infinity (float_negative x \<noteq> float_negative y))
      else if float_infinite y \<or> float_zero x
        then Inr (signed_zero (float_negative x \<noteq> float_negative y))
      else Inr (round64 (float_value x / float_value y)))"

text \<open>
  \<open>float(n)\<close>, as an integer operand of a float operation is converted, and \<open>a / b\<close> on
  integers, which is the correctly rounded quotient. Both raise \<open>OverflowError\<close> when
  the result is out of range.
\<close>

definition int_to_float :: "int \<Rightarrow> error + pyfloat" where
  "int_to_float n =
     (case round64 (of_int n) of
        PosInf \<Rightarrow> Inl OverflowError
      | NegInf \<Rightarrow> Inl OverflowError
      | x \<Rightarrow> Inr x)"

definition int_truediv :: "int \<Rightarrow> int \<Rightarrow> error + pyfloat" where
  "int_truediv a b =
     (if b = 0 then Inl ZeroDivisionError
      else if a = 0 then Inr (signed_zero (b < 0))
      else (case round64 (of_int a / of_int b) of
              PosInf \<Rightarrow> Inl OverflowError
            | NegInf \<Rightarrow> Inl OverflowError
            | x \<Rightarrow> Inr x))"

text \<open>
  Amounts reported by the service are 64-bit integers of milliunits, and the sums and
  quotients the dispatcher forms of them are far inside the range of a float.
  \<open>amount_div a b\<close> is \<open>a / b\<close> for such integers and \<open>b > 0\<close>: the float nearest to the
  quotient. (Where \<open>int_truediv\<close> raises \<open>OverflowError\<close> it is an infinity.)
\<close>

definition amount_div :: "int \<Rightarrow> int \<Rightarrow> pyfloat" where
  "amount_div a b = round64 (of_int a / of_int b)"

text \<open>\<open>f"{x:.2f}"\<close> for a float \<open>x\<close>.\<close>

definition format_2f :: "runtime \<Rightarrow> pyfloat \<Rightarrow> string" where
  "format_2f rt x =
     (case x of
        Finite q \<Rightarrow> fmt2f rt q
      | NegZero \<Rightarrow> ''-0.00''
      | PosInf \<Rightarrow> ''inf''
      | NegInf \<Rightarrow> ''-inf''
      | NaN \<Rightarrow> ''nan'')"

subsection \<open>Arithmetic on raw arguments\<close>

text \<open>
  Arithmetic on an argument taken raw from the mapping: \<open>v / 1000\<close>, \<open>b - v\<close>, \<open>b + v\<close>
  and \<open>len(v)\<close>. A \<open>bool\<close> is an \<open>int\<close> in Python; an integer is converted to a float
  when the other operand is one; anything that is not a number raises \<open>TypeError\<close>.
\<close>

fun py_div_1000 :: "json \<Rightarrow> error + pyfloat" where
  "py_div_1000 (JInt n) = int_truediv n 1000"
| "py_div_1000 (JBool b) = int_truediv (if b then 1 else 0) 1000"
| "py_div_1000 (JNum x) = float_div x (Finite 1000)"
| "py_div_1000 _ = Inl TypeError"

fun py_sub :: "int \<Rightarrow> json \<Rightarrow> error + json" where
  "py_sub b (JInt n) = Inr (JInt (b - n))"
| "py_sub b (JBool c) = Inr (JInt (b - (if c then 1 else 0)))"
| "py_sub b (JNum x) =
     (case int_to_float b of Inl e \<Rightarrow> Inl e | Inr y \<Rightarrow> Inr (JNum (float_sub y x)))"
| "py_sub b _ = Inl TypeError"

fun py_add :: "int \<Rightarrow> json \<Rightarrow> error + json" where
  "py_add b (JInt n) = Inr (JInt (b + n))"
| "py_add b (JBool c) = Inr (JInt (b + (if c then 1 else 0)))"
| "py_add b (JNum x) =
     (case int_to_float b of Inl e \<Rightarrow> Inl e | Inr y \<Rightarrow> Inr (JNum (float_add y x)))"
| "py_add b _ = Inl TypeError"

fun py_len :: "json \<Rightarrow> error + nat" where
  "py_len (JList xs) = Inr (length xs)"
| "py_len (JStr s) = Inr (length s)"
| "py_len (JObj kvs) = Inr (length kvs)"
| "py_len _ = Inl TypeError"

section \<open>Entities of the budgeting service\<close>

record budget =
  b_id :: string
  b_name :: string

record account =
  acc_id :: string
  acc_name :: string
  acc_balance :: int
  acc_type :: string

record transaction =
  t_id :: string
  t_var_date :: string
  t_amount :: int
  t_payee_name :: "string option"
  t_category_name :: "string option"
  t_account_name :: string

record scheduled_transaction =
  sch_var_date :: string
  sch_amount :: int
  sch_payee_name :: "string option"
  sch_category_name :: "string option"
  sch_frequency :: string

record category =
  c_id :: string
  c_name :: string
  c_hidden :: bool
  c_budgeted :: int
  c_activity :: int
  c_balance :: int
  c_goal_type :: "string option"
  c_goal_target :: "int option"
  c_goal_percentage_complete :: "int option"

record category_group =
  g_name :: string
  g_hidden :: bool
  g_categories :: "category list"

record payee =
  p_id :: string
  p_name :: string

section \<open>The service client and the invocation monad\<close>

text \<open>
  \<open>ynab_client\<close> (module \<open>ynab_client\<close>, with its \<open>notes\<close> store) is an opaque
  collaborator: a record of capabilities over a state \<open>'s\<close> that the dispatcher never
  inspects. Each capability returns a result or raises, and may change the state.
  Identifiers taken raw from the argument mapping reach the client as JSON values.
\<close>

record 's ynab_client =
  get_budgets :: "'s \<Rightarrow> (error + budget list) \<times> 's"
  get_default_budget :: "'s \<Rightarrow> (error + budget) \<times> 's"
  get_accounts :: "json \<Rightarrow> 's \<Rightarrow> (error + account list) \<times> 's"
  get_transactions ::
    "json \<Rightarrow> string \<Rightarrow> string option \<Rightarrow> int option \<Rightarrow> 's \<Rightarrow> (error + transaction list) \<times> 's"
  get_monthly_transactions ::
    "json \<Rightarrow> string \<Rightarrow> int option \<Rightarrow> 's \<Rightarrow> (error + transaction list) \<times> 's"
  get_categories :: "json \<Rightarrow> 's \<Rightarrow> (error + category_group list) \<times> 's"
  get_month_category :: "json \<Rightarrow> json \<Rightarrow> json \<Rightarrow> 's \<Rightarrow> (error + category) \<times> 's"
  get_payees :: "json \<Rightarrow> 's \<Rightarrow> (error + payee list) \<times> 's"
  update_payees :: "json \<Rightarrow> json \<Rightarrow> json \<Rightarrow> 's \<Rightarrow> (error + unit) \<times> 's"
  assign_budget_amount :: "json \<Rightarrow> json \<Rightarrow> json \<Rightarrow> json \<Rightarrow> 's \<Rightarrow> (error + unit) \<times> 's"
  create_transaction :: "json \<Rightarrow> pydict \<Rightarrow> 's \<Rightarrow> (error + string) \<times> 's"
  update_transactions :: "json \<Rightarrow> pydict list \<Rightarrow> 's \<Rightarrow> (error + unit) \<times> 's"
  delete_transaction :: "json \<Rightarrow> string \<Rightarrow> 's \<Rightarrow> (error + unit) \<times> 's"
  get_scheduled_transactions :: "json \<Rightarrow> 's \<Rightarrow> (error + scheduled_transaction list) \<times> 's"
  load_overview :: "'s \<Rightarrow> (error + pydict) \<times> 's"
  save_overview :: "pydict \<Rightarrow> 's \<Rightarrow> (error + unit) \<times> 's"
  update_overview_section :: "json \<Rightarrow> json \<Rightarrow> 's \<Rightarrow> (error + unit) \<times> 's"

text \<open>The calls an invocation issues, recorded in the order they are issued.\<close>

datatype call =
    GetBudgets
  | GetDefaultBudget
  | GetAccounts json
  | GetTransactions json string "string option" "int option"
  | GetMonthlyTransactions json string "int option"
  | GetCategories json
  | GetMonthCategory json json json
  | GetPayees json
  | UpdatePayees json json json
  | AssignBudgetAmount json json json json
  | CreateTransaction json pydict
  | UpdateTransactions json "pydict list"
  | DeleteTransaction json string
  | GetScheduledTransactions json
  | LoadOverview
  | SaveOverview pydict
  | UpdateOverviewSection json json

record 's world =
  svc :: 's
  trace :: "call list"

type_synonym ('s, 'a) io = "'s world \<Rightarrow> (error + 'a) \<times> 's world"

definition ret :: "'a \<Rightarrow> ('s, 'a) io" where
  "ret x w = (Inr x, w)"

definition raise :: "error \<Rightarrow> ('s, 'a) io" where
  "raise e w = (Inl e, w)"

definition lift :: "error + 'a \<Rightarrow> ('s, 'a) io" where
  "lift r w = (r, w)"

definition bind :: "('s, 'a) io \<Rightarrow> ('a \<Rightarrow> ('s, 'b) io) \<Rightarrow> ('s, 'b) io" where
  "bind m f w = (case m w of (Inl e, w') \<Rightarrow> (Inl e, w') | (Inr x, w') \<Rightarrow> f x w')"

text \<open>An awaited call of a capability: it is recorded, runs to completion on the
  client's state, and its result or error is what the caller continues with.\<close>

definition perform :: "call \<Rightarrow> ('s \<Rightarrow> (error + 'a) \<times> 's) \<Rightarrow> ('s, 'a) io" where
  "perform c op w =
     (case op (svc w) of (r, s') \<Rightarrow> (r, \<lparr>svc = s', trace = trace w @ [c]\<rparr>))"

text \<open>The calls issued between two worlds of one run.\<close>

definition new_calls :: "'s world \<Rightarrow> 's world \<Rightarrow> call list" where
  "new_calls w w' = drop (length (trace w)) (trace w')"

section \<open>Default budget resolution\<close>

text \<open>
  \<^verbatim>\<open>if arguments and "budget_id" in arguments and arguments["budget_id"]:
      return arguments["budget_id"]
  budget = await ynab_client.get_default_budget()
  return budget.id\<close>
\<close>

definition explicit_budget_id :: "pydict option \<Rightarrow> json option" where
  "explicit_budget_id arguments =
     (case arguments of
        None \<Rightarrow> None
      | Some a \<Rightarrow>
          if a \<noteq> [] \<and> has_key a ''budget_id''
          then (case map_of a ''budget_id'' of
                  Some v \<Rightarrow> if truthy v then Some v else None
                | None \<Rightarrow> None)
          else None)"

definition get_budget_id :: "'s ynab_client \<Rightarrow> pydict option \<Rightarrow> ('s, json) io" where
  "get_budget_id client arguments =
     (case explicit_budget_id arguments of
        Some v \<Rightarrow> ret v
      | None \<Rightarrow>
          bind (perform GetDefaultBudget (get_default_budget client))
            (\<lambda>budget. ret (JStr (b_id budget))))"

section \<open>Typed argument schemas\<close>

text \<open>
  \<open>model_validate\<close> reads each declared field from the mapping (unknown keys are
  ignored): a required field (\<open>Field(...)\<close>) must be present and coercible; an
  \<open>Optional\<close> field may be absent or null; a field with a default may be absent.
  Any violation is a \<open>ValidationError\<close>.
\<close>

definition vbind :: "error + 'a \<Rightarrow> ('a \<Rightarrow> error + 'b) \<Rightarrow> error + 'b" where
  "vbind r f = (case r of Inl e \<Rightarrow> Inl e | Inr x \<Rightarrow> f x)"

definition req_field :: "(json \<Rightarrow> 'a option) \<Rightarrow> pydict \<Rightarrow> string \<Rightarrow> error + 'a" where
  "req_field co a k =
     (case map_of a k of
        None \<Rightarrow> Inl ValidationError
      | Some v \<Rightarrow> (case co v of None \<Rightarrow> Inl ValidationError | Some x \<Rightarrow> Inr x))"

definition opt_field :: "(json \<Rightarrow> 'a option) \<Rightarrow> pydict \<Rightarrow> string \<Rightarrow> error + 'a option" where
  "opt_field co a k =
     (case map_of a k of
        None \<Rightarrow> Inr None
      | Some v \<Rightarrow>
          if v = JNull then Inr None
          else (case co v of None \<Rightarrow> Inl ValidationError | Some x \<Rightarrow> Inr (Some x)))"

definition default_field :: "(json \<Rightarrow> 'a option) \<Rightarrow> 'a \<Rightarrow> pydict \<Rightarrow> string \<Rightarrow> error + 'a" where
  "default_field co d a k =
     (case map_of a k of
        None \<Rightarrow> Inr d
      | Some v \<Rightarrow> (case co v of None \<Rightarrow> Inl ValidationError | Some x \<Rightarrow> Inr x))"

text \<open>\<open>model_dump\<close> writes \<open>None\<close> for an unset optional field.\<close>

definition dump_opt :: "('a \<Rightarrow> json) \<Rightarrow> 'a option \<Rightarrow> json" where
  "dump_opt f x = (case x of None \<Rightarrow> JNull | Some y \<Rightarrow> f y)"

text \<open>\<open>BudgetIdInput\<close>, and \<open>ListAccountsInput\<close>, \<open>ListCategoriesInput\<close>,
  \<open>ListPayeesInput\<close>, which add nothing to it.\<close>

record BudgetIdInput =
  budget_id :: "string option"

definition validate_BudgetIdInput :: "runtime \<Rightarrow> pydict \<Rightarrow> error + BudgetIdInput" where
  "validate_BudgetIdInput rt a =
     vbind (opt_field (coerce_str rt) a ''budget_id'') (\<lambda>b. Inr \<lparr>budget_id = b\<rparr>)"

definition dump_BudgetIdInput :: "BudgetIdInput \<Rightarrow> pydict" where
  "dump_BudgetIdInput r = [(''budget_id'', dump_opt JStr (budget_id r))]"

record ListMonthlyTransactionsInput =
  lm_budget_id :: "string option"
  lm_month :: string
  lm_limit :: "int option"

definition validate_ListMonthlyTransactionsInput ::
  "runtime \<Rightarrow> pydict \<Rightarrow> error + ListMonthlyTransactionsInput" where
  "validate_ListMonthlyTransactionsInput rt a =
     vbind (opt_field (coerce_str rt) a ''budget_id'') (\<lambda>b.
     vbind (req_field (coerce_str rt) a ''month'') (\<lambda>m.
     vbind (opt_field (coerce_int rt) a ''limit'') (\<lambda>l.
       Inr \<lparr>lm_budget_id = b, lm_month = m, lm_limit = l\<rparr>)))"

definition dump_ListMonthlyTransactionsInput :: "ListMonthlyTransactionsInput \<Rightarrow> pydict" where
  "dump_ListMonthlyTransactionsInput r =
     [(''budget_id'', dump_opt JStr (lm_budget_id r)),
      (''month'', JStr (lm_month r)),
      (''limit'', dump_opt JInt (lm_limit r))]"

record ListTransactionsInput =
  lt_budget_id :: "string option"
  lt_account_id :: string
  lt_since_date :: "string option"
  lt_limit :: "int option"

definition validate_ListTransactionsInput ::
  "runtime \<Rightarrow> pydict \<Rightarrow> error + ListTransactionsInput" where
  "validate_ListTransactionsInput rt a =
     vbind (opt_field (coerce_str rt) a ''budget_id'') (\<lambda>b.
     vbind (req_field (coerce_str rt) a ''account_id'') (\<lambda>acc.
     vbind (opt_field (coerce_str rt) a ''since_date'') (\<lambda>s.
     vbind (opt_field (coerce_int rt) a ''limit'') (\<lambda>l.
       Inr \<lparr>lt_budget_id = b, lt_account_id = acc, lt_since_date = s, lt_limit = l\<rparr>))))"

definition dump_ListTransactionsInput :: "ListTransactionsInput \<Rightarrow> pydict" where
  "dump_ListTransactionsInput r =
     [(''budget_id'', dump_opt JStr (lt_budget_id r)),
      (''account_id'', JStr (lt_account_id r)),
      (''since_date'', dump_opt JStr (lt_since_date r)),
      (''limit'', dump_opt JInt (lt_limit r))]"

record DeleteTransactionInput =
  dt_budget_id :: "string option"
  dt_transaction_id :: string

definition validate_DeleteTransactionInput ::
  "runtime \<Rightarrow> pydict \<Rightarrow> error + DeleteTransactionInput" where
  "validate_DeleteTransactionInput rt a =
     vbind (opt_field (coerce_str rt) a ''budget_id'') (\<lambda>b.
     vbind (req_field (coerce_str rt) a ''transaction_id'') (\<lambda>t.
       Inr \<lparr>dt_budget_id = b, dt_transaction_id = t\<rparr>))"

definition dump_DeleteTransactionInput :: "DeleteTransactionInput \<Rightarrow> pydict" where
  "dump_DeleteTransactionInput r =
     [(''budget_id'', dump_opt JStr (dt_budget_id r)),
      (''transaction_id'', JStr (dt_transaction_id r))]"

record CreateTransactionInput =
  ct_budget_id :: "string option"
  ct_account_id :: string
  ct_date :: string
  ct_amount :: int
  ct_payee_id :: "string option"
  ct_payee_name :: "string option"
  ct_category_id :: "string option"
  ct_memo :: "string option"
  ct_cleared :: "string option"
  ct_approved :: bool
  ct_flag_color :: "string option"
  ct_import_id :: "string option"

definition validate_CreateTransactionInput ::
  "runtime \<Rightarrow> pydict \<Rightarrow> error + CreateTransactionInput" where
  "validate_CreateTransactionInput rt a =
     vbind (opt_field (coerce_str rt) a ''budget_id'') (\<lambda>b.
     vbind (req_field (coerce_str rt) a ''account_id'') (\<lambda>acc.
     vbind (req_field (coerce_str rt) a ''date'') (\<lambda>d.
     vbind (req_field (coerce_int rt) a ''amount'') (\<lambda>am.
     vbind (opt_field (coerce_str rt) a ''payee_id'') (\<lambda>pid.
     vbind (opt_field (coerce_str rt) a ''payee_name'') (\<lambda>pn.
     vbind (opt_field (coerce_str rt) a ''category_id'') (\<lambda>cid.
     vbind (opt_field (coerce_str rt) a ''memo'') (\<lambda>me.
     vbind (opt_field (coerce_str rt) a ''cleared'') (\<lambda>cl.
     vbind (default_field (coerce_bool rt) False a ''approved'') (\<lambda>ap.
     vbind (opt_field (coerce_str rt) a ''flag_color'') (\<lambda>fc.
     vbind (opt_field (coerce_str rt) a ''import_id'') (\<lambda>im.
       Inr \<lparr>ct_budget_id = b, ct_account_id = acc, ct_date = d, ct_amount = am,
            ct_payee_id = pid, ct_payee_name = pn, ct_category_id = cid, ct_memo = me,
            ct_cleared = cl, ct_approved = ap, ct_flag_color = fc,
            ct_import_id = im\<rparr>))))))))))))"

definition dump_CreateTransactionInput :: "CreateTransactionInput \<Rightarrow> pydict" where
  "dump_CreateTransactionInput r =
     [(''budget_id'', dump_opt JStr (ct_budget_id r)),
      (''account_id'', JStr (ct_account_id r)),
      (''date'', JStr (ct_date r)),
      (''amount'', JInt (ct_amount r)),
      (''payee_id'', dump_opt JStr (ct_payee_id r)),
      (''payee_name'', dump_opt JStr (ct_payee_name r)),
      (''category_id'', dump_opt JStr (ct_category_id r)),
      (''memo'', dump_opt JStr (ct_memo r)),
      (''cleared'', dump_opt JStr (ct_cleared r)),
      (''approved'', JBool (ct_approved r)),
      (''flag_color'', dump_opt JStr (ct_flag_color r)),
      (''import_id'', dump_opt JStr (ct_import_id r))]"

record TransactionUpdate =
  tu_id :: string
  tu_account_id :: "string option"
  tu_date :: "string option"
  tu_amount :: "int option"
  tu_category_id :: "string option"
  tu_payee_id :: "string option"
  tu_memo :: "string option"
  tu_cleared :: "string option"
  tu_approved :: "bool option"
  tu_flag_color :: "string option"

definition validate_TransactionUpdate :: "runtime \<Rightarrow> json \<Rightarrow> error + TransactionUpdate" where
  "validate_TransactionUpdate rt v =
     (case v of
        JObj a \<Rightarrow>
          vbind (req_field (coerce_str rt) a ''id'') (\<lambda>i.
          vbind (opt_field (coerce_str rt) a ''account_id'') (\<lambda>acc.
          vbind (opt_field (coerce_str rt) a ''date'') (\<lambda>d.
          vbind (opt_field (coerce_int rt) a ''amount'') (\<lambda>am.
          vbind (opt_field (coerce_str rt) a ''category_id'') (\<lambda>cid.
          vbind (opt_field (coerce_str rt) a ''payee_id'') (\<lambda>pid.
          vbind (opt_field (coerce_str rt) a ''memo'') (\<lambda>me.
          vbind (opt_field (coerce_str rt) a ''cleared'') (\<lambda>cl.
          vbind (opt_field (coerce_bool rt) a ''approved'') (\<lambda>ap.
          vbind (opt_field (coerce_str rt) a ''flag_color'') (\<lambda>fc.
            Inr \<lparr>tu_id = i, tu_account_id = acc, tu_date = d, tu_amount = am,
                 tu_category_id = cid, tu_payee_id = pid, tu_memo = me, tu_cleared = cl,
                 tu_approved = ap, tu_flag_color = fc\<rparr>))))))))))
      | _ \<Rightarrow> Inl ValidationError)"

definition dump_TransactionUpdate :: "TransactionUpdate \<Rightarrow> pydict" where
  "dump_TransactionUpdate r =
     [(''id'', JStr (tu_id r)),
      (''account_id'', dump_opt JStr (tu_account_id r)),
      (''date'', dump_opt JStr (tu_date r)),
      (''amount'', dump_opt JInt (tu_amount r)),
      (''category_id'', dump_opt JStr (tu_category_id r)),
      (''payee_id'', dump_opt JStr (tu_payee_id r)),
      (''memo'', dump_opt JStr (tu_memo r)),
      (''cleared'', dump_opt JStr (tu_cleared r)),
      (''approved'', dump_opt JBool (tu_approved r)),
      (''flag_color'', dump_opt JStr (tu_flag_color r))]"

record UpdateTransactionsInput =
  ut_budget_id :: "string option"
  ut_transactions :: "TransactionUpdate list"

fun validate_each :: "runtime \<Rightarrow> json list \<Rightarrow> error + TransactionUpdate list" where
  "validate_each rt [] = Inr []"
| "validate_each rt (v # vs) =
     vbind (validate_TransactionUpdate rt v) (\<lambda>r.
     vbind (validate_each rt vs) (\<lambda>rs. Inr (r # rs)))"

definition validate_UpdateTransactionsInput ::
  "runtime \<Rightarrow> pydict \<Rightarrow> error + UpdateTransactionsInput" where
  "validate_UpdateTransactionsInput rt a =
     vbind (opt_field (coerce_str rt) a ''budget_id'') (\<lambda>b.
     vbind (case map_of a ''transactions'' of
              Some (JList vs) \<Rightarrow> validate_each rt vs
            | _ \<Rightarrow> Inl ValidationError) (\<lambda>txs.
       Inr \<lparr>ut_budget_id = b, ut_transactions = txs\<rparr>))"

definition dump_UpdateTransactionsInput :: "UpdateTransactionsInput \<Rightarrow> pydict" where
  "dump_UpdateTransactionsInput r =
     [(''budget_id'', dump_opt JStr (ut_budget_id r)),
      (''transactions'', JList (map (\<lambda>tx. JObj (dump_TransactionUpdate tx)) (ut_transactions r)))]"

text \<open>
  The keyword arguments of the request objects:
  \<^verbatim>\<open>{k: v for k, v in args.model_dump().items() if v is not None and k != "budget_id"}\<close>
  for \<open>NewTransaction\<close>, and
  \<^verbatim>\<open>{k: v for k, v in tx.model_dump().items() if v is not None}\<close>
  for \<open>SaveTransactionWithIdOrImportId\<close>. A request object is represented by the
  keyword arguments it was built from.
\<close>

definition transaction_data :: "CreateTransactionInput \<Rightarrow> pydict" where
  "transaction_data args =
     filter (\<lambda>(k, v). v \<noteq> JNull \<and> k \<noteq> ''budget_id'') (dump_CreateTransactionInput args)"

definition update_data :: "TransactionUpdate \<Rightarrow> pydict" where
  "update_data tx = filter (\<lambda>(k, v). v \<noteq> JNull) (dump_TransactionUpdate tx)"

text \<open>
  \<open>NewTransaction(**transaction_data)\<close> and \<open>SaveTransactionWithIdOrImportId(**...)\<close>:
  the request models of the SDK validate the keyword arguments when the object is
  constructed, and raise \<open>ValidationError\<close> for what they do not accept. The list of
  update requests is built record by record, so the first rejection ends it.
\<close>

definition NewTransaction :: "runtime \<Rightarrow> pydict \<Rightarrow> error + pydict" where
  "NewTransaction rt kwargs =
     (if new_transaction_accepts rt kwargs then Inr kwargs else Inl ValidationError)"

definition SaveTransactionWithIdOrImportId :: "runtime \<Rightarrow> pydict \<Rightarrow> error + pydict" where
  "SaveTransactionWithIdOrImportId rt kwargs =
     (if save_transaction_accepts rt kwargs then Inr kwargs else Inl ValidationError)"

fun updates :: "runtime \<Rightarrow> TransactionUpdate list \<Rightarrow> error + pydict list" where
  "updates rt [] = Inr []"
| "updates rt (tx # txs) =
     vbind (SaveTransactionWithIdOrImportId rt (update_data tx)) (\<lambda>u.
     vbind (updates rt txs) (\<lambda>us. Inr (u # us)))"

section \<open>The dispatcher, branch by branch\<close>

definition text_result :: "string \<Rightarrow> ('s, content list) io" where
  "text_result t = ret [TextContent t]"

subsection \<open>Listing tools\<close>

definition tool_list_budgets :: "'s ynab_client \<Rightarrow> ('s, content list) io" where
  "tool_list_budgets client =
     bind (perform GetBudgets (get_budgets client)) (\<lambda>budgets.
       if budgets = [] then text_result ''No budgets found.''
       else text_result
         (''Here are your available budgets:\<newline>'' @
          join_nl (map (\<lambda>b. ''- '' @ b_name b @ '' (ID: '' @ b_id b @ '')'') budgets)))"

definition tool_list_accounts ::
  "runtime \<Rightarrow> 's ynab_client \<Rightarrow> pydict option \<Rightarrow> ('s, content list) io" where
  "tool_list_accounts rt client arguments =
     bind (lift (validate_BudgetIdInput rt (arguments_or_empty arguments))) (\<lambda>args.
     bind (get_budget_id client (Some (dump_BudgetIdInput args))) (\<lambda>bid.
     bind (perform (GetAccounts bid) (get_accounts client bid)) (\<lambda>accounts.
       if accounts = [] then text_result ''No accounts found for this budget.''
       else text_result
         (''Here are the accounts for budget '' @ py_str rt bid @ '':\<newline>'' @
          join_nl (map (\<lambda>acc. ''- '' @ acc_name acc @ '' (ID: '' @ acc_id acc @ ''): '' @
                          money rt (acc_balance acc) @ '' (Type: '' @ acc_type acc @ '')'')
                     accounts)))))"

definition tool_list_transactions ::
  "runtime \<Rightarrow> 's ynab_client \<Rightarrow> pydict option \<Rightarrow> ('s, content list) io" where
  "tool_list_transactions rt client arguments =
     bind (lift (validate_ListTransactionsInput rt (arguments_or_empty arguments))) (\<lambda>args.
     bind (get_budget_id client (Some (dump_ListTransactionsInput args))) (\<lambda>bid.
     bind (perform (GetTransactions bid (lt_account_id args) (lt_since_date args) (lt_limit args))
             (get_transactions client bid (lt_account_id args) (lt_since_date args)
                (lt_limit args))) (\<lambda>transactions.
       if transactions = [] then text_result ''No transactions found for this account.''
       else text_result
         (''Here are the latest transactions:\<newline>'' @
          join_nl (map (\<lambda>t. ''- '' @ t_var_date t @ '': '' @ or_na (t_payee_name t) @ '' | '' @
                          or_na (t_category_name t) @ '' | '' @ money rt (t_amount t) @
                          '' (ID: '' @ t_id t @ '')'')
                     transactions)))))"

definition tool_list_monthly_transactions ::
  "runtime \<Rightarrow> 's ynab_client \<Rightarrow> pydict option \<Rightarrow> ('s, content list) io" where
  "tool_list_monthly_transactions rt client arguments =
     bind (lift (validate_ListMonthlyTransactionsInput rt (arguments_or_empty arguments)))
       (\<lambda>args.
     bind (get_budget_id client (Some (dump_ListMonthlyTransactionsInput args))) (\<lambda>bid.
     bind (perform (GetMonthlyTransactions bid (lm_month args) (lm_limit args))
             (get_monthly_transactions client bid (lm_month args) (lm_limit args)))
       (\<lambda>transactions.
       if transactions = [] then text_result ''No transactions found for this month.''
       else text_result
         (''Here are the transactions for '' @ lm_month args @ '':\<newline>'' @
          join_nl (map (\<lambda>t. ''- '' @ t_var_date t @ '': '' @ or_na (t_payee_name t) @ '' | '' @
                          or_na (t_category_name t) @ '' | '' @ t_account_name t @ '' | '' @
                          money rt (t_amount t) @ '' (ID: '' @ t_id t @ '')'')
                     transactions)))))"

text \<open>
  The two nested loops of \<open>list-categories\<close>, each appending to \<open>output\<close>:
  \<^verbatim>\<open>for group in category_groups:
      if not group.hidden and group.categories:
          output += f"\n--- {group.name} ---\n"
          for cat in group.categories:
              if not cat.hidden:
                  ...
                  if cat.goal_type:
                      ...\<close>
\<close>

definition category_details :: "runtime \<Rightarrow> category \<Rightarrow> string" where
  "category_details rt cat =
     ''Budgeted: '' @ money rt (c_budgeted cat) @ '', Spent: '' @ money rt (abs (c_activity cat)) @
     '', Balance: '' @ money rt (c_balance cat)"

definition goal_progress :: "category \<Rightarrow> string" where
  "goal_progress cat =
     show_int (case c_goal_percentage_complete cat of
                 None \<Rightarrow> 0 | Some p \<Rightarrow> if p \<noteq> 0 then p else 0) @ ''%''"

definition goal_target :: "runtime \<Rightarrow> category \<Rightarrow> string" where
  "goal_target rt cat =
     (case c_goal_target cat of
        None \<Rightarrow> ''N/A''
      | Some t \<Rightarrow> if t \<noteq> 0 then money rt t else ''N/A'')"

definition has_goal_type :: "category \<Rightarrow> bool" where
  "has_goal_type cat = (case c_goal_type cat of None \<Rightarrow> False | Some g \<Rightarrow> g \<noteq> [])"

definition goal_type_text :: "category \<Rightarrow> string" where
  "goal_type_text cat = (case c_goal_type cat of None \<Rightarrow> ''None'' | Some g \<Rightarrow> g)"

fun render_categories :: "runtime \<Rightarrow> category list \<Rightarrow> string \<Rightarrow> string" where
  "render_categories rt [] output = output"
| "render_categories rt (cat # cats) output =
     render_categories rt cats
       (if \<not> c_hidden cat then
          (let output1 = output @ ''- '' @ c_name cat @ '' (ID: '' @ c_id cat @ '')\<newline>  - '' @
                         category_details rt cat @ ''\<newline>''
           in if has_goal_type cat
              then output1 @ ''  - Goal ('' @ goal_type_text cat @ ''): Target '' @
                   goal_target rt cat @ '', '' @ goal_progress cat @ '' complete\<newline>''
              else output1)
        else output)"

fun render_groups :: "runtime \<Rightarrow> category_group list \<Rightarrow> string \<Rightarrow> string" where
  "render_groups rt [] output = output"
| "render_groups rt (grp # grps) output =
     render_groups rt grps
       (if \<not> g_hidden grp \<and> g_categories grp \<noteq> []
        then render_categories rt (g_categories grp)
               (output @ ''\<newline>--- '' @ g_name grp @ '' ---\<newline>'')
        else output)"

definition tool_list_categories ::
  "runtime \<Rightarrow> 's ynab_client \<Rightarrow> pydict option \<Rightarrow> ('s, content list) io" where
  "tool_list_categories rt client arguments =
     bind (lift (validate_BudgetIdInput rt (arguments_or_empty arguments))) (\<lambda>args.
     bind (get_budget_id client (Some (dump_BudgetIdInput args))) (\<lambda>bid.
     bind (perform (GetCategories bid) (get_categories client bid)) (\<lambda>category_groups.
       if category_groups = [] then text_result ''No categories found for this budget.''
       else text_result
         (render_groups rt category_groups
            ''Here are the available categories and their status for the current month:\<newline>''))))"

definition tool_list_payees ::
  "runtime \<Rightarrow> 's ynab_client \<Rightarrow> pydict option \<Rightarrow> ('s, content list) io" where
  "tool_list_payees rt client arguments =
     bind (lift (validate_BudgetIdInput rt (arguments_or_empty arguments))) (\<lambda>args.
     bind (get_budget_id client (Some (dump_BudgetIdInput args))) (\<lambda>bid.
     bind (perform (GetPayees bid) (get_payees client bid)) (\<lambda>payees.
       if payees = [] then text_result ''No payees found for this budget.''
       else text_result
         (''Here are the payees for budget '' @ py_str rt bid @ '':\<newline>'' @
          join_nl (map (\<lambda>p. ''- '' @ p_name p @ '' (ID: '' @ p_id p @ '')'') payees)))))"

definition tool_list_scheduled_transactions ::
  "runtime \<Rightarrow> 's ynab_client \<Rightarrow> pydict option \<Rightarrow> ('s, content list) io" where
  "tool_list_scheduled_transactions rt client arguments =
     bind (get_budget_id client arguments) (\<lambda>bid.
     bind (perform (GetScheduledTransactions bid) (get_scheduled_transactions client bid))
       (\<lambda>transactions.
       if transactions = [] then text_result ''No scheduled transactions found.''
       else text_result
         (''Here are the scheduled transactions:\<newline>'' @
          join_nl (map (\<lambda>t. ''- '' @ sch_var_date t @ '': '' @ or_na (sch_payee_name t) @
                          '' | '' @ or_na (sch_category_name t) @ '' | '' @
                          money rt (sch_amount t) @ '' (Frequency: '' @ sch_frequency t @ '')'')
                     transactions))))"

subsection \<open>Tools that check their required keys ad hoc\<close>

text \<open>\<open>not arguments or k1 not in arguments or ...\<close>\<close>

definition missing_required :: "pydict option \<Rightarrow> string list \<Rightarrow> bool" where
  "missing_required arguments ks =
     (no_arguments arguments \<or> (\<exists>k \<in> set ks. \<not> has_key (arguments_or_empty arguments) k))"

definition arg :: "pydict option \<Rightarrow> string \<Rightarrow> ('s, json) io" where
  "arg arguments k = lift (subscript (arguments_or_empty arguments) k)"

definition tool_rename_payees ::
  "runtime \<Rightarrow> 's ynab_client \<Rightarrow> pydict option \<Rightarrow> ('s, content list) io" where
  "tool_rename_payees rt client arguments =
     (if missing_required arguments [''payee_ids'', ''name'']
      then raise (ValueError ''Missing required arguments payee_ids and name'')
      else
        bind (get_budget_id client arguments) (\<lambda>bid.
        bind (arg arguments ''payee_ids'') (\<lambda>payee_ids.
        bind (arg arguments ''name'') (\<lambda>name.
        bind (perform (UpdatePayees bid payee_ids name) (update_payees client bid payee_ids name))
          (\<lambda>_.
        bind (lift (py_len payee_ids)) (\<lambda>n.
          text_result
            (''Successfully renamed '' @ show_nat n @ '' payees to '' @ [CHR 0x27] @
             py_str rt name @ [CHR 0x27] @ ''.'')))))))"

definition tool_assign_budget_amount ::
  "runtime \<Rightarrow> 's ynab_client \<Rightarrow> pydict option \<Rightarrow> ('s, content list) io" where
  "tool_assign_budget_amount rt client arguments =
     (if missing_required arguments [''month'', ''category_id'', ''amount'']
      then raise (ValueError ''Missing required arguments'')
      else
        bind (get_budget_id client arguments) (\<lambda>bid.
        bind (arg arguments ''month'') (\<lambda>month.
        bind (arg arguments ''category_id'') (\<lambda>category_id.
        bind (arg arguments ''amount'') (\<lambda>amount.
        bind (perform (AssignBudgetAmount bid month category_id amount)
                (assign_budget_amount client bid month category_id amount)) (\<lambda>_.
        bind (lift (py_div_1000 amount)) (\<lambda>shown.
          text_result
            (''Successfully assigned '' @ format_2f rt shown @ '' to category '' @
             py_str rt category_id @ '' for '' @ py_str rt month @ ''.''))))))))"

definition tool_move_budget_amount ::
  "runtime \<Rightarrow> 's ynab_client \<Rightarrow> pydict option \<Rightarrow> ('s, content list) io" where
  "tool_move_budget_amount rt client arguments =
     (if missing_required arguments [''month'', ''from_category_id'', ''to_category_id'', ''amount'']
      then raise (ValueError ''Missing required arguments'')
      else
        bind (get_budget_id client arguments) (\<lambda>bid.
        bind (arg arguments ''month'') (\<lambda>month.
        bind (arg arguments ''from_category_id'') (\<lambda>from_category_id.
        bind (arg arguments ''to_category_id'') (\<lambda>to_category_id.
        bind (arg arguments ''amount'') (\<lambda>amount_to_move.
        bind (perform (GetMonthCategory bid month from_category_id)
                (get_month_category client bid month from_category_id)) (\<lambda>from_cat.
        bind (perform (GetMonthCategory bid month to_category_id)
                (get_month_category client bid month to_category_id)) (\<lambda>to_cat.
        bind (lift (py_sub (c_budgeted from_cat) amount_to_move)) (\<lambda>new_from_budgeted.
        bind (lift (py_add (c_budgeted to_cat) amount_to_move)) (\<lambda>new_to_budgeted.
        bind (perform (AssignBudgetAmount bid month from_category_id new_from_budgeted)
                (assign_budget_amount client bid month from_category_id new_from_budgeted))
          (\<lambda>_.
        bind (perform (AssignBudgetAmount bid month to_category_id new_to_budgeted)
                (assign_budget_amount client bid month to_category_id new_to_budgeted))
          (\<lambda>_.
        bind (lift (py_div_1000 amount_to_move)) (\<lambda>shown.
          text_result
            (''Successfully moved '' @ format_2f rt shown @ '' from category '' @ c_name from_cat @
             '' to '' @ c_name to_cat @ '' for '' @ py_str rt month @ ''.''))))))))))))))"

subsection \<open>Transaction tools\<close>

definition tool_create_transaction ::
  "runtime \<Rightarrow> 's ynab_client \<Rightarrow> pydict option \<Rightarrow> ('s, content list) io" where
  "tool_create_transaction rt client arguments =
     bind (lift (validate_CreateTransactionInput rt (arguments_or_empty arguments))) (\<lambda>args.
     bind (get_budget_id client (Some (dump_CreateTransactionInput args))) (\<lambda>bid.
     bind (lift (NewTransaction rt (transaction_data args))) (\<lambda>transaction.
     bind (perform (CreateTransaction bid transaction)
             (create_transaction client bid transaction)) (\<lambda>new_id.
       text_result (''Successfully created transaction with ID: '' @ new_id)))))"

definition tool_update_transactions ::
  "runtime \<Rightarrow> 's ynab_client \<Rightarrow> pydict option \<Rightarrow> ('s, content list) io" where
  "tool_update_transactions rt client arguments =
     bind (lift (validate_UpdateTransactionsInput rt (arguments_or_empty arguments))) (\<lambda>args.
     bind (get_budget_id client (Some (dump_UpdateTransactionsInput args))) (\<lambda>bid.
     bind (lift (updates rt (ut_transactions args))) (\<lambda>requests.
     bind (perform (UpdateTransactions bid requests)
             (update_transactions client bid requests)) (\<lambda>_.
       text_result
         (''Successfully updated '' @ show_nat (length (ut_transactions args)) @
          '' transactions.'')))))"

definition tool_delete_transaction ::
  "runtime \<Rightarrow> 's ynab_client \<Rightarrow> pydict option \<Rightarrow> ('s, content list) io" where
  "tool_delete_transaction rt client arguments =
     bind (lift (validate_DeleteTransactionInput rt (arguments_or_empty arguments))) (\<lambda>args.
     bind (get_budget_id client (Some (dump_DeleteTransactionInput args))) (\<lambda>bid.
     bind (perform (DeleteTransaction bid (dt_transaction_id args))
             (delete_transaction client bid (dt_transaction_id args))) (\<lambda>_.
       text_result (''Successfully deleted transaction '' @ dt_transaction_id args @ ''.''))))"

subsection \<open>Overview tools\<close>

definition tool_get_financial_overview ::
  "runtime \<Rightarrow> 's ynab_client \<Rightarrow> ('s, content list) io" where
  "tool_get_financial_overview rt client =
     bind (perform LoadOverview (load_overview client)) (\<lambda>overview.
       text_result
         (''Financial Overview (Last Updated: '' @
          (case map_of overview ''last_updated'' of
             None \<Rightarrow> ''Never'' | Some v \<Rightarrow> py_str rt v) @
          ''):\<newline>\<newline>'' @ json_dumps rt overview))"

definition tool_update_financial_overview_section ::
  "runtime \<Rightarrow> 's ynab_client \<Rightarrow> pydict option \<Rightarrow> ('s, content list) io" where
  "tool_update_financial_overview_section rt client arguments =
     (if missing_required arguments [''section'', ''data'']
      then raise (ValueError ''Missing required arguments section and data'')
      else
        bind (arg arguments ''section'') (\<lambda>section.
        bind (arg arguments ''data'') (\<lambda>data.
        bind (perform (UpdateOverviewSection section data)
                (update_overview_section client section data)) (\<lambda>_.
          text_result
            (''Successfully updated the '' @ py_str rt section @
             '' section of the financial overview.'')))))"

text \<open>
  The aggregation loop of \<open>refresh-financial-overview\<close>: a group whose name matches
  assigns (not adds to) the corresponding total.
\<close>

definition visible_budgeted :: "category_group \<Rightarrow> int" where
  "visible_budgeted grp =
     sum_list (map c_budgeted (filter (\<lambda>cat. \<not> c_hidden cat) (g_categories grp)))"

fun monthly_totals :: "category_group list \<Rightarrow> int \<times> int \<times> int \<Rightarrow> int \<times> int \<times> int" where
  "monthly_totals [] totals = totals"
| "monthly_totals (grp # grps) (fixed_bills, discretionary_spending, savings) =
     monthly_totals grps
       (if g_name grp = ''Bills'' then (visible_budgeted grp, discretionary_spending, savings)
        else if g_name grp = ''Wants'' then (fixed_bills, visible_budgeted grp, savings)
        else if g_name grp = ''Savings'' then (fixed_bills, discretionary_spending, visible_budgeted grp)
        else (fixed_bills, discretionary_spending, savings))"

definition savings_rate :: "int \<times> int \<times> int \<Rightarrow> json" where
  "savings_rate totals =
     (case totals of (fixed_bills, discretionary_spending, savings) \<Rightarrow>
        let total_budgeted = fixed_bills + discretionary_spending + savings
        in if total_budgeted > 0
           then JNum (float_mul (amount_div savings total_budgeted) (Finite 100))
           else JInt 0)"

definition monthly_overview :: "category_group list \<Rightarrow> json" where
  "monthly_overview categories =
     (let totals = monthly_totals categories (0, 0, 0)
      in case totals of (fixed_bills, discretionary_spending, savings) \<Rightarrow>
           JObj [(''fixed_bills'', JNum (amount_div fixed_bills 1000)),
                 (''discretionary_spending'', JNum (amount_div discretionary_spending 1000)),
                 (''savings_rate'', savings_rate totals)])"

text \<open>\<open>{acc.name: acc.balance / 1000 for acc in accounts}\<close>\<close>

fun account_balances :: "account list \<Rightarrow> pydict \<Rightarrow> pydict" where
  "account_balances [] d = d"
| "account_balances (acc # accs) d =
     account_balances accs (dict_set d (acc_name acc) (JNum (amount_div (acc_balance acc) 1000)))"

definition refreshed_overview :: "pydict \<Rightarrow> account list \<Rightarrow> category_group list \<Rightarrow> pydict" where
  "refreshed_overview overview accounts categories =
     dict_set
       (dict_set overview ''account_balances'' (JObj (account_balances accounts [])))
       ''monthly_overview'' (monthly_overview categories)"

definition tool_refresh_financial_overview ::
  "'s ynab_client \<Rightarrow> pydict option \<Rightarrow> ('s, content list) io" where
  "tool_refresh_financial_overview client arguments =
     bind (get_budget_id client arguments) (\<lambda>bid.
     bind (perform (GetAccounts bid) (get_accounts client bid)) (\<lambda>accounts.
     bind (perform (GetCategories bid) (get_categories client bid)) (\<lambda>categories.
     bind (perform LoadOverview (load_overview client)) (\<lambda>overview.
     bind (perform (SaveOverview (refreshed_overview overview accounts categories))
             (save_overview client (refreshed_overview overview accounts categories))) (\<lambda>_.
       text_result ''Successfully refreshed the financial overview with latest YNAB data.'')))))"

section \<open>The dispatcher\<close>

definition handle_call_tool ::
  "runtime \<Rightarrow> 's ynab_client \<Rightarrow> string \<Rightarrow> pydict option \<Rightarrow> ('s, content list) io" where
  "handle_call_tool rt client name arguments =
     (if name = ''list-budgets'' then tool_list_budgets client
      else if name = ''list-accounts'' then tool_list_accounts rt client arguments
      else if name = ''list-transactions'' then tool_list_transactions rt client arguments
      else if name = ''list-monthly-transactions''
        then tool_list_monthly_transactions rt client arguments
      else if name = ''list-categories'' then tool_list_categories rt client arguments
      else if name = ''list-payees'' then tool_list_payees rt client arguments
      else if name = ''rename-payees'' then tool_rename_payees rt client arguments
      else if name = ''assign-budget-amount'' then tool_assign_budget_amount rt client arguments
      else if name = ''create-transaction'' then tool_create_transaction rt client arguments
      else if name = ''update-transactions'' then tool_update_transactions rt client arguments
      else if name = ''delete-transaction'' then tool_delete_transaction rt client arguments
      else if name = ''move-budget-amount'' then tool_move_budget_amount rt client arguments
      else if name = ''list-scheduled-transactions''
        then tool_list_scheduled_transactions rt client arguments
      else if name = ''get-financial-overview'' then tool_get_financial_overview rt client
      else if name = ''update-financial-overview-section''
        then tool_update_financial_overview_section rt client arguments
      else if name = ''refresh-financial-overview''
        then tool_refresh_financial_overview client arguments
      else raise (ValueError (''Unknown tool: '' @ name)))"

section \<open>A reference client\<close>

text \<open>
  Modelled from the spec: the module \<open>ynab_client\<close> and its \<open>notes\<close> store are not among
  the sources. The reference client keeps one budget in memory. What the specification
  says of the capabilities is what it does: \<open>assign_budget_amount\<close> sets a category's
  budgeted amount for a month to exactly the amount given, \<open>get_month_category\<close> reads
  it; \<open>load\<close> returns an empty document when none exists, \<open>save\<close> writes the whole
  document and stamps \<open>last_updated\<close>, \<open>update_section\<close> loads, replaces or inserts the
  named top-level key and saves. Listing capabilities return what is stored, whatever the
  filters; the remaining mutations are not described and raise.
\<close>

text \<open>Modelled from the spec: the state behind the client, which \<open>ynab_client\<close>
  (absent) keeps at the service and on disk: what the service lists, the categories of
  each month, the overview file if it exists, and the time a write would be stamped with.\<close>

record memory =
  m_budgets :: "budget list"
  m_default :: "budget option"
  m_accounts :: "account list"
  m_groups :: "category_group list"
  m_payees :: "payee list"
  m_transactions :: "transaction list"
  m_scheduled :: "scheduled_transaction list"
  m_month_categories :: "((json \<times> json) \<times> category) list"
  m_overview :: "pydict option"
  m_now :: string

text \<open>Modelled from the spec: a capability of \<open>ynab_client\<close> (absent) of which the
  specification gives only the name fails with a service error.\<close>

definition unavailable :: "memory \<Rightarrow> (error + 'a) \<times> memory" where
  "unavailable s = (Inl (UpstreamServiceError ''unavailable''), s)"

text \<open>Modelled from the spec: \<open>get_default_budget\<close> of \<open>ynab_client\<close> (absent)
  returns the budget the service designates as default, or fails with a service error.\<close>

definition memory_get_default_budget :: "memory \<Rightarrow> (error + budget) \<times> memory" where
  "memory_get_default_budget s =
     (case m_default s of
        None \<Rightarrow> (Inl (UpstreamServiceError ''no default budget''), s)
      | Some b \<Rightarrow> (Inr b, s))"

text \<open>Modelled from the spec: \<open>get_month_category\<close> of \<open>ynab_client\<close> (absent)
  returns the category as it stands for the month, or fails with a service error.\<close>

definition memory_get_month_category ::
  "json \<Rightarrow> json \<Rightarrow> json \<Rightarrow> memory \<Rightarrow> (error + category) \<times> memory" where
  "memory_get_month_category bid month cid s =
     (case map_of (m_month_categories s) (month, cid) of
        None \<Rightarrow> (Inl (UpstreamServiceError ''category not found''), s)
      | Some cat \<Rightarrow> (Inr cat, s))"

text \<open>Modelled from the spec: \<open>assign_budget_amount\<close> of \<open>ynab_client\<close> (absent)
  sets the budgeted amount of the category for the month to exactly the amount given (an
  absolute set, not a delta).\<close>

definition memory_assign_budget_amount ::
  "json \<Rightarrow> json \<Rightarrow> json \<Rightarrow> json \<Rightarrow> memory \<Rightarrow> (error + unit) \<times> memory" where
  "memory_assign_budget_amount bid month cid amount s =
     (case map_of (m_month_categories s) (month, cid) of
        None \<Rightarrow> (Inl (UpstreamServiceError ''category not found''), s)
      | Some cat \<Rightarrow>
          (case amount of
             JInt n \<Rightarrow>
               (Inr (),
                s\<lparr>m_month_categories :=
                    dict_set (m_month_categories s) (month, cid) (cat\<lparr>c_budgeted := n\<rparr>)\<rparr>)
           | _ \<Rightarrow> (Inl (UpstreamServiceError ''amount must be an integer''), s)))"

text \<open>Modelled from the spec: \<open>load_overview\<close> of the \<open>notes\<close> store (absent)
  returns the stored document, or an empty document without \<open>last_updated\<close> when none
  exists; it never fails for a missing file.\<close>

definition notes_load_overview :: "memory \<Rightarrow> (error + pydict) \<times> memory" where
  "notes_load_overview s = (case m_overview s of None \<Rightarrow> (Inr [], s) | Some d \<Rightarrow> (Inr d, s))"

text \<open>Modelled from the spec: \<open>save_overview\<close> of the \<open>notes\<close> store (absent)
  writes the whole document and stamps \<open>last_updated\<close>.\<close>

definition notes_save_overview :: "pydict \<Rightarrow> memory \<Rightarrow> (error + unit) \<times> memory" where
  "notes_save_overview d s =
     (Inr (), s\<lparr>m_overview := Some (dict_set d ''last_updated'' (JStr (m_now s)))\<rparr>)"

text \<open>Modelled from the spec: \<open>update_overview_section\<close> of the \<open>notes\<close> store
  (absent) loads, replaces or inserts the named top-level key with the data, and saves;
  sections are keyed by string.\<close>

definition notes_update_overview_section ::
  "json \<Rightarrow> json \<Rightarrow> memory \<Rightarrow> (error + unit) \<times> memory" where
  "notes_update_overview_section section data s =
     (case section of
        JStr k \<Rightarrow>
          (case notes_load_overview s of
             (Inl e, s') \<Rightarrow> (Inl e, s')
           | (Inr d, s') \<Rightarrow> notes_save_overview (dict_set d k data) s')
      | _ \<Rightarrow> (Inl (StoreError ''section name is not a string''), s))"

text \<open>Modelled from the spec: the client \<open>ynab_client\<close> (absent) as a whole. The
  listing capabilities return what the state holds.\<close>

definition memory_client :: "memory ynab_client" where
  "memory_client =
     \<lparr>get_budgets = (\<lambda>s. (Inr (m_budgets s), s)),
      get_default_budget = memory_get_default_budget,
      get_accounts = (\<lambda>bid s. (Inr (m_accounts s), s)),
      get_transactions = (\<lambda>bid acc since lim s. (Inr (m_transactions s), s)),
      get_monthly_transactions = (\<lambda>bid month lim s. (Inr (m_transactions s), s)),
      get_categories = (\<lambda>bid s. (Inr (m_groups s), s)),
      get_month_category = memory_get_month_category,
      get_payees = (\<lambda>bid s. (Inr (m_payees s), s)),
      update_payees = (\<lambda>bid ids name. unavailable),
      assign_budget_amount = memory_assign_budget_amount,
      create_transaction = (\<lambda>bid tx. unavailable),
      update_transactions = (\<lambda>bid txs. unavailable),
      delete_transaction = (\<lambda>bid tid. unavailable),
      get_scheduled_transactions = (\<lambda>bid s. (Inr (m_scheduled s), s)),
      load_overview = notes_load_overview,
      save_overview = notes_save_overview,
      update_overview_section = notes_update_overview_section\<rparr>"

text \<open>A runtime to run examples with: no lax conversions, amounts rendered from their
  exact decimal value, structured values rendered as a placeholder, and request models
  that accept a date only in the form \<open>YYYY-MM-DD\<close>.\<close>

definition iso_date :: "string \<Rightarrow> bool" where
  "iso_date d =
     (length d = 10 \<and> d ! 4 = CHR ''-'' \<and> d ! 7 = CHR ''-'' \<and>
      list_all (\<lambda>i. d ! i \<in> set ''0123456789'') [0, 1, 2, 3, 5, 6, 8, 9])"

definition date_accepted :: "pydict \<Rightarrow> bool" where
  "date_accepted kwargs =
     (case map_of kwargs ''date'' of
        None \<Rightarrow> True
      | Some v \<Rightarrow> (case v of JStr d \<Rightarrow> iso_date d | _ \<Rightarrow> False))"

definition fixed2 :: "rat \<Rightarrow> string" where
  "fixed2 q =
     (let n = nat \<lfloor>abs q * 100 + 1 / 2\<rfloor>
      in (if q < 0 then ''-'' else []) @ show_nat (n div 100) @ ''.'' @
         [digit (n mod 100 div 10), digit (n mod 10)])"

definition plain_runtime :: runtime where
  "plain_runtime =
     \<lparr>lax_int = (\<lambda>v. None),
      lax_bool = (\<lambda>v. None),
      fmt2f = fixed2,
      str_other = (\<lambda>v. case v of JNull \<Rightarrow> ''None'' | JBool b \<Rightarrow> (if b then ''True'' else ''False'')
                            | _ \<Rightarrow> ''...''),
      json_dumps = (\<lambda>d. ''{...}''),
      new_transaction_accepts = date_accepted,
      save_transaction_accepts = date_accepted\<rparr>"

definition empty_memory :: memory where
  "empty_memory =
     \<lparr>m_budgets = [], m_default = Some \<lparr>b_id = ''b-1'', b_name = ''Home''\<rparr>, m_accounts = [],
      m_groups = [], m_payees = [], m_transactions = [], m_scheduled = [],
      m_month_categories = [], m_overview = None, m_now = ''2024-05-01T00:00:00''\<rparr>"

definition start_world :: "memory world" where
  "start_world = \<lparr>svc = empty_memory, trace = []\<rparr>"

section \<open>Notions used to state properties of runs\<close>

text \<open>Every run of \<open>m\<close> that returns, returns exactly one text block.\<close>

definition yields_text :: "('s, content list) io \<Rightarrow> bool" where
  "yields_text m = (\<forall>w blocks w'. m w = (Inr blocks, w') \<longrightarrow> (\<exists>t. blocks = [TextContent t]))"

text \<open>A validator that fails, fails with \<open>ValidationError\<close>.\<close>

definition only_validation_error :: "error + 'a \<Rightarrow> bool" where
  "only_validation_error r = (\<forall>e. r = Inl e \<longrightarrow> e = ValidationError)"

text \<open>The typed schema of the named tool rejects the arguments (\<open>model_validate\<close>
  raises), for the tools that validate through a schema.\<close>

definition validation_fails :: "runtime \<Rightarrow> string \<Rightarrow> pydict option \<Rightarrow> bool" where
  "validation_fails rt name arguments =
     (let a = arguments_or_empty arguments in
      if name = ''list-accounts'' then isl (validate_BudgetIdInput rt a)
      else if name = ''list-transactions'' then isl (validate_ListTransactionsInput rt a)
      else if name = ''list-monthly-transactions''
        then isl (validate_ListMonthlyTransactionsInput rt a)
      else if name = ''list-categories'' then isl (validate_BudgetIdInput rt a)
      else if name = ''list-payees'' then isl (validate_BudgetIdInput rt a)
      else if name = ''create-transaction'' then isl (validate_CreateTransactionInput rt a)
      else if name = ''update-transactions'' then isl (validate_UpdateTransactionsInput rt a)
      else if name = ''delete-transaction'' then isl (validate_DeleteTransactionInput rt a)
      else False)"

text \<open>
  What the schemas require, in the words of the specification: the required fields of
  each tool that validates through a schema, each with the shape its type accepts. A
  string field accepts a string, an integer field what is read as an integer, and the
  list of update records a list of objects that each have a string \<open>id\<close>. A required
  field is bad when it is missing or has a value of another shape.
\<close>

definition is_string :: "json \<Rightarrow> bool" where
  "is_string v = (case v of JStr s \<Rightarrow> True | _ \<Rightarrow> False)"

definition is_integer :: "runtime \<Rightarrow> json \<Rightarrow> bool" where
  "is_integer rt v = (coerce_int rt v \<noteq> None)"

definition is_update_record :: "json \<Rightarrow> bool" where
  "is_update_record v =
     (case v of
        JObj a \<Rightarrow> (case map_of a ''id'' of None \<Rightarrow> False | Some x \<Rightarrow> is_string x)
      | _ \<Rightarrow> False)"

definition is_update_list :: "json \<Rightarrow> bool" where
  "is_update_list v = (case v of JList vs \<Rightarrow> list_all is_update_record vs | _ \<Rightarrow> False)"

definition required_fields :: "runtime \<Rightarrow> string \<Rightarrow> (string \<times> (json \<Rightarrow> bool)) list" where
  "required_fields rt name =
     (if name = ''list-transactions'' then [(''account_id'', is_string)]
      else if name = ''list-monthly-transactions'' then [(''month'', is_string)]
      else if name = ''create-transaction''
        then [(''account_id'', is_string), (''date'', is_string), (''amount'', is_integer rt)]
      else if name = ''update-transactions'' then [(''transactions'', is_update_list)]
      else if name = ''delete-transaction'' then [(''transaction_id'', is_string)]
      else [])"

definition bad_required_field :: "runtime \<Rightarrow> string \<Rightarrow> pydict option \<Rightarrow> bool" where
  "bad_required_field rt name arguments =
     list_ex (\<lambda>(k, shaped).
                case map_of (arguments_or_empty arguments) k of
                  None \<Rightarrow> True
                | Some v \<Rightarrow> \<not> shaped v)
       (required_fields rt name)"

text \<open>The keys the named tool checks for by hand before doing anything else.\<close>

definition required_keys :: "string \<Rightarrow> string list" where
  "required_keys name =
     (if name = ''rename-payees'' then [''payee_ids'', ''name'']
      else if name = ''assign-budget-amount'' then [''month'', ''category_id'', ''amount'']
      else if name = ''move-budget-amount''
        then [''month'', ''from_category_id'', ''to_category_id'', ''amount'']
      else if name = ''update-financial-overview-section'' then [''section'', ''data'']
      else [])"

text \<open>Arguments that every listing tool accepts.\<close>

definition listing_arguments :: "pydict option" where
  "listing_arguments =
     Some [(''budget_id'', JStr ''b-7''), (''account_id'', JStr ''a-1''),
           (''month'', JStr ''2024-05-01'')]"

text \<open>
  What \<open>list-categories\<close> is specified to print, written without the loops: the header,
  then for every group that is not hidden and has categories a block of its own, holding
  the lines of each category that is not hidden; a category with a goal type gets a goal
  line with the target (or \<open>N/A\<close> when there is none, or when it is zero) and the
  percentage complete (0 when there is none).
\<close>

definition spec_goal_line :: "runtime \<Rightarrow> category \<Rightarrow> string" where
  "spec_goal_line rt cat =
     ''  - Goal ('' @ (case c_goal_type cat of Some g \<Rightarrow> g | None \<Rightarrow> []) @ ''): Target '' @
     (case c_goal_target cat of
        None \<Rightarrow> ''N/A''
      | Some t \<Rightarrow> if t = 0 then ''N/A'' else fmt2f rt (of_int t / 1000)) @
     '', '' @
     show_int (case c_goal_percentage_complete cat of None \<Rightarrow> 0 | Some p \<Rightarrow> p) @
     ''% complete\<newline>''"

definition spec_category_lines :: "runtime \<Rightarrow> category \<Rightarrow> string" where
  "spec_category_lines rt cat =
     ''- '' @ c_name cat @ '' (ID: '' @ c_id cat @ '')\<newline>  - '' @ category_details rt cat @
     ''\<newline>'' @
     (if c_goal_type cat = None \<or> c_goal_type cat = Some [] then [] else spec_goal_line rt cat)"

definition spec_group_block :: "runtime \<Rightarrow> category_group \<Rightarrow> string" where
  "spec_group_block rt grp =
     ''\<newline>--- '' @ g_name grp @ '' ---\<newline>'' @
     concat (map (spec_category_lines rt) (filter (\<lambda>cat. \<not> c_hidden cat) (g_categories grp)))"

definition spec_categories_text :: "runtime \<Rightarrow> category_group list \<Rightarrow> string" where
  "spec_categories_text rt groups =
     ''Here are the available categories and their status for the current month:\<newline>'' @
     concat (map (spec_group_block rt)
               (filter (\<lambda>grp. \<not> g_hidden grp \<and> g_categories grp \<noteq> []) groups))"

text \<open>A category whose goal has a target of zero, and groups to list.\<close>

definition zero_target_category :: category where
  "zero_target_category =
     \<lparr>c_id = ''c-1'', c_name = ''Rent'', c_hidden = False, c_budgeted = 0, c_activity = 0,
      c_balance = 0, c_goal_type = Some ''TB'', c_goal_target = Some 0,
      c_goal_percentage_complete = None\<rparr>"

definition example_groups :: "category_group list" where
  "example_groups =
     [\<lparr>g_name = ''Bills'', g_hidden = False, g_categories = [zero_target_category]\<rparr>,
      \<lparr>g_name = ''Old'', g_hidden = True, g_categories = [zero_target_category]\<rparr>]"

definition categories_world :: "memory world" where
  "categories_world = \<lparr>svc = empty_memory\<lparr>m_groups := example_groups\<rparr>, trace = []\<rparr>"

text \<open>
  What \<open>refresh-financial-overview\<close> is specified to aggregate, written without the
  loop: the total of a group name is the sum of the budgeted amounts of the non-hidden
  categories of the group bearing that name (the last such group when several bear it,
  0 when none does); the savings rate is the share of savings in the three totals, as a
  percentage, when their sum is positive, and 0 otherwise.
\<close>

definition named_total :: "string \<Rightarrow> category_group list \<Rightarrow> int" where
  "named_total n groups =
     (case filter (\<lambda>grp. g_name grp = n) groups of
        [] \<Rightarrow> 0
      | g # gs \<Rightarrow> visible_budgeted (last (g # gs)))"

definition spec_savings_rate :: "int \<Rightarrow> int \<Rightarrow> int \<Rightarrow> json" where
  "spec_savings_rate fixed_bills discretionary_spending savings =
     (if fixed_bills + discretionary_spending + savings > 0
      then JNum (float_mul
                   (amount_div savings (fixed_bills + discretionary_spending + savings))
                   (Finite 100))
      else JInt 0)"

definition spec_monthly_overview :: "category_group list \<Rightarrow> json" where
  "spec_monthly_overview groups =
     JObj [(''fixed_bills'', JNum (amount_div (named_total ''Bills'' groups) 1000)),
           (''discretionary_spending'', JNum (amount_div (named_total ''Wants'' groups) 1000)),
           (''savings_rate'',
            spec_savings_rate (named_total ''Bills'' groups) (named_total ''Wants'' groups)
              (named_total ''Savings'' groups))]"

definition spec_total_budgeted :: "category_group list \<Rightarrow> int" where
  "spec_total_budgeted groups =
     named_total ''Bills'' groups + named_total ''Wants'' groups + named_total ''Savings'' groups"

text \<open>The loop, from any starting totals: a name that occurs overrides the start value.\<close>

definition total_from :: "string \<Rightarrow> category_group list \<Rightarrow> int \<Rightarrow> int" where
  "total_from n groups start =
     (if \<exists>g \<in> set groups. g_name g = n then named_total n groups else start)"

text \<open>Category groups and worlds to run the overview tools on.\<close>

definition plain_category :: "string \<Rightarrow> string \<Rightarrow> bool \<Rightarrow> int \<Rightarrow> category" where
  "plain_category i n h b =
     \<lparr>c_id = i, c_name = n, c_hidden = h, c_budgeted = b, c_activity = 0, c_balance = b,
      c_goal_type = None, c_goal_target = None, c_goal_percentage_complete = None\<rparr>"

definition budgeted_groups :: "category_group list" where
  "budgeted_groups =
     [\<lparr>g_name = ''Bills'', g_hidden = False,
       g_categories = [plain_category ''c-1'' ''Rent'' False 100000,
                       plain_category ''c-2'' ''Old loan'' True 7000]\<rparr>,
      \<lparr>g_name = ''Wants'', g_hidden = False,
       g_categories = [plain_category ''c-3'' ''Dining'' False 50000]\<rparr>,
      \<lparr>g_name = ''Savings'', g_hidden = False,
       g_categories = [plain_category ''c-4'' ''Rainy day'' False 50000]\<rparr>,
      \<lparr>g_name = ''Travel'', g_hidden = False,
       g_categories = [plain_category ''c-5'' ''Flights'' False 30000]\<rparr>]"

definition overdrawn_groups :: "category_group list" where
  "overdrawn_groups =
     [\<lparr>g_name = ''Bills'', g_hidden = False,
       g_categories = [plain_category ''c-1'' ''Rent'' False (- 3000)]\<rparr>,
      \<lparr>g_name = ''Savings'', g_hidden = False,
       g_categories = [plain_category ''c-4'' ''Rainy day'' False 1000]\<rparr>]"

definition twice_billed_groups :: "category_group list" where
  "twice_billed_groups =
     [\<lparr>g_name = ''Bills'', g_hidden = False,
       g_categories = [plain_category ''c-1'' ''Rent'' False 1000]\<rparr>,
      \<lparr>g_name = ''Bills'', g_hidden = False,
       g_categories = [plain_category ''c-2'' ''Power'' False 2000]\<rparr>]"

definition budgeted_world :: "memory world" where
  "budgeted_world = \<lparr>svc = empty_memory\<lparr>m_groups := budgeted_groups\<rparr>, trace = []\<rparr>"

definition overdrawn_world :: "memory world" where
  "overdrawn_world = \<lparr>svc = empty_memory\<lparr>m_groups := overdrawn_groups\<rparr>, trace = []\<rparr>"

definition twice_billed_world :: "memory world" where
  "twice_billed_world = \<lparr>svc = empty_memory\<lparr>m_groups := twice_billed_groups\<rparr>, trace = []\<rparr>"

text \<open>The document \<open>load\<close> returns in a state of the reference client, a world with a
  stored overview, and arguments for \<open>update-financial-overview-section\<close>.\<close>

definition loaded_document :: "memory \<Rightarrow> pydict" where
  "loaded_document s = (case m_overview s of None \<Rightarrow> [] | Some d \<Rightarrow> d)"

definition noted_world :: "memory world" where
  "noted_world =
     \<lparr>svc = empty_memory
        \<lparr>m_overview := Some [(''last_updated'', JStr ''2024-04-01T00:00:00''),
                             (''action_items'', JList [JStr ''call the bank''])]\<rparr>,
      trace = []\<rparr>"

definition goals_arguments :: "pydict option" where
  "goals_arguments =
     Some [(''section'', JStr ''goals''), (''data'', JObj [(''target'', JInt 5000)])]"

text \<open>
  A field is supplied when the mapping has its key with a value other than null. The keys
  a new-transaction request may carry, in the order of the schema: the required ones, the
  optional ones that were supplied, and \<open>approved\<close>; those of an update record: its
  \<open>id\<close> and the optional ones that were supplied.
\<close>

definition supplied :: "pydict \<Rightarrow> string \<Rightarrow> bool" where
  "supplied a k = (map_of a k \<noteq> None \<and> map_of a k \<noteq> Some JNull)"

definition new_transaction_keys :: "pydict \<Rightarrow> string list" where
  "new_transaction_keys a =
     [''account_id'', ''date'', ''amount''] @
     filter (supplied a) [''payee_id'', ''payee_name'', ''category_id'', ''memo'', ''cleared''] @
     [''approved''] @
     filter (supplied a) [''flag_color'', ''import_id'']"

definition update_keys :: "pydict \<Rightarrow> string list" where
  "update_keys a =
     ''id'' #
     filter (supplied a)
       [''account_id'', ''date'', ''amount'', ''category_id'', ''payee_id'', ''memo'',
        ''cleared'', ''approved'', ''flag_color'']"

text \<open>
  The value a key of a request carries: what the schema made of the argument. A string is
  taken as it is, an amount is the integer the value was read as, and \<open>approved\<close> the
  boolean the value was read as, which for a new transaction is false when the key is
  absent.
\<close>

definition new_transaction_value :: "runtime \<Rightarrow> pydict \<Rightarrow> string \<Rightarrow> json option" where
  "new_transaction_value rt a k =
     (if k = ''amount'' then map_option JInt (Option.bind (map_of a k) (coerce_int rt))
      else if k = ''approved''
        then (case map_of a k of
                None \<Rightarrow> Some (JBool False)
              | Some v \<Rightarrow> map_option JBool (coerce_bool rt v))
      else map_of a k)"

definition update_value :: "runtime \<Rightarrow> pydict \<Rightarrow> string \<Rightarrow> json option" where
  "update_value rt a k =
     (if k = ''amount'' then map_option JInt (Option.bind (map_of a k) (coerce_int rt))
      else if k = ''approved'' then map_option JBool (Option.bind (map_of a k) (coerce_bool rt))
      else map_of a k)"

text \<open>The payload built for one update record has exactly the keys supplied, each with
  its value, carries no null, and has the id of the record.\<close>

definition sends_supplied_fields :: "runtime \<Rightarrow> json \<Rightarrow> pydict \<Rightarrow> bool" where
  "sends_supplied_fields rt rec p =
     (case rec of
        JObj a \<Rightarrow> map fst p = update_keys a \<and> JNull \<notin> snd ` set p \<and>
                  map_of p ''id'' = map_of a ''id'' \<and>
                  (\<forall>k \<in> set (update_keys a). map_of p k = update_value rt a k)
      | _ \<Rightarrow> False)"

text \<open>A creation with only the required fields, the same with a date that is none, and
  an update of one memo.\<close>

definition required_only_arguments :: "pydict option" where
  "required_only_arguments =
     Some [(''budget_id'', JStr ''b-7''),
           (''account_id'', JStr ''0b9a5c1e-7d42-4f3a-9e6b-2c8d1f4a7e90''),
           (''date'', JStr ''2024-05-02''), (''amount'', JInt (- 12500))]"

definition undated_arguments :: "pydict option" where
  "undated_arguments =
     Some [(''budget_id'', JStr ''b-7''),
           (''account_id'', JStr ''0b9a5c1e-7d42-4f3a-9e6b-2c8d1f4a7e90''),
           (''date'', JStr ''next week''), (''amount'', JInt (- 12500))]"

definition not_a_date_arguments :: "pydict option" where
  "not_a_date_arguments =
     Some [(''account_id'', JStr ''0b9a5c1e-7d42-4f3a-9e6b-2c8d1f4a7e90''),
           (''date'', JStr ''not-a-date''), (''amount'', JInt (- 12500))]"

definition undated_update_arguments :: "pydict option" where
  "undated_update_arguments =
     Some [(''transactions'',
            JList [JObj [(''id'', JStr ''t-1''), (''date'', JStr ''next week'')]])]"

definition memo_update_arguments :: "pydict option" where
  "memo_update_arguments =
     Some [(''transactions'', JList [JObj [(''id'', JStr ''t-1''), (''memo'', JStr ''lunch'')]])]"

text \<open>The budget a call is made for, when it takes one.\<close>

fun budget_of :: "call \<Rightarrow> json option" where
  "budget_of (GetAccounts b) = Some b"
| "budget_of (GetTransactions b acc since n) = Some b"
| "budget_of (GetMonthlyTransactions b month n) = Some b"
| "budget_of (GetCategories b) = Some b"
| "budget_of (GetMonthCategory b month cid) = Some b"
| "budget_of (GetPayees b) = Some b"
| "budget_of (UpdatePayees b ids name) = Some b"
| "budget_of (AssignBudgetAmount b month cid amount) = Some b"
| "budget_of (CreateTransaction b tx) = Some b"
| "budget_of (UpdateTransactions b txs) = Some b"
| "budget_of (DeleteTransaction b tid) = Some b"
| "budget_of (GetScheduledTransactions b) = Some b"
| "budget_of GetBudgets = None"
| "budget_of GetDefaultBudget = None"
| "budget_of LoadOverview = None"
| "budget_of (SaveOverview d) = None"
| "budget_of (UpdateOverviewSection section data) = None"

text \<open>A call that is no default-budget lookup and, when it takes a budget, takes \<open>b\<close>;
  a call that is no default-budget lookup and takes no budget.\<close>

definition for_budget :: "json \<Rightarrow> call \<Rightarrow> bool" where
  "for_budget b c = (c \<noteq> GetDefaultBudget \<and> (budget_of c = None \<or> budget_of c = Some b))"

definition budget_free :: "call \<Rightarrow> bool" where
  "budget_free c = (c \<noteq> GetDefaultBudget \<and> budget_of c = None)"

text \<open>Every run of \<open>m\<close> appends to the trace only calls that satisfy \<open>P\<close>.\<close>

definition issues :: "(call \<Rightarrow> bool) \<Rightarrow> ('s, 'a) io \<Rightarrow> bool" where
  "issues P m = (\<forall>w. \<exists>cs. trace (snd (m w)) = trace w @ cs \<and> (\<forall>c \<in> set cs. P c))"

text \<open>The calls start with the default-budget lookup; if it fails nothing follows, and
  if it returns a budget every later call is made for its id.\<close>

definition resolved_first :: "'s ynab_client \<Rightarrow> 's world \<Rightarrow> call list \<Rightarrow> bool" where
  "resolved_first client w cs =
     (\<exists>rest. cs = GetDefaultBudget # rest \<and>
        (case fst (get_default_budget client (svc w)) of
           Inl e \<Rightarrow> rest = []
         | Inr b \<Rightarrow> \<forall>c \<in> set rest. for_budget (JStr (b_id b)) c))"

text \<open>How the calls of \<open>m\<close> relate to the budget id \<open>e\<close> given explicitly, if
  any.\<close>

definition disciplined :: "'s ynab_client \<Rightarrow> json option \<Rightarrow> ('s, 'a) io \<Rightarrow> bool" where
  "disciplined client e m =
     (\<forall>w. \<exists>cs. trace (snd (m w)) = trace w @ cs \<and>
        (case e of
           Some v \<Rightarrow> \<forall>c \<in> set cs. for_budget v c
         | None \<Rightarrow> (\<forall>c \<in> set cs. budget_free c) \<or> resolved_first client w cs))"

text \<open>A month with two categories, arguments that move 200 from one to the other and
  from one to itself, and a client whose assign capability refuses.\<close>

definition transfer_memory :: memory where
  "transfer_memory =
     empty_memory
       \<lparr>m_month_categories :=
          [((JStr ''2024-05-01'', JStr ''A''), plain_category ''A'' ''Rent'' False 1000),
           ((JStr ''2024-05-01'', JStr ''B''), plain_category ''B'' ''Dining'' False 500)]\<rparr>"

definition transfer_world :: "memory world" where
  "transfer_world = \<lparr>svc = transfer_memory, trace = []\<rparr>"

definition move_arguments :: "pydict" where
  "move_arguments =
     [(''budget_id'', JStr ''b-7''), (''month'', JStr ''2024-05-01''),
      (''from_category_id'', JStr ''A''), (''to_category_id'', JStr ''B''),
      (''amount'', JInt 200)]"

definition same_category_arguments :: "pydict" where
  "same_category_arguments =
     [(''budget_id'', JStr ''b-7''), (''month'', JStr ''2024-05-01''),
      (''from_category_id'', JStr ''A''), (''to_category_id'', JStr ''A''),
      (''amount'', JInt 200)]"

definition refusing_client :: "memory ynab_client" where
  "refusing_client =
     memory_client
       \<lparr>assign_budget_amount :=
          (\<lambda>bid month cid amount s. (Inl (UpstreamServiceError ''rate limited''), s))\<rparr>"

section \<open>Basic facts about runs\<close>

lemma bind_ret [simp]: "bind (ret x) f = f x"
  by (rule ext) (simp add: bind_def ret_def)

lemma bind_raise [simp]: "bind (raise e) f = raise e"
  by (rule ext) (simp add: bind_def raise_def)

lemma bind_lift_Inl [simp]: "bind (lift (Inl e)) f = raise e"
  by (rule ext) (simp add: bind_def lift_def raise_def)

lemma bind_lift_Inr [simp]: "bind (lift (Inr x)) f = f x"
  by (rule ext) (simp add: bind_def lift_def)

section \<open>Every successful invocation returns one text block\<close>

lemma yields_text_result [simp]: "yields_text (text_result t)"
  by (simp add: yields_text_def text_result_def ret_def)

lemma yields_text_raise [simp]: "yields_text (raise e)"
  by (simp add: yields_text_def raise_def)

lemma yields_text_bind: "(\<And>x. yields_text (f x)) \<Longrightarrow> yields_text (bind m f)"
  unfolding yields_text_def bind_def by (auto split: prod.splits sum.splits)

lemma yields_text_if: "yields_text a \<Longrightarrow> yields_text b \<Longrightarrow> yields_text (if c then a else b)"
  by simp

lemmas yt = yields_text_bind yields_text_if

lemma yt_list_budgets: "yields_text (tool_list_budgets client)"
  unfolding tool_list_budgets_def by (intro yt) simp_all

lemma yt_list_accounts: "yields_text (tool_list_accounts rt client a)"
  unfolding tool_list_accounts_def by (intro yt) simp_all

lemma yt_list_transactions: "yields_text (tool_list_transactions rt client a)"
  unfolding tool_list_transactions_def by (intro yt) simp_all

lemma yt_list_monthly: "yields_text (tool_list_monthly_transactions rt client a)"
  unfolding tool_list_monthly_transactions_def by (intro yt) simp_all

lemma yt_list_categories: "yields_text (tool_list_categories rt client a)"
  unfolding tool_list_categories_def by (intro yt) simp_all

lemma yt_list_payees: "yields_text (tool_list_payees rt client a)"
  unfolding tool_list_payees_def by (intro yt) simp_all

lemma yt_list_scheduled: "yields_text (tool_list_scheduled_transactions rt client a)"
  unfolding tool_list_scheduled_transactions_def by (intro yt) simp_all

lemma yt_rename: "yields_text (tool_rename_payees rt client a)"
  unfolding tool_rename_payees_def by (intro yt) simp_all

lemma yt_assign: "yields_text (tool_assign_budget_amount rt client a)"
  unfolding tool_assign_budget_amount_def by (intro yt) simp_all

lemma yt_move: "yields_text (tool_move_budget_amount rt client a)"
  unfolding tool_move_budget_amount_def by (intro yt) simp_all

lemma yt_create: "yields_text (tool_create_transaction rt client a)"
  unfolding tool_create_transaction_def by (intro yt) simp_all

lemma yt_update: "yields_text (tool_update_transactions rt client a)"
  unfolding tool_update_transactions_def by (intro yt) simp_all

lemma yt_delete: "yields_text (tool_delete_transaction rt client a)"
  unfolding tool_delete_transaction_def by (intro yt) simp_all

lemma yt_get_overview: "yields_text (tool_get_financial_overview rt client)"
  unfolding tool_get_financial_overview_def by (intro yt) simp_all

lemma yt_update_section: "yields_text (tool_update_financial_overview_section rt client a)"
  unfolding tool_update_financial_overview_section_def by (intro yt) simp_all

lemma yt_refresh: "yields_text (tool_refresh_financial_overview client a)"
  unfolding tool_refresh_financial_overview_def by (intro yt) simp_all

lemma yt_handle: "yields_text (handle_call_tool rt client name a)"
  unfolding handle_call_tool_def
  by (intro yields_text_if yt_list_budgets yt_list_accounts yt_list_transactions yt_list_monthly
      yt_list_categories yt_list_payees yt_list_scheduled yt_rename yt_assign yt_move yt_create
      yt_update yt_delete yt_get_overview yt_update_section yt_refresh yields_text_raise)

text \<open>
  C10. Whatever the tool name and the argument mapping, an invocation that completes
  without raising returns a sequence of exactly one content block, and that block is a
  text block.
\<close>

theorem single_text_block:
  "handle_call_tool rt client name arguments w = (Inr blocks, w') \<Longrightarrow>
   \<exists>t. blocks = [TextContent t]"
  using yt_handle [of rt client name arguments] unfolding yields_text_def by blast

theorem single_text_block_witness:
  "handle_call_tool plain_runtime memory_client ''list-budgets'' None start_world =
     (Inr [TextContent ''No budgets found.''], \<lparr>svc = empty_memory, trace = [GetBudgets]\<rparr>) \<and>
   (\<exists>t. [TextContent ''No budgets found.''] = [TextContent t])"
proof -
  have run: "handle_call_tool plain_runtime memory_client ''list-budgets'' None start_world =
     (Inr [TextContent ''No budgets found.''], \<lparr>svc = empty_memory, trace = [GetBudgets]\<rparr>)"
    by (simp add: handle_call_tool_def tool_list_budgets_def bind_def perform_def
        text_result_def ret_def memory_client_def empty_memory_def start_world_def)
  from single_text_block [OF run] run show ?thesis by simp
qed

section \<open>Invalid arguments are rejected before anything is done\<close>

lemma ove_Inr [simp]: "only_validation_error (Inr x)"
  by (simp add: only_validation_error_def)

lemma ove_Inl [simp]: "only_validation_error (Inl ValidationError)"
  by (simp add: only_validation_error_def)

lemma ove_vbind:
  "only_validation_error r \<Longrightarrow> (\<And>x. only_validation_error (f x)) \<Longrightarrow>
   only_validation_error (vbind r f)"
  by (cases r) (simp_all add: vbind_def only_validation_error_def)

lemma ove_req_field [simp]: "only_validation_error (req_field co a k)"
  by (simp add: req_field_def split: option.splits)

lemma ove_opt_field [simp]: "only_validation_error (opt_field co a k)"
  by (simp add: opt_field_def split: option.splits)

lemma ove_default_field [simp]: "only_validation_error (default_field co d a k)"
  by (simp add: default_field_def split: option.splits)

lemma ove_BudgetIdInput: "only_validation_error (validate_BudgetIdInput rt a)"
  unfolding validate_BudgetIdInput_def by (intro ove_vbind) simp_all

lemma ove_ListTransactionsInput: "only_validation_error (validate_ListTransactionsInput rt a)"
  unfolding validate_ListTransactionsInput_def by (intro ove_vbind) simp_all

lemma ove_ListMonthlyTransactionsInput:
  "only_validation_error (validate_ListMonthlyTransactionsInput rt a)"
  unfolding validate_ListMonthlyTransactionsInput_def by (intro ove_vbind) simp_all

lemma ove_DeleteTransactionInput: "only_validation_error (validate_DeleteTransactionInput rt a)"
  unfolding validate_DeleteTransactionInput_def by (intro ove_vbind) simp_all

lemma ove_CreateTransactionInput: "only_validation_error (validate_CreateTransactionInput rt a)"
  unfolding validate_CreateTransactionInput_def by (intro ove_vbind) simp_all

lemma ove_TransactionUpdate: "only_validation_error (validate_TransactionUpdate rt v)"
proof (cases v)
  case (JObj a)
  show ?thesis unfolding validate_TransactionUpdate_def JObj json.case
    by (intro ove_vbind) simp_all
qed (simp_all add: validate_TransactionUpdate_def)

lemma ove_each: "only_validation_error (validate_each rt vs)"
  by (induction vs) (auto intro!: ove_vbind ove_TransactionUpdate)

lemma ove_transactions_field:
  "only_validation_error
     (case map_of a ''transactions'' of Some (JList vs) \<Rightarrow> validate_each rt vs
      | _ \<Rightarrow> Inl ValidationError)"
  by (simp add: ove_each split: option.splits json.splits)

lemma ove_UpdateTransactionsInput: "only_validation_error (validate_UpdateTransactionsInput rt a)"
  unfolding validate_UpdateTransactionsInput_def
  by (intro ove_vbind ove_transactions_field) simp_all

lemma isl_validation: "isl r \<Longrightarrow> only_validation_error r \<Longrightarrow> r = Inl ValidationError"
  by (cases r) (simp_all add: only_validation_error_def)

lemma rejected_list_accounts:
  "isl (validate_BudgetIdInput rt (arguments_or_empty a)) \<Longrightarrow>
   tool_list_accounts rt client a w = (Inl ValidationError, w)"
  by (simp add: tool_list_accounts_def isl_validation [OF _ ove_BudgetIdInput] raise_def)

lemma rejected_list_categories:
  "isl (validate_BudgetIdInput rt (arguments_or_empty a)) \<Longrightarrow>
   tool_list_categories rt client a w = (Inl ValidationError, w)"
  by (simp add: tool_list_categories_def isl_validation [OF _ ove_BudgetIdInput] raise_def)

lemma rejected_list_payees:
  "isl (validate_BudgetIdInput rt (arguments_or_empty a)) \<Longrightarrow>
   tool_list_payees rt client a w = (Inl ValidationError, w)"
  by (simp add: tool_list_payees_def isl_validation [OF _ ove_BudgetIdInput] raise_def)

lemma rejected_list_transactions:
  "isl (validate_ListTransactionsInput rt (arguments_or_empty a)) \<Longrightarrow>
   tool_list_transactions rt client a w = (Inl ValidationError, w)"
  by (simp add: tool_list_transactions_def isl_validation [OF _ ove_ListTransactionsInput]
      raise_def)

lemma rejected_list_monthly_transactions:
  "isl (validate_ListMonthlyTransactionsInput rt (arguments_or_empty a)) \<Longrightarrow>
   tool_list_monthly_transactions rt client a w = (Inl ValidationError, w)"
  by (simp add: tool_list_monthly_transactions_def
      isl_validation [OF _ ove_ListMonthlyTransactionsInput] raise_def)

lemma rejected_create_transaction:
  "isl (validate_CreateTransactionInput rt (arguments_or_empty a)) \<Longrightarrow>
   tool_create_transaction rt client a w = (Inl ValidationError, w)"
  by (simp add: tool_create_transaction_def isl_validation [OF _ ove_CreateTransactionInput]
      raise_def)

lemma rejected_update_transactions:
  "isl (validate_UpdateTransactionsInput rt (arguments_or_empty a)) \<Longrightarrow>
   tool_update_transactions rt client a w = (Inl ValidationError, w)"
  by (simp add: tool_update_transactions_def isl_validation [OF _ ove_UpdateTransactionsInput]
      raise_def)

lemma rejected_delete_transaction:
  "isl (validate_DeleteTransactionInput rt (arguments_or_empty a)) \<Longrightarrow>
   tool_delete_transaction rt client a w = (Inl ValidationError, w)"
  by (simp add: tool_delete_transaction_def isl_validation [OF _ ove_DeleteTransactionInput]
      raise_def)

lemmas rejected_typed =
  rejected_list_accounts rejected_list_categories rejected_list_payees
  rejected_list_transactions rejected_list_monthly_transactions rejected_create_transaction
  rejected_update_transactions rejected_delete_transaction

lemma typed_rejected:
  "validation_fails rt name arguments \<Longrightarrow>
   handle_call_tool rt client name arguments w = (Inl ValidationError, w)"
  unfolding validation_fails_def Let_def handle_call_tool_def
  by (simp add: rejected_typed split: if_splits)

lemma adhoc_rejected:
  "required_keys name \<noteq> [] \<Longrightarrow> missing_required arguments (required_keys name) \<Longrightarrow>
   \<exists>msg. handle_call_tool rt client name arguments w = (Inl (ValueError msg), w)"
  unfolding required_keys_def handle_call_tool_def
  by (simp add: tool_rename_payees_def tool_assign_budget_amount_def
      tool_move_budget_amount_def tool_update_financial_overview_section_def raise_def
      split: if_splits)

text \<open>A required field that is missing, or that the field type does not accept, makes the
  schema reject the arguments.\<close>

lemma isl_vbind1: "isl r \<Longrightarrow> isl (vbind r f)"
  by (cases r) (simp_all add: vbind_def)

lemma isl_vbind2: "(\<And>x. isl (f x)) \<Longrightarrow> isl (vbind r f)"
  by (cases r) (simp_all add: vbind_def)

lemma req_field_bad:
  "(case map_of a k of None \<Rightarrow> True | Some v \<Rightarrow> co v = None) \<Longrightarrow> isl (req_field co a k)"
  by (cases "map_of a k") (simp_all add: req_field_def)

lemma coerce_str_None: "(coerce_str rt v = None) = (\<not> is_string v)"
  by (cases v) (simp_all add: coerce_str_def is_string_def)

lemma bad_str:
  "(case map_of a k of None \<Rightarrow> True | Some v \<Rightarrow> \<not> is_string v) \<Longrightarrow>
   isl (req_field (coerce_str rt) a k)"
  by (rule req_field_bad) (simp add: coerce_str_None split: option.splits)

lemma bad_int:
  "(case map_of a k of None \<Rightarrow> True | Some v \<Rightarrow> \<not> is_integer rt v) \<Longrightarrow>
   isl (req_field (coerce_int rt) a k)"
  by (rule req_field_bad) (simp add: is_integer_def split: option.splits)

lemma bad_update_record: "\<not> is_update_record v \<Longrightarrow> isl (validate_TransactionUpdate rt v)"
proof (cases v)
  case (JObj a)
  assume "\<not> is_update_record v"
  with JObj have "case map_of a ''id'' of None \<Rightarrow> True | Some x \<Rightarrow> \<not> is_string x"
    by (simp add: is_update_record_def split: option.splits)
  then have "isl (req_field (coerce_str rt) a ''id'')"
    by (rule bad_str)
  then show ?thesis
    unfolding validate_TransactionUpdate_def JObj json.case by (rule isl_vbind1)
qed (simp_all add: validate_TransactionUpdate_def)

lemma bad_update_records: "\<not> list_all is_update_record vs \<Longrightarrow> isl (validate_each rt vs)"
proof (induction vs)
  case Nil
  then show ?case by simp
next
  case (Cons v vs)
  show ?case
  proof (cases "is_update_record v")
    case True
    with Cons have "isl (validate_each rt vs)"
      by simp
    then have "\<And>r. isl (vbind (validate_each rt vs) (\<lambda>rs. Inr (r # rs)))"
      by (rule isl_vbind1)
    then show ?thesis
      unfolding validate_each.simps by (rule isl_vbind2)
  next
    case False
    then have "isl (validate_TransactionUpdate rt v)"
      by (rule bad_update_record)
    then show ?thesis
      unfolding validate_each.simps by (rule isl_vbind1)
  qed
qed

lemma bad_update_list:
  "(case map_of a ''transactions'' of None \<Rightarrow> True | Some v \<Rightarrow> \<not> is_update_list v) \<Longrightarrow>
   isl (case map_of a ''transactions'' of
          Some (JList vs) \<Rightarrow> validate_each rt vs
        | _ \<Rightarrow> Inl ValidationError)"
  by (auto simp: is_update_list_def bad_update_records split: option.splits json.splits)

lemma bad_list_transactions:
  assumes "case map_of a ''account_id'' of None \<Rightarrow> True | Some v \<Rightarrow> \<not> is_string v"
  shows "isl (validate_ListTransactionsInput rt a)"
  unfolding validate_ListTransactionsInput_def
  by (rule isl_vbind2, rule isl_vbind1, rule bad_str [OF assms])

lemma bad_list_monthly_transactions:
  assumes "case map_of a ''month'' of None \<Rightarrow> True | Some v \<Rightarrow> \<not> is_string v"
  shows "isl (validate_ListMonthlyTransactionsInput rt a)"
  unfolding validate_ListMonthlyTransactionsInput_def
  by (rule isl_vbind2, rule isl_vbind1, rule bad_str [OF assms])

lemma bad_delete_transaction:
  assumes "case map_of a ''transaction_id'' of None \<Rightarrow> True | Some v \<Rightarrow> \<not> is_string v"
  shows "isl (validate_DeleteTransactionInput rt a)"
  unfolding validate_DeleteTransactionInput_def
  by (rule isl_vbind2, rule isl_vbind1, rule bad_str [OF assms])

lemma bad_update_transactions:
  assumes "case map_of a ''transactions'' of None \<Rightarrow> True | Some v \<Rightarrow> \<not> is_update_list v"
  shows "isl (validate_UpdateTransactionsInput rt a)"
  unfolding validate_UpdateTransactionsInput_def
  by (rule isl_vbind2, rule isl_vbind1, rule bad_update_list [OF assms])

lemma bad_create_account_id:
  assumes "case map_of a ''account_id'' of None \<Rightarrow> True | Some v \<Rightarrow> \<not> is_string v"
  shows "isl (validate_CreateTransactionInput rt a)"
  unfolding validate_CreateTransactionInput_def
  by (rule isl_vbind2, rule isl_vbind1, rule bad_str [OF assms])

lemma bad_create_date:
  assumes "case map_of a ''date'' of None \<Rightarrow> True | Some v \<Rightarrow> \<not> is_string v"
  shows "isl (validate_CreateTransactionInput rt a)"
  unfolding validate_CreateTransactionInput_def
  by (rule isl_vbind2, rule isl_vbind2, rule isl_vbind1, rule bad_str [OF assms])

lemma bad_create_amount:
  assumes "case map_of a ''amount'' of None \<Rightarrow> True | Some v \<Rightarrow> \<not> is_integer rt v"
  shows "isl (validate_CreateTransactionInput rt a)"
  unfolding validate_CreateTransactionInput_def
  by (rule isl_vbind2, rule isl_vbind2, rule isl_vbind2, rule isl_vbind1,
      rule bad_int [OF assms])

lemma bad_required_field_fails:
  "bad_required_field rt name arguments \<Longrightarrow> validation_fails rt name arguments"
  unfolding bad_required_field_def required_fields_def validation_fails_def Let_def
  by (auto simp: bad_list_transactions bad_list_monthly_transactions bad_delete_transaction
      bad_update_transactions bad_create_account_id bad_create_date bad_create_amount
      split: if_splits)

text \<open>The runs of the two tools that build a request object, once the schema has accepted
  the arguments and the budget is resolved.\<close>

lemma updates_eq:
  "updates rt txs =
     (if list_all (save_transaction_accepts rt) (map update_data txs)
      then Inr (map update_data txs) else Inl ValidationError)"
  by (induction txs) (simp_all add: SaveTransactionWithIdOrImportId_def vbind_def)

lemma create_transaction_run:
  assumes "validate_CreateTransactionInput rt (arguments_or_empty arguments) = Inr args"
    and "get_budget_id client (Some (dump_CreateTransactionInput args)) w = (Inr bid, w1)"
  shows "handle_call_tool rt client ''create-transaction'' arguments w =
     (if new_transaction_accepts rt (transaction_data args)
      then (case create_transaction client bid (transaction_data args) (svc w1) of
              (r, s') \<Rightarrow>
                (case r of
                   Inl e \<Rightarrow> Inl e
                 | Inr new_id \<Rightarrow>
                     Inr [TextContent (''Successfully created transaction with ID: '' @ new_id)],
                 \<lparr>svc = s',
                  trace = trace w1 @ [CreateTransaction bid (transaction_data args)]\<rparr>))
      else (Inl ValidationError, w1))"
  using assms
  by (simp add: handle_call_tool_def tool_create_transaction_def NewTransaction_def bind_def
      perform_def lift_def text_result_def ret_def split: prod.splits sum.splits)

lemma update_transactions_run:
  assumes "validate_UpdateTransactionsInput rt (arguments_or_empty arguments) = Inr uargs"
    and "get_budget_id client (Some (dump_UpdateTransactionsInput uargs)) w = (Inr bid, w1)"
  shows "handle_call_tool rt client ''update-transactions'' arguments w =
     (if list_all (save_transaction_accepts rt) (map update_data (ut_transactions uargs))
      then (case update_transactions client bid (map update_data (ut_transactions uargs))
                   (svc w1) of
              (r, s') \<Rightarrow>
                (case r of
                   Inl e \<Rightarrow> Inl e
                 | Inr u \<Rightarrow>
                     Inr [TextContent
                       (''Successfully updated '' @ show_nat (length (ut_transactions uargs)) @
                        '' transactions.'')],
                 \<lparr>svc = s',
                  trace = trace w1 @
                    [UpdateTransactions bid (map update_data (ut_transactions uargs))]\<rparr>))
      else (Inl ValidationError, w1))"
  using assms
  by (simp add: handle_call_tool_def tool_update_transactions_def updates_eq bind_def
      perform_def lift_def text_result_def ret_def split: prod.splits sum.splits)

lemma create_transaction_unresolved:
  assumes "validate_CreateTransactionInput rt (arguments_or_empty arguments) = Inr args"
    and "get_budget_id client (Some (dump_CreateTransactionInput args)) w = (Inl e, w1)"
  shows "handle_call_tool rt client ''create-transaction'' arguments w = (Inl e, w1)"
  using assms
  by (simp add: handle_call_tool_def tool_create_transaction_def bind_def)

lemma update_transactions_unresolved:
  assumes "validate_UpdateTransactionsInput rt (arguments_or_empty arguments) = Inr uargs"
    and "get_budget_id client (Some (dump_UpdateTransactionsInput uargs)) w = (Inl e, w1)"
  shows "handle_call_tool rt client ''update-transactions'' arguments w = (Inl e, w1)"
  using assms
  by (simp add: handle_call_tool_def tool_update_transactions_def bind_def)

lemma create_transaction_refused:
  assumes "validate_CreateTransactionInput rt (arguments_or_empty arguments) = Inr args"
    and "\<not> new_transaction_accepts rt (transaction_data args)"
  shows "handle_call_tool rt client ''create-transaction'' arguments w =
     (case get_budget_id client (Some (dump_CreateTransactionInput args)) w of
        (Inl e, w1) \<Rightarrow> (Inl e, w1)
      | (Inr bid, w1) \<Rightarrow> (Inl ValidationError, w1))"
proof (cases "get_budget_id client (Some (dump_CreateTransactionInput args)) w")
  case (Pair r w1)
  then show ?thesis
    using create_transaction_run [OF assms(1), of client w _ w1]
      create_transaction_unresolved [OF assms(1), of client w _ w1] assms(2)
    by (cases r) simp_all
qed

lemma update_transactions_refused:
  assumes "validate_UpdateTransactionsInput rt (arguments_or_empty arguments) = Inr uargs"
    and "\<not> list_all (save_transaction_accepts rt) (map update_data (ut_transactions uargs))"
  shows "handle_call_tool rt client ''update-transactions'' arguments w =
     (case get_budget_id client (Some (dump_UpdateTransactionsInput uargs)) w of
        (Inl e, w1) \<Rightarrow> (Inl e, w1)
      | (Inr bid, w1) \<Rightarrow> (Inl ValidationError, w1))"
proof (cases "get_budget_id client (Some (dump_UpdateTransactionsInput uargs)) w")
  case (Pair r w1)
  then show ?thesis
    using update_transactions_run [OF assms(1), of client w _ w1]
      update_transactions_unresolved [OF assms(1), of client w _ w1] assms(2)
    by (cases r) simp_all
qed

lemma get_budget_id_calls:
  "new_calls w (snd (get_budget_id client a w)) =
     (if explicit_budget_id a = None then [GetDefaultBudget] else [])"
  by (auto simp: get_budget_id_def new_calls_def ret_def bind_def perform_def
      split: option.splits prod.splits sum.splits)

text \<open>
  C7 (as amended). An invocation whose arguments the tool's own check rejects raises
  before any service operation or store write: when the typed schema of the tool rejects
  the arguments, as it does whenever a required field is missing or has a value the
  field's type does not accept, the invocation ends with \<open>ValidationError\<close>, and when a
  tool that checks its keys by hand (\<open>rename-payees\<close>, \<open>assign-budget-amount\<close>,
  \<open>move-budget-amount\<close>, \<open>update-financial-overview-section\<close>) misses one of them it
  ends with \<open>ValueError\<close>; in both cases the world is the one the invocation started
  in: no call was issued and the client's state is untouched. Arguments that the schema
  accepts and the request model of the SDK then refuses (\<open>create-transaction\<close>,
  \<open>update-transactions\<close>) are rejected later: the invocation is the resolution of the
  budget, which is the default-budget lookup when no budget id was given and no call at
  all otherwise, followed by \<open>ValidationError\<close>; the mutating call is not issued.
\<close>

theorem invalid_arguments_rejected_before_any_call:
  "(validation_fails rt name arguments \<or> bad_required_field rt name arguments \<longrightarrow>
      handle_call_tool rt client name arguments w = (Inl ValidationError, w)) \<and>
   (required_keys name \<noteq> [] \<and> missing_required arguments (required_keys name) \<longrightarrow>
      (\<exists>msg. handle_call_tool rt client name arguments w = (Inl (ValueError msg), w))) \<and>
   (validate_CreateTransactionInput rt (arguments_or_empty arguments) = Inr args \<and>
    \<not> new_transaction_accepts rt (transaction_data args) \<longrightarrow>
      handle_call_tool rt client ''create-transaction'' arguments w =
        (case get_budget_id client (Some (dump_CreateTransactionInput args)) w of
           (Inl e, w1) \<Rightarrow> (Inl e, w1)
         | (Inr bid, w1) \<Rightarrow> (Inl ValidationError, w1))) \<and>
   (validate_UpdateTransactionsInput rt (arguments_or_empty arguments) = Inr uargs \<and>
    \<not> list_all (save_transaction_accepts rt) (map update_data (ut_transactions uargs)) \<longrightarrow>
      handle_call_tool rt client ''update-transactions'' arguments w =
        (case get_budget_id client (Some (dump_UpdateTransactionsInput uargs)) w of
           (Inl e, w1) \<Rightarrow> (Inl e, w1)
         | (Inr bid, w1) \<Rightarrow> (Inl ValidationError, w1))) \<and>
   new_calls w (snd (get_budget_id client budget_arguments w)) =
     (if explicit_budget_id budget_arguments = None then [GetDefaultBudget] else [])"
  using typed_rejected [of rt name arguments client w] adhoc_rejected [of name arguments rt client w]
    bad_required_field_fails [of rt name arguments]
    create_transaction_refused [of rt arguments args client w]
    update_transactions_refused [of rt arguments uargs client w]
    get_budget_id_calls [of w client budget_arguments]
  by blast

theorem invalid_arguments_rejected_before_any_call_witness:
  "bad_required_field plain_runtime ''create-transaction'' (Some [(''account_id'', JStr ''a-1'')]) \<and>
   handle_call_tool plain_runtime memory_client ''create-transaction''
     (Some [(''account_id'', JStr ''a-1'')]) start_world = (Inl ValidationError, start_world) \<and>
   bad_required_field plain_runtime ''delete-transaction'' (Some [(''transaction_id'', JInt 7)]) \<and>
   handle_call_tool plain_runtime memory_client ''delete-transaction''
     (Some [(''transaction_id'', JInt 7)]) start_world = (Inl ValidationError, start_world) \<and>
   required_keys ''move-budget-amount'' \<noteq> [] \<and>
   missing_required (Some [(''month'', JStr ''2024-05-01''), (''amount'', JInt 200)])
     (required_keys ''move-budget-amount'') \<and>
   (\<exists>msg. handle_call_tool plain_runtime memory_client ''move-budget-amount''
      (Some [(''month'', JStr ''2024-05-01''), (''amount'', JInt 200)]) start_world =
      (Inl (ValueError msg), start_world)) \<and>
   handle_call_tool plain_runtime memory_client ''create-transaction'' undated_arguments
     start_world = (Inl ValidationError, start_world) \<and>
   handle_call_tool plain_runtime memory_client ''update-transactions'' undated_update_arguments
     start_world = (Inl ValidationError, \<lparr>svc = empty_memory, trace = [GetDefaultBudget]\<rparr>)"
proof -
  let ?args = "\<lparr>ct_budget_id = Some ''b-7'',
      ct_account_id = ''0b9a5c1e-7d42-4f3a-9e6b-2c8d1f4a7e90'', ct_date = ''next week'',
      ct_amount = - 12500, ct_payee_id = None, ct_payee_name = None, ct_category_id = None,
      ct_memo = None, ct_cleared = None, ct_approved = False, ct_flag_color = None,
      ct_import_id = None\<rparr>"
  let ?tx = "\<lparr>tu_id = ''t-1'', tu_account_id = None, tu_date = Some ''next week'',
      tu_amount = None, tu_category_id = None, tu_payee_id = None, tu_memo = None,
      tu_cleared = None, tu_approved = None, tu_flag_color = None\<rparr>"
  let ?uargs = "\<lparr>ut_budget_id = None, ut_transactions = [?tx]\<rparr>"
  let ?w1 = "\<lparr>svc = empty_memory, trace = [GetDefaultBudget]\<rparr>"
  note main = invalid_arguments_rejected_before_any_call
  have bad1: "bad_required_field plain_runtime ''create-transaction''
      (Some [(''account_id'', JStr ''a-1'')])"
    by (simp add: bad_required_field_def required_fields_def arguments_or_empty_def)
  have bad2: "bad_required_field plain_runtime ''delete-transaction''
      (Some [(''transaction_id'', JInt 7)])"
    by (simp add: bad_required_field_def required_fields_def arguments_or_empty_def
        is_string_def)
  have keys: "required_keys ''move-budget-amount'' \<noteq> []"
    by (simp add: required_keys_def)
  have missing: "missing_required (Some [(''month'', JStr ''2024-05-01''), (''amount'', JInt 200)])
      (required_keys ''move-budget-amount'')"
    by (simp add: required_keys_def missing_required_def no_arguments_def has_key_def
        arguments_or_empty_def)
  have v3: "validate_CreateTransactionInput plain_runtime
      (arguments_or_empty undated_arguments) = Inr ?args"
    by (simp add: undated_arguments_def arguments_or_empty_def
        validate_CreateTransactionInput_def vbind_def opt_field_def req_field_def
        default_field_def coerce_str_def coerce_int_def)
  have a3: "\<not> new_transaction_accepts plain_runtime (transaction_data ?args)"
    by (simp add: transaction_data_def dump_CreateTransactionInput_def dump_opt_def
        plain_runtime_def date_accepted_def iso_date_def)
  have b3: "get_budget_id memory_client (Some (dump_CreateTransactionInput ?args)) start_world =
      (Inr (JStr ''b-7''), start_world)"
    by (simp add: get_budget_id_def explicit_budget_id_def has_key_def
        dump_CreateTransactionInput_def dump_opt_def ret_def)
  have v4: "validate_UpdateTransactionsInput plain_runtime
      (arguments_or_empty undated_update_arguments) = Inr ?uargs"
    by (simp add: undated_update_arguments_def arguments_or_empty_def
        validate_UpdateTransactionsInput_def validate_TransactionUpdate_def vbind_def
        opt_field_def req_field_def coerce_str_def)
  have a4: "\<not> list_all (save_transaction_accepts plain_runtime)
      (map update_data (ut_transactions ?uargs))"
    by (simp add: update_data_def dump_TransactionUpdate_def dump_opt_def plain_runtime_def
        date_accepted_def iso_date_def)
  have b4: "get_budget_id memory_client (Some (dump_UpdateTransactionsInput ?uargs)) start_world =
      (Inr (JStr ''b-1''), ?w1)"
    by (simp add: get_budget_id_def explicit_budget_id_def has_key_def bind_def perform_def
        ret_def memory_client_def memory_get_default_budget_def empty_memory_def
        dump_UpdateTransactionsInput_def dump_opt_def start_world_def)
  have r1: "handle_call_tool plain_runtime memory_client ''create-transaction''
      (Some [(''account_id'', JStr ''a-1'')]) start_world = (Inl ValidationError, start_world)"
    using main [of plain_runtime "''create-transaction''" "Some [(''account_id'', JStr ''a-1'')]"
        memory_client start_world] bad1
    by blast
  have r2: "handle_call_tool plain_runtime memory_client ''delete-transaction''
      (Some [(''transaction_id'', JInt 7)]) start_world = (Inl ValidationError, start_world)"
    using main [of plain_runtime "''delete-transaction''" "Some [(''transaction_id'', JInt 7)]"
        memory_client start_world] bad2
    by blast
  have r3: "\<exists>msg. handle_call_tool plain_runtime memory_client ''move-budget-amount''
      (Some [(''month'', JStr ''2024-05-01''), (''amount'', JInt 200)]) start_world =
      (Inl (ValueError msg), start_world)"
    using main [of plain_runtime "''move-budget-amount''"
        "Some [(''month'', JStr ''2024-05-01''), (''amount'', JInt 200)]"
        memory_client start_world] keys missing
    by blast
  have "handle_call_tool plain_runtime memory_client ''create-transaction'' undated_arguments
      start_world =
      (case get_budget_id memory_client (Some (dump_CreateTransactionInput ?args)) start_world of
         (Inl e, w1) \<Rightarrow> (Inl e, w1)
       | (Inr bid, w1) \<Rightarrow> (Inl ValidationError, w1))"
    using main [of plain_runtime "''create-transaction''" undated_arguments memory_client
        start_world ?args] v3 a3
    by blast
  then have r4: "handle_call_tool plain_runtime memory_client ''create-transaction''
      undated_arguments start_world = (Inl ValidationError, start_world)"
    by (simp add: b3)
  have "handle_call_tool plain_runtime memory_client ''update-transactions''
      undated_update_arguments start_world =
      (case get_budget_id memory_client (Some (dump_UpdateTransactionsInput ?uargs))
              start_world of
         (Inl e, w1) \<Rightarrow> (Inl e, w1)
       | (Inr bid, w1) \<Rightarrow> (Inl ValidationError, w1))"
    using main [of plain_runtime "''update-transactions''" undated_update_arguments
        memory_client start_world _ ?uargs] v4 a4
    by blast
  then have r5: "handle_call_tool plain_runtime memory_client ''update-transactions''
      undated_update_arguments start_world = (Inl ValidationError, ?w1)"
    by (simp add: b4)
  from bad1 bad2 keys missing r1 r2 r3 r4 r5 show ?thesis
    by blast
qed

text \<open>
  C7 as stated fails for a required field that the schema accepts and the request model
  refuses. The date \<open>not-a-date\<close> is a string, so \<open>CreateTransactionInput\<close> accepts it;
  no budget id being given, the default budget is looked up at the service; only then is
  the new-transaction request built, and refused with \<open>ValidationError\<close>. The error
  comes after a service operation, not before any.
\<close>

theorem validation_error_after_lookup_counterexample:
  "\<not> validation_fails plain_runtime ''create-transaction'' not_a_date_arguments \<and>
   handle_call_tool plain_runtime memory_client ''create-transaction'' not_a_date_arguments
     start_world = (Inl ValidationError, \<lparr>svc = empty_memory, trace = [GetDefaultBudget]\<rparr>)"
proof -
  let ?args = "\<lparr>ct_budget_id = None,
      ct_account_id = ''0b9a5c1e-7d42-4f3a-9e6b-2c8d1f4a7e90'', ct_date = ''not-a-date'',
      ct_amount = - 12500, ct_payee_id = None, ct_payee_name = None, ct_category_id = None,
      ct_memo = None, ct_cleared = None, ct_approved = False, ct_flag_color = None,
      ct_import_id = None\<rparr>"
  let ?w1 = "\<lparr>svc = empty_memory, trace = [GetDefaultBudget]\<rparr>"
  have v: "validate_CreateTransactionInput plain_runtime
      (arguments_or_empty not_a_date_arguments) = Inr ?args"
    by (simp add: not_a_date_arguments_def arguments_or_empty_def
        validate_CreateTransactionInput_def vbind_def opt_field_def req_field_def
        default_field_def coerce_str_def coerce_int_def)
  have a: "\<not> new_transaction_accepts plain_runtime (transaction_data ?args)"
    by (simp add: transaction_data_def dump_CreateTransactionInput_def dump_opt_def
        plain_runtime_def date_accepted_def iso_date_def)
  have b: "get_budget_id memory_client (Some (dump_CreateTransactionInput ?args)) start_world =
      (Inr (JStr ''b-1''), ?w1)"
    by (simp add: get_budget_id_def explicit_budget_id_def has_key_def bind_def perform_def
        ret_def memory_client_def memory_get_default_budget_def empty_memory_def
        dump_CreateTransactionInput_def dump_opt_def start_world_def)
  have "\<not> validation_fails plain_runtime ''create-transaction'' not_a_date_arguments"
    by (simp add: validation_fails_def v)
  with create_transaction_run [OF v b] a show ?thesis
    by simp
qed

section \<open>Empty listings\<close>

lemma none_list_budgets:
  "get_budgets client (svc w) = (Inr [], s') \<Longrightarrow>
   handle_call_tool rt client ''list-budgets'' arguments w =
     (Inr [TextContent ''No budgets found.''], \<lparr>svc = s', trace = trace w @ [GetBudgets]\<rparr>)"
  by (simp add: handle_call_tool_def tool_list_budgets_def bind_def perform_def text_result_def
      ret_def)

lemma none_list_accounts:
  "validate_BudgetIdInput rt (arguments_or_empty arguments) = Inr args \<Longrightarrow>
   get_budget_id client (Some (dump_BudgetIdInput args)) w = (Inr bid, w1) \<Longrightarrow>
   get_accounts client bid (svc w1) = (Inr [], s') \<Longrightarrow>
   handle_call_tool rt client ''list-accounts'' arguments w =
     (Inr [TextContent ''No accounts found for this budget.''],
      \<lparr>svc = s', trace = trace w1 @ [GetAccounts bid]\<rparr>)"
  by (simp add: handle_call_tool_def tool_list_accounts_def bind_def perform_def text_result_def
      ret_def)

lemma none_list_transactions:
  "validate_ListTransactionsInput rt (arguments_or_empty arguments) = Inr args_t \<Longrightarrow>
   get_budget_id client (Some (dump_ListTransactionsInput args_t)) w = (Inr bid, w1) \<Longrightarrow>
   get_transactions client bid (lt_account_id args_t) (lt_since_date args_t) (lt_limit args_t)
     (svc w1) = (Inr [], s') \<Longrightarrow>
   handle_call_tool rt client ''list-transactions'' arguments w =
     (Inr [TextContent ''No transactions found for this account.''],
      \<lparr>svc = s',
       trace = trace w1 @
         [GetTransactions bid (lt_account_id args_t) (lt_since_date args_t) (lt_limit args_t)]\<rparr>)"
  by (simp add: handle_call_tool_def tool_list_transactions_def bind_def perform_def
      text_result_def ret_def)

lemma none_list_monthly_transactions:
  "validate_ListMonthlyTransactionsInput rt (arguments_or_empty arguments) = Inr args_m \<Longrightarrow>
   get_budget_id client (Some (dump_ListMonthlyTransactionsInput args_m)) w = (Inr bid, w1) \<Longrightarrow>
   get_monthly_transactions client bid (lm_month args_m) (lm_limit args_m) (svc w1) =
     (Inr [], s') \<Longrightarrow>
   handle_call_tool rt client ''list-monthly-transactions'' arguments w =
     (Inr [TextContent ''No transactions found for this month.''],
      \<lparr>svc = s',
       trace = trace w1 @ [GetMonthlyTransactions bid (lm_month args_m) (lm_limit args_m)]\<rparr>)"
  by (simp add: handle_call_tool_def tool_list_monthly_transactions_def bind_def perform_def
      text_result_def ret_def)

lemma none_list_categories:
  "validate_BudgetIdInput rt (arguments_or_empty arguments) = Inr args \<Longrightarrow>
   get_budget_id client (Some (dump_BudgetIdInput args)) w = (Inr bid, w1) \<Longrightarrow>
   get_categories client bid (svc w1) = (Inr [], s') \<Longrightarrow>
   handle_call_tool rt client ''list-categories'' arguments w =
     (Inr [TextContent ''No categories found for this budget.''],
      \<lparr>svc = s', trace = trace w1 @ [GetCategories bid]\<rparr>)"
  by (simp add: handle_call_tool_def tool_list_categories_def bind_def perform_def
      text_result_def ret_def)

lemma none_list_payees:
  "validate_BudgetIdInput rt (arguments_or_empty arguments) = Inr args \<Longrightarrow>
   get_budget_id client (Some (dump_BudgetIdInput args)) w = (Inr bid, w1) \<Longrightarrow>
   get_payees client bid (svc w1) = (Inr [], s') \<Longrightarrow>
   handle_call_tool rt client ''list-payees'' arguments w =
     (Inr [TextContent ''No payees found for this budget.''],
      \<lparr>svc = s', trace = trace w1 @ [GetPayees bid]\<rparr>)"
  by (simp add: handle_call_tool_def tool_list_payees_def bind_def perform_def text_result_def
      ret_def)

lemma none_list_scheduled_transactions:
  "get_budget_id client arguments w = (Inr bid, w1) \<Longrightarrow>
   get_scheduled_transactions client bid (svc w1) = (Inr [], s') \<Longrightarrow>
   handle_call_tool rt client ''list-scheduled-transactions'' arguments w =
     (Inr [TextContent ''No scheduled transactions found.''],
      \<lparr>svc = s', trace = trace w1 @ [GetScheduledTransactions bid]\<rparr>)"
  by (simp add: handle_call_tool_def tool_list_scheduled_transactions_def bind_def perform_def
      text_result_def ret_def)

text \<open>
  C8. Each of the seven listing tools (\<open>list-budgets\<close>, \<open>list-accounts\<close>,
  \<open>list-transactions\<close>, \<open>list-monthly-transactions\<close>, \<open>list-categories\<close>,
  \<open>list-payees\<close>, \<open>list-scheduled-transactions\<close>), when the arguments are valid,
  the budget is resolved and the listing capability returns an empty result, returns a
  single text block holding an explicit "No ... found" message: never an empty block, never
  an empty sequence. The only call issued after budget resolution is the listing call.
\<close>

theorem empty_listing_reports_none_found:
  "(get_budgets client (svc w) = (Inr [], s') \<longrightarrow>
      handle_call_tool rt client ''list-budgets'' arguments w =
        (Inr [TextContent ''No budgets found.''], \<lparr>svc = s', trace = trace w @ [GetBudgets]\<rparr>)) \<and>
   (validate_BudgetIdInput rt (arguments_or_empty arguments) = Inr args \<and>
    get_budget_id client (Some (dump_BudgetIdInput args)) w = (Inr bid, w1) \<and>
    get_accounts client bid (svc w1) = (Inr [], s') \<longrightarrow>
      handle_call_tool rt client ''list-accounts'' arguments w =
        (Inr [TextContent ''No accounts found for this budget.''],
         \<lparr>svc = s', trace = trace w1 @ [GetAccounts bid]\<rparr>)) \<and>
   (validate_ListTransactionsInput rt (arguments_or_empty arguments) = Inr args_t \<and>
    get_budget_id client (Some (dump_ListTransactionsInput args_t)) w = (Inr bid, w1) \<and>
    get_transactions client bid (lt_account_id args_t) (lt_since_date args_t) (lt_limit args_t)
      (svc w1) = (Inr [], s') \<longrightarrow>
      handle_call_tool rt client ''list-transactions'' arguments w =
        (Inr [TextContent ''No transactions found for this account.''],
         \<lparr>svc = s',
          trace = trace w1 @
            [GetTransactions bid (lt_account_id args_t) (lt_since_date args_t)
               (lt_limit args_t)]\<rparr>)) \<and>
   (validate_ListMonthlyTransactionsInput rt (arguments_or_empty arguments) = Inr args_m \<and>
    get_budget_id client (Some (dump_ListMonthlyTransactionsInput args_m)) w = (Inr bid, w1) \<and>
    get_monthly_transactions client bid (lm_month args_m) (lm_limit args_m) (svc w1) =
      (Inr [], s') \<longrightarrow>
      handle_call_tool rt client ''list-monthly-transactions'' arguments w =
        (Inr [TextContent ''No transactions found for this month.''],
         \<lparr>svc = s',
          trace = trace w1 @
            [GetMonthlyTransactions bid (lm_month args_m) (lm_limit args_m)]\<rparr>)) \<and>
   (validate_BudgetIdInput rt (arguments_or_empty arguments) = Inr args \<and>
    get_budget_id client (Some (dump_BudgetIdInput args)) w = (Inr bid, w1) \<and>
    get_categories client bid (svc w1) = (Inr [], s') \<longrightarrow>
      handle_call_tool rt client ''list-categories'' arguments w =
        (Inr [TextContent ''No categories found for this budget.''],
         \<lparr>svc = s', trace = trace w1 @ [GetCategories bid]\<rparr>)) \<and>
   (validate_BudgetIdInput rt (arguments_or_empty arguments) = Inr args \<and>
    get_budget_id client (Some (dump_BudgetIdInput args)) w = (Inr bid, w1) \<and>
    get_payees client bid (svc w1) = (Inr [], s') \<longrightarrow>
      handle_call_tool rt client ''list-payees'' arguments w =
        (Inr [TextContent ''No payees found for this budget.''],
         \<lparr>svc = s', trace = trace w1 @ [GetPayees bid]\<rparr>)) \<and>
   (get_budget_id client arguments w = (Inr bid, w1) \<and>
    get_scheduled_transactions client bid (svc w1) = (Inr [], s') \<longrightarrow>
      handle_call_tool rt client ''list-scheduled-transactions'' arguments w =
        (Inr [TextContent ''No scheduled transactions found.''],
         \<lparr>svc = s', trace = trace w1 @ [GetScheduledTransactions bid]\<rparr>))"
  by (intro conjI impI none_list_budgets none_list_accounts none_list_transactions
      none_list_monthly_transactions none_list_categories none_list_payees
      none_list_scheduled_transactions; (elim conjE)?; assumption)

theorem empty_listing_reports_none_found_witness:
  "handle_call_tool plain_runtime memory_client ''list-budgets'' listing_arguments start_world =
     (Inr [TextContent ''No budgets found.''], \<lparr>svc = empty_memory, trace = [GetBudgets]\<rparr>) \<and>
   handle_call_tool plain_runtime memory_client ''list-accounts'' listing_arguments start_world =
     (Inr [TextContent ''No accounts found for this budget.''],
      \<lparr>svc = empty_memory, trace = [GetAccounts (JStr ''b-7'')]\<rparr>) \<and>
   handle_call_tool plain_runtime memory_client ''list-transactions'' listing_arguments
     start_world =
     (Inr [TextContent ''No transactions found for this account.''],
      \<lparr>svc = empty_memory, trace = [GetTransactions (JStr ''b-7'') ''a-1'' None None]\<rparr>) \<and>
   handle_call_tool plain_runtime memory_client ''list-monthly-transactions'' listing_arguments
     start_world =
     (Inr [TextContent ''No transactions found for this month.''],
      \<lparr>svc = empty_memory,
       trace = [GetMonthlyTransactions (JStr ''b-7'') ''2024-05-01'' None]\<rparr>) \<and>
   handle_call_tool plain_runtime memory_client ''list-categories'' listing_arguments start_world =
     (Inr [TextContent ''No categories found for this budget.''],
      \<lparr>svc = empty_memory, trace = [GetCategories (JStr ''b-7'')]\<rparr>) \<and>
   handle_call_tool plain_runtime memory_client ''list-payees'' listing_arguments start_world =
     (Inr [TextContent ''No payees found for this budget.''],
      \<lparr>svc = empty_memory, trace = [GetPayees (JStr ''b-7'')]\<rparr>) \<and>
   handle_call_tool plain_runtime memory_client ''list-scheduled-transactions'' listing_arguments
     start_world =
     (Inr [TextContent ''No scheduled transactions found.''],
      \<lparr>svc = empty_memory, trace = [GetScheduledTransactions (JStr ''b-7'')]\<rparr>)"
proof -
  let ?args = "\<lparr>budget_id = Some ''b-7''\<rparr>"
  let ?args_t = "\<lparr>lt_budget_id = Some ''b-7'', lt_account_id = ''a-1'', lt_since_date = None,
                  lt_limit = None\<rparr>"
  let ?args_m = "\<lparr>lm_budget_id = Some ''b-7'', lm_month = ''2024-05-01'', lm_limit = None\<rparr>"
  have v: "validate_BudgetIdInput plain_runtime (arguments_or_empty listing_arguments) = Inr ?args"
    by (simp add: listing_arguments_def arguments_or_empty_def validate_BudgetIdInput_def
        vbind_def opt_field_def coerce_str_def)
  have vt: "validate_ListTransactionsInput plain_runtime (arguments_or_empty listing_arguments) =
      Inr ?args_t"
    by (simp add: listing_arguments_def arguments_or_empty_def validate_ListTransactionsInput_def
        vbind_def opt_field_def req_field_def coerce_str_def)
  have vm: "validate_ListMonthlyTransactionsInput plain_runtime
      (arguments_or_empty listing_arguments) = Inr ?args_m"
    by (simp add: listing_arguments_def arguments_or_empty_def
        validate_ListMonthlyTransactionsInput_def vbind_def opt_field_def req_field_def
        coerce_str_def)
  have b: "get_budget_id memory_client (Some (dump_BudgetIdInput ?args)) start_world =
      (Inr (JStr ''b-7''), start_world)"
    by (simp add: get_budget_id_def explicit_budget_id_def has_key_def dump_BudgetIdInput_def
        dump_opt_def ret_def)
  have bt: "get_budget_id memory_client (Some (dump_ListTransactionsInput ?args_t)) start_world =
      (Inr (JStr ''b-7''), start_world)"
    by (simp add: get_budget_id_def explicit_budget_id_def has_key_def
        dump_ListTransactionsInput_def dump_opt_def ret_def)
  have bm: "get_budget_id memory_client (Some (dump_ListMonthlyTransactionsInput ?args_m))
      start_world = (Inr (JStr ''b-7''), start_world)"
    by (simp add: get_budget_id_def explicit_budget_id_def has_key_def
        dump_ListMonthlyTransactionsInput_def dump_opt_def ret_def)
  have br: "get_budget_id memory_client listing_arguments start_world =
      (Inr (JStr ''b-7''), start_world)"
    by (simp add: get_budget_id_def explicit_budget_id_def has_key_def listing_arguments_def
        ret_def)
  have s: "svc start_world = empty_memory" "trace start_world = []"
    by (simp_all add: start_world_def)
  have e: "get_budgets memory_client empty_memory = (Inr [], empty_memory)"
    "get_accounts memory_client (JStr ''b-7'') empty_memory = (Inr [], empty_memory)"
    "get_transactions memory_client (JStr ''b-7'') ''a-1'' None None empty_memory =
       (Inr [], empty_memory)"
    "get_monthly_transactions memory_client (JStr ''b-7'') ''2024-05-01'' None empty_memory =
       (Inr [], empty_memory)"
    "get_categories memory_client (JStr ''b-7'') empty_memory = (Inr [], empty_memory)"
    "get_payees memory_client (JStr ''b-7'') empty_memory = (Inr [], empty_memory)"
    "get_scheduled_transactions memory_client (JStr ''b-7'') empty_memory = (Inr [], empty_memory)"
    by (simp_all add: memory_client_def empty_memory_def)
  show ?thesis
    using empty_listing_reports_none_found
      [of memory_client start_world empty_memory plain_runtime listing_arguments ?args
          "JStr ''b-7''" start_world ?args_t ?args_m]
    by (simp add: v vt vm b bt bm br s e)
qed

section \<open>What list-categories prints\<close>

lemma goal_line_eq:
  "has_goal_type cat \<Longrightarrow>
   ''  - Goal ('' @ goal_type_text cat @ ''): Target '' @ goal_target rt cat @ '', '' @
     goal_progress cat @ '' complete\<newline>'' = spec_goal_line rt cat"
  by (auto simp: spec_goal_line_def has_goal_type_def goal_type_text_def goal_target_def
      goal_progress_def money_def split: option.splits)

lemma no_goal_type_iff:
  "(c_goal_type cat = None \<or> c_goal_type cat = Some []) = (\<not> has_goal_type cat)"
  by (cases "c_goal_type cat") (simp_all add: has_goal_type_def)

lemma render_categories_eq:
  "render_categories rt cats out =
   out @ concat (map (spec_category_lines rt) (filter (\<lambda>cat. \<not> c_hidden cat) cats))"
proof (induction cats arbitrary: out)
  case Nil
  show ?case by simp
next
  case (Cons cat cats)
  show ?case
  proof (cases "has_goal_type cat")
    case True
    then show ?thesis
      using goal_line_eq [OF True, of rt]
      by (simp add: Cons.IH spec_category_lines_def Let_def no_goal_type_iff)
  next
    case False
    then show ?thesis
      by (simp add: Cons.IH spec_category_lines_def Let_def no_goal_type_iff)
  qed
qed

lemma render_groups_eq:
  "render_groups rt groups out =
   out @ concat (map (spec_group_block rt)
                      (filter (\<lambda>grp. \<not> g_hidden grp \<and> g_categories grp \<noteq> []) groups))"
  by (induction groups arbitrary: out)
     (simp_all add: render_categories_eq spec_group_block_def)

lemma fixed2_0: "fixed2 0 = ''0.00''"
  by (simp add: fixed2_def show_nat.simps digit_def)

text \<open>
  C9 (as amended). A \<open>list-categories\<close> invocation on a non-empty result prints the
  header followed by one block per group that is not hidden and has categories, each block
  holding the lines of the group's categories that are not hidden: hidden groups and hidden
  categories produce no output. A category with a non-empty goal type gets one more line
  with the goal type, the target as milliunits divided by 1000, or \<open>N/A\<close> when the
  target is unset or zero, and the percentage complete, 0 when unset.
\<close>

theorem list_categories_rendering:
  assumes "validate_BudgetIdInput rt (arguments_or_empty arguments) = Inr args"
    and "get_budget_id client (Some (dump_BudgetIdInput args)) w = (Inr bid, w1)"
    and "get_categories client bid (svc w1) = (Inr groups, s')"
    and "groups \<noteq> []"
  shows "handle_call_tool rt client ''list-categories'' arguments w =
     (Inr [TextContent (spec_categories_text rt groups)],
      \<lparr>svc = s', trace = trace w1 @ [GetCategories bid]\<rparr>)"
  using assms
  by (simp add: handle_call_tool_def tool_list_categories_def bind_def perform_def
      text_result_def ret_def render_groups_eq spec_categories_text_def)

theorem list_categories_rendering_witness:
  "handle_call_tool plain_runtime memory_client ''list-categories'' None categories_world =
     (Inr [TextContent (spec_categories_text plain_runtime example_groups)],
      \<lparr>svc = empty_memory\<lparr>m_groups := example_groups\<rparr>,
       trace = [GetDefaultBudget, GetCategories (JStr ''b-1'')]\<rparr>) \<and>
   spec_categories_text plain_runtime example_groups =
     ''Here are the available categories and their status for the current month:\<newline>'' @
     ''\<newline>--- Bills ---\<newline>'' @
     ''- Rent (ID: c-1)\<newline>  - Budgeted: 0.00, Spent: 0.00, Balance: 0.00\<newline>'' @
     ''  - Goal (TB): Target N/A, 0% complete\<newline>''"
proof -
  let ?s = "empty_memory\<lparr>m_groups := example_groups\<rparr>"
  let ?w1 = "\<lparr>svc = ?s, trace = [GetDefaultBudget]\<rparr>"
  have v: "validate_BudgetIdInput plain_runtime (arguments_or_empty None) = Inr \<lparr>budget_id = None\<rparr>"
    by (simp add: arguments_or_empty_def validate_BudgetIdInput_def vbind_def opt_field_def)
  have b: "get_budget_id memory_client (Some (dump_BudgetIdInput \<lparr>budget_id = None\<rparr>))
      categories_world = (Inr (JStr ''b-1''), ?w1)"
    by (simp add: get_budget_id_def explicit_budget_id_def has_key_def dump_BudgetIdInput_def
        dump_opt_def bind_def perform_def ret_def memory_client_def memory_get_default_budget_def
        categories_world_def empty_memory_def)
  have g: "get_categories memory_client (JStr ''b-1'') (svc ?w1) = (Inr example_groups, ?s)"
    by (simp add: memory_client_def)
  have ne: "example_groups \<noteq> []"
    by (simp add: example_groups_def)
  have t: "spec_categories_text plain_runtime example_groups =
     ''Here are the available categories and their status for the current month:\<newline>'' @
     ''\<newline>--- Bills ---\<newline>'' @
     ''- Rent (ID: c-1)\<newline>  - Budgeted: 0.00, Spent: 0.00, Balance: 0.00\<newline>'' @
     ''  - Goal (TB): Target N/A, 0% complete\<newline>''"
    by (simp add: spec_categories_text_def example_groups_def spec_group_block_def
        spec_category_lines_def spec_goal_line_def zero_target_category_def category_details_def
        money_def plain_runtime_def fixed2_0 show_int_def show_nat.simps digit_def)
  from list_categories_rendering [OF v b g ne] t show ?thesis
    by simp
qed

text \<open>
  C9 as stated fails for a target that is set to zero: it is printed as \<open>N/A\<close>, not as
  the amount \<open>0.00\<close>.
\<close>

theorem zero_goal_target_counterexample:
  "c_goal_target zero_target_category = Some 0 \<and>
   render_categories plain_runtime [zero_target_category] [] =
     ''- Rent (ID: c-1)\<newline>  - Budgeted: 0.00, Spent: 0.00, Balance: 0.00\<newline>'' @
     ''  - Goal (TB): Target N/A, 0% complete\<newline>'' \<and>
   money plain_runtime 0 = ''0.00''"
  by (simp add: zero_target_category_def has_goal_type_def goal_type_text_def goal_target_def
      goal_progress_def category_details_def money_def plain_runtime_def fixed2_0 show_int_def
      show_nat.simps digit_def)

section \<open>The monthly aggregates of the overview\<close>

lemma floor_rat_numeral: "\<lfloor>numeral a / numeral b :: rat\<rfloor> = numeral a div numeral b"
  using floor_divide_of_int_eq [of "numeral a" "numeral b", where ?'a = rat] by simp

lemmas float_eval =
  int_truediv_def amount_div_def float_mul_def float_zero_def float_infinite_def
  float_negative_def float_value_def signed_zero_def round64_def round_magnitude_def
  exponent_of_def bit_length.simps pow2_def nearest_even_def Let_def floor_rat_numeral

lemma amount_div_0 [simp]: "amount_div 0 b = Finite 0"
  by (simp add: amount_div_def round64_def)

lemma int_truediv_amount_div:
  assumes "int_truediv a b = Inr x" and "0 < b"
  shows "amount_div a b = x"
proof (cases "a = 0")
  case True
  with assms show ?thesis
    by (simp add: int_truediv_def signed_zero_def)
next
  case False
  with assms show ?thesis
    by (cases "round64 (of_int a / of_int b)") (simp_all add: int_truediv_def amount_div_def)
qed

lemma savings_rate_is_rounded:
  "savings_rate (93000, 0, 7000) = JNum (Finite (7 + 1 / 2 ^ 50))"
  by (simp add: savings_rate_def float_eval)

lemma map_of_dict_set: "map_of (dict_set d k v) k' = (if k' = k then Some v else map_of d k')"
  by (induction d) auto

lemma named_total_Cons:
  "named_total n (grp # grps) =
     (if g_name grp = n \<and> (\<forall>g \<in> set grps. g_name g \<noteq> n) then visible_budgeted grp
      else named_total n grps)"
  by (auto simp: named_total_def filter_empty_conv split: list.splits)

lemma total_from_Nil [simp]: "total_from n [] start = start"
  by (simp add: total_from_def)

lemma total_from_Cons:
  "total_from n (grp # grps) start =
     total_from n grps (if g_name grp = n then visible_budgeted grp else start)"
  by (auto simp: total_from_def named_total_Cons)

lemma monthly_totals_eq:
  "monthly_totals groups (fb, ds, sv) =
     (total_from ''Bills'' groups fb, total_from ''Wants'' groups ds,
      total_from ''Savings'' groups sv)"
  by (induction groups arbitrary: fb ds sv) (simp_all add: total_from_Cons)

lemma total_from_0: "total_from n groups 0 = named_total n groups"
  by (auto simp: total_from_def named_total_def filter_empty_conv split: list.splits)

lemma monthly_totals_named:
  "monthly_totals groups (0, 0, 0) =
     (named_total ''Bills'' groups, named_total ''Wants'' groups, named_total ''Savings'' groups)"
  by (simp add: monthly_totals_eq total_from_0)

lemma monthly_overview_eq: "monthly_overview groups = spec_monthly_overview groups"
  by (simp add: monthly_overview_def monthly_totals_named spec_monthly_overview_def
      savings_rate_def spec_savings_rate_def Let_def)

lemma named_total_single:
  "length (filter (\<lambda>grp. g_name grp = n) groups) \<le> 1 \<Longrightarrow>
   named_total n groups =
     sum_list (map visible_budgeted (filter (\<lambda>grp. g_name grp = n) groups))"
  by (cases "filter (\<lambda>grp. g_name grp = n) groups") (auto simp: named_total_def)

lemma named_total_none:
  "\<forall>g \<in> set groups. g_name g \<noteq> n \<Longrightarrow> named_total n groups = 0"
  by (simp add: named_total_def filter_empty_conv[THEN iffD2])

lemma refresh_run:
  assumes "get_budget_id client arguments w = (Inr bid, w1)"
    and "get_accounts client bid (svc w1) = (Inr accounts, s2)"
    and "get_categories client bid s2 = (Inr groups, s3)"
    and "load_overview client s3 = (Inr overview, s4)"
    and "save_overview client (refreshed_overview overview accounts groups) s4 = (r, s5)"
  shows "handle_call_tool rt client ''refresh-financial-overview'' arguments w =
     ((case r of Inl e \<Rightarrow> Inl e
       | Inr u \<Rightarrow> Inr [TextContent
           ''Successfully refreshed the financial overview with latest YNAB data.'']),
      \<lparr>svc = s5,
       trace = trace w1 @ [GetAccounts bid, GetCategories bid, LoadOverview,
                           SaveOverview (refreshed_overview overview accounts groups)]\<rparr>)"
  using assms
  by (cases r)
     (simp_all add: handle_call_tool_def tool_refresh_financial_overview_def bind_def perform_def
      text_result_def ret_def)

lemma refreshed_monthly_overview:
  "map_of (refreshed_overview overview accounts groups) ''monthly_overview'' =
     Some (spec_monthly_overview groups)"
  by (simp add: refreshed_overview_def map_of_dict_set monthly_overview_eq)

text \<open>
  C4 (as amended). A \<open>refresh-financial-overview\<close> invocation whose reads succeed, on
  amounts whose quotients are in the range of a float, hands to the store a document whose
  \<open>monthly_overview\<close> holds \<open>fixed_bills\<close> and \<open>discretionary_spending\<close>, the floats
  \<open>total / 1000\<close> for the totals of the groups literally named \<open>Bills\<close> and \<open>Wants\<close>,
  and \<open>savings_rate\<close>, which is the float \<open>savings / total_budgeted * 100\<close> (the
  quotient rounded, then the product rounded) when the sum \<open>total_budgeted\<close> of the three
  totals is positive and the integer 0 when it is zero or negative, \<open>savings\<close> being the
  total of the group named \<open>Savings\<close>. The total of a name is the sum of the budgeted
  amounts of the non-hidden categories of the groups bearing it whenever at most one
  group does. With no group of any of the three names the two amounts are \<open>0.0\<close> and the
  rate is 0.
\<close>

theorem refresh_monthly_overview:
  assumes "get_budget_id client arguments w = (Inr bid, w1)"
    and "get_accounts client bid (svc w1) = (Inr accounts, s2)"
    and "get_categories client bid s2 = (Inr groups, s3)"
    and "load_overview client s3 = (Inr overview, s4)"
    and "\<forall>acc \<in> set accounts. int_truediv (acc_balance acc) 1000 \<noteq> Inl OverflowError"
    and "int_truediv (named_total ''Bills'' groups) 1000 = Inr fixed_bills"
    and "int_truediv (named_total ''Wants'' groups) 1000 = Inr discretionary_spending"
    and "0 < spec_total_budgeted groups \<longrightarrow>
         int_truediv (named_total ''Savings'' groups) (spec_total_budgeted groups) = Inr share"
  shows "\<exists>d. new_calls w1 (snd (handle_call_tool rt client ''refresh-financial-overview''
                                arguments w)) =
           [GetAccounts bid, GetCategories bid, LoadOverview, SaveOverview d] \<and>
         map_of d ''monthly_overview'' =
           Some (JObj [(''fixed_bills'', JNum fixed_bills),
                       (''discretionary_spending'', JNum discretionary_spending),
                       (''savings_rate'',
                        if 0 < spec_total_budgeted groups
                        then JNum (float_mul share (Finite 100)) else JInt 0)]) \<and>
         (length (filter (\<lambda>grp. g_name grp = n) groups) \<le> 1 \<longrightarrow>
            named_total n groups =
              sum_list (map visible_budgeted (filter (\<lambda>grp. g_name grp = n) groups))) \<and>
         ((\<forall>grp \<in> set groups. g_name grp \<noteq> ''Bills'' \<and> g_name grp \<noteq> ''Wants'' \<and>
                               g_name grp \<noteq> ''Savings'') \<longrightarrow>
            map_of d ''monthly_overview'' =
              Some (JObj [(''fixed_bills'', JNum (Finite 0)),
                          (''discretionary_spending'', JNum (Finite 0)),
                          (''savings_rate'', JInt 0)]))"
proof -
  obtain r s5 where
    save: "save_overview client (refreshed_overview overview accounts groups) s4 = (r, s5)"
    by (cases "save_overview client (refreshed_overview overview accounts groups) s4")
  let ?d = "refreshed_overview overview accounts groups"
  have calls: "new_calls w1 (snd (handle_call_tool rt client ''refresh-financial-overview''
      arguments w)) = [GetAccounts bid, GetCategories bid, LoadOverview, SaveOverview ?d]"
    by (simp add: refresh_run [OF assms(1-4) save] new_calls_def)
  have fb: "amount_div (named_total ''Bills'' groups) 1000 = fixed_bills"
    by (rule int_truediv_amount_div [OF assms(6)]) simp
  have ds: "amount_div (named_total ''Wants'' groups) 1000 = discretionary_spending"
    by (rule int_truediv_amount_div [OF assms(7)]) simp
  have sh: "0 < spec_total_budgeted groups \<Longrightarrow>
      amount_div (named_total ''Savings'' groups) (spec_total_budgeted groups) = share"
    using assms(8) by (simp add: int_truediv_amount_div)
  have mo: "map_of ?d ''monthly_overview'' =
      Some (JObj [(''fixed_bills'', JNum fixed_bills),
                  (''discretionary_spending'', JNum discretionary_spending),
                  (''savings_rate'',
                   if 0 < spec_total_budgeted groups
                   then JNum (float_mul share (Finite 100)) else JInt 0)])"
    using sh
    by (simp add: refreshed_monthly_overview spec_monthly_overview_def spec_savings_rate_def
        spec_total_budgeted_def fb ds)
  have none: "(\<forall>grp \<in> set groups. g_name grp \<noteq> ''Bills'' \<and> g_name grp \<noteq> ''Wants'' \<and>
        g_name grp \<noteq> ''Savings'') \<longrightarrow>
      map_of ?d ''monthly_overview'' =
        Some (JObj [(''fixed_bills'', JNum (Finite 0)),
                    (''discretionary_spending'', JNum (Finite 0)),
                    (''savings_rate'', JInt 0)])"
  proof
    assume a: "\<forall>grp \<in> set groups. g_name grp \<noteq> ''Bills'' \<and> g_name grp \<noteq> ''Wants'' \<and>
        g_name grp \<noteq> ''Savings''"
    then have "named_total ''Bills'' groups = 0" "named_total ''Wants'' groups = 0"
      "named_total ''Savings'' groups = 0"
      by (simp_all add: named_total_none)
    then show "map_of ?d ''monthly_overview'' =
        Some (JObj [(''fixed_bills'', JNum (Finite 0)),
                    (''discretionary_spending'', JNum (Finite 0)),
                    (''savings_rate'', JInt 0)])"
      by (simp add: refreshed_monthly_overview spec_monthly_overview_def spec_savings_rate_def)
  qed
  have single: "length (filter (\<lambda>grp. g_name grp = n) groups) \<le> 1 \<longrightarrow>
      named_total n groups =
        sum_list (map visible_budgeted (filter (\<lambda>grp. g_name grp = n) groups))"
    using named_total_single [of n groups] by blast
  from calls mo single none show ?thesis
    by blast
qed

lemmas run_defs =
  handle_call_tool_def bind_def perform_def ret_def raise_def lift_def text_result_def
  get_budget_id_def explicit_budget_id_def has_key_def memory_client_def
  memory_get_default_budget_def empty_memory_def

theorem refresh_monthly_overview_witness:
  "named_total ''Bills'' budgeted_groups = 100000 \<and>
   sum_list (map visible_budgeted (filter (\<lambda>grp. g_name grp = ''Bills'') budgeted_groups)) = 100000 \<and>
   (\<exists>d. new_calls \<lparr>svc = empty_memory\<lparr>m_groups := budgeted_groups\<rparr>, trace = [GetDefaultBudget]\<rparr>
          (snd (handle_call_tool plain_runtime memory_client ''refresh-financial-overview'' None
                  budgeted_world)) =
          [GetAccounts (JStr ''b-1''), GetCategories (JStr ''b-1''), LoadOverview, SaveOverview d] \<and>
        map_of d ''monthly_overview'' =
          Some (JObj [(''fixed_bills'', JNum (Finite 100)),
                      (''discretionary_spending'', JNum (Finite 50)),
                      (''savings_rate'', JNum (Finite 25))]))"
proof -
  let ?s = "empty_memory\<lparr>m_groups := budgeted_groups\<rparr>"
  let ?w1 = "\<lparr>svc = ?s, trace = [GetDefaultBudget]\<rparr>"
  have b: "get_budget_id memory_client None budgeted_world = (Inr (JStr ''b-1''), ?w1)"
    by (simp add: run_defs budgeted_world_def)
  have a: "get_accounts memory_client (JStr ''b-1'') (svc ?w1) = (Inr [], ?s)"
    by (simp add: memory_client_def empty_memory_def)
  have g: "get_categories memory_client (JStr ''b-1'') ?s = (Inr budgeted_groups, ?s)"
    by (simp add: memory_client_def)
  have l: "load_overview memory_client ?s = (Inr [], ?s)"
    by (simp add: memory_client_def notes_load_overview_def empty_memory_def)
  have t: "named_total ''Bills'' budgeted_groups = 100000"
    "named_total ''Wants'' budgeted_groups = 50000"
    "named_total ''Savings'' budgeted_groups = 50000"
    by (simp_all add: named_total_def budgeted_groups_def visible_budgeted_def plain_category_def)
  have tb: "spec_total_budgeted budgeted_groups = 200000"
    by (simp add: spec_total_budgeted_def t)
  have f: "sum_list (map visible_budgeted
      (filter (\<lambda>grp. g_name grp = ''Bills'') budgeted_groups)) = 100000"
    by (simp add: budgeted_groups_def visible_budgeted_def plain_category_def)
  have one: "length (filter (\<lambda>grp. g_name grp = ''Bills'') budgeted_groups) \<le> 1"
    by (simp add: budgeted_groups_def)
  have acc: "\<forall>acc \<in> set []. int_truediv (acc_balance acc) 1000 \<noteq> Inl OverflowError"
    by simp
  have d1: "int_truediv (named_total ''Bills'' budgeted_groups) 1000 = Inr (Finite 100)"
    unfolding t by (simp add: float_eval)
  have d2: "int_truediv (named_total ''Wants'' budgeted_groups) 1000 = Inr (Finite 50)"
    unfolding t by (simp add: float_eval)
  have d3: "0 < spec_total_budgeted budgeted_groups \<longrightarrow>
      int_truediv (named_total ''Savings'' budgeted_groups) (spec_total_budgeted budgeted_groups) =
        Inr (Finite (1 / 4))"
    unfolding t tb by (simp add: float_eval)
  have m: "float_mul (Finite (1 / 4)) (Finite 100) = Finite 25"
    by (simp add: float_eval)
  from refresh_monthly_overview [OF b a g l acc d1 d2 d3, of plain_runtime "''Bills''"] t tb f one m
  show ?thesis
    by simp blast
qed

text \<open>
  C4 as stated fails in two ways. When the three totals sum to a negative amount the
  denominator is not zero, yet the rate stored is 0 and not the quotient (here
  \<open>1000 / -2000 * 100\<close>, which is \<open>-50.0\<close>). And when two groups bear the name
  \<open>Bills\<close>, with 1000 and 2000 budgeted, \<open>fixed_bills\<close> is \<open>2.0\<close>, from the last of them
  alone, and not \<open>3.0\<close>, from their sum.
\<close>

theorem refresh_totals_counterexample:
  "m_overview (svc (snd (handle_call_tool plain_runtime memory_client
      ''refresh-financial-overview'' None overdrawn_world))) =
     Some [(''account_balances'', JObj []),
           (''monthly_overview'',
            JObj [(''fixed_bills'', JNum (Finite (- 3))),
                  (''discretionary_spending'', JNum (Finite 0)),
                  (''savings_rate'', JInt 0)]),
           (''last_updated'', JStr ''2024-05-01T00:00:00'')] \<and>
   monthly_totals overdrawn_groups (0, 0, 0) = (- 3000, 0, 1000) \<and>
   int_truediv 1000 (- 3000 + 0 + 1000) = Inr (Finite (- (1 / 2))) \<and>
   float_mul (Finite (- (1 / 2))) (Finite 100) = Finite (- 50) \<and>
   m_overview (svc (snd (handle_call_tool plain_runtime memory_client
      ''refresh-financial-overview'' None twice_billed_world))) =
     Some [(''account_balances'', JObj []),
           (''monthly_overview'',
            JObj [(''fixed_bills'', JNum (Finite 2)),
                  (''discretionary_spending'', JNum (Finite 0)),
                  (''savings_rate'', JNum (Finite 0))]),
           (''last_updated'', JStr ''2024-05-01T00:00:00'')] \<and>
   sum_list (map visible_budgeted (filter (\<lambda>grp. g_name grp = ''Bills'') twice_billed_groups)) =
     3000"
proof -
  have run: "\<And>groups. handle_call_tool plain_runtime memory_client
      ''refresh-financial-overview'' None \<lparr>svc = empty_memory\<lparr>m_groups := groups\<rparr>, trace = []\<rparr> =
     (Inr [TextContent ''Successfully refreshed the financial overview with latest YNAB data.''],
      \<lparr>svc = empty_memory
         \<lparr>m_groups := groups,
          m_overview := Some [(''account_balances'', JObj []),
                              (''monthly_overview'', monthly_overview groups),
                              (''last_updated'', JStr ''2024-05-01T00:00:00'')]\<rparr>,
       trace = [GetDefaultBudget, GetAccounts (JStr ''b-1''), GetCategories (JStr ''b-1''),
                LoadOverview,
                SaveOverview [(''account_balances'', JObj []),
                              (''monthly_overview'', monthly_overview groups)]]\<rparr>)"
    by (simp add: run_defs tool_refresh_financial_overview_def notes_load_overview_def
        notes_save_overview_def refreshed_overview_def)
  have t1: "monthly_totals overdrawn_groups (0, 0, 0) = (- 3000, 0, 1000)"
    by (simp add: overdrawn_groups_def visible_budgeted_def plain_category_def)
  have t2: "monthly_totals twice_billed_groups (0, 0, 0) = (2000, 0, 0)"
    by (simp add: twice_billed_groups_def visible_budgeted_def plain_category_def)
  have m1: "monthly_overview overdrawn_groups =
      JObj [(''fixed_bills'', JNum (Finite (- 3))), (''discretionary_spending'', JNum (Finite 0)),
            (''savings_rate'', JInt 0)]"
    by (simp add: monthly_overview_def t1 savings_rate_def float_eval)
  have m2: "monthly_overview twice_billed_groups =
      JObj [(''fixed_bills'', JNum (Finite 2)), (''discretionary_spending'', JNum (Finite 0)),
            (''savings_rate'', JNum (Finite 0))]"
    by (simp add: monthly_overview_def t2 savings_rate_def float_eval)
  have q: "int_truediv 1000 (- 2000) = Inr (Finite (- (1 / 2)))"
    "float_mul (Finite (- (1 / 2))) (Finite 100) = Finite (- 50)"
    by (simp_all add: float_eval)
  have s: "sum_list (map visible_budgeted
      (filter (\<lambda>grp. g_name grp = ''Bills'') twice_billed_groups)) = 3000"
    by (simp add: twice_billed_groups_def visible_budgeted_def plain_category_def)
  show ?thesis
    unfolding overdrawn_world_def twice_billed_world_def
    by (simp add: run m1 m2 t1 q s)
qed

section \<open>Writes to the overview document\<close>

lemma update_section_run:
  assumes "map_of a ''section'' = Some (JStr k)" and "map_of a ''data'' = Some data"
  shows "handle_call_tool rt memory_client ''update-financial-overview-section'' (Some a) w =
     (Inr [TextContent (''Successfully updated the '' @ k @
                        '' section of the financial overview.'')],
      \<lparr>svc = (svc w)\<lparr>m_overview :=
               Some (dict_set (dict_set (loaded_document (svc w)) k data) ''last_updated''
                       (JStr (m_now (svc w))))\<rparr>,
       trace = trace w @ [UpdateOverviewSection (JStr k) data]\<rparr>)"
proof -
  have present: "\<not> missing_required (Some a) [''section'', ''data'']"
    using assms by (auto simp: missing_required_def no_arguments_def has_key_def
        arguments_or_empty_def)
  show ?thesis
    using assms present
    by (simp add: handle_call_tool_def tool_update_financial_overview_section_def arg_def
        subscript_def arguments_or_empty_def bind_def perform_def text_result_def ret_def
        lift_def memory_client_def notes_update_overview_section_def notes_load_overview_def
        notes_save_overview_def loaded_document_def py_str_def split: option.splits)
qed

lemma refresh_run_memory:
  assumes "get_budget_id memory_client arguments w = (Inr bid, w1)"
  shows "svc (snd (handle_call_tool rt memory_client ''refresh-financial-overview'' arguments w)) =
     (svc w)\<lparr>m_overview :=
        Some (dict_set (refreshed_overview (loaded_document (svc w)) (m_accounts (svc w))
                          (m_groups (svc w)))
                ''last_updated'' (JStr (m_now (svc w))))\<rparr>"
proof -
  have same: "svc w1 = svc w"
    using assms
    by (auto simp: get_budget_id_def ret_def bind_def perform_def memory_client_def
        memory_get_default_budget_def split: option.splits)
  show ?thesis
    using assms same
    by (simp add: handle_call_tool_def tool_refresh_financial_overview_def bind_def perform_def
        text_result_def ret_def memory_client_def notes_load_overview_def
        notes_save_overview_def loaded_document_def split: option.splits)
qed

text \<open>
  C5 (as amended), against the reference store. \<open>update-financial-overview-section\<close>
  with section name \<open>k\<close> and payload \<open>data\<close> persists a document in which
  \<open>last_updated\<close> is the time of the write, section \<open>k\<close> equals \<open>data\<close> (unless
  \<open>k\<close> is \<open>last_updated\<close> itself), and every top-level key other than \<open>k\<close> and
  \<open>last_updated\<close> is as it was in the loaded document. \<open>refresh-financial-overview\<close>,
  once the budget is resolved, persists a document in which \<open>account_balances\<close> and
  \<open>monthly_overview\<close> are the recomputed sections, \<open>last_updated\<close> is the time of the
  write, and every other top-level key is as it was in the loaded document.
\<close>

theorem overview_writes_preserve_other_sections:
  "(map_of a ''section'' = Some (JStr k) \<and> map_of a ''data'' = Some data \<longrightarrow>
      (\<exists>d'. m_overview (svc (snd (handle_call_tool rt memory_client
                 ''update-financial-overview-section'' (Some a) w))) = Some d' \<and>
            (k \<noteq> ''last_updated'' \<longrightarrow> map_of d' k = Some data) \<and>
            map_of d' ''last_updated'' = Some (JStr (m_now (svc w))) \<and>
            (\<forall>k'. k' \<noteq> k \<and> k' \<noteq> ''last_updated'' \<longrightarrow>
                  map_of d' k' = map_of (loaded_document (svc w)) k'))) \<and>
   (get_budget_id memory_client arguments w = (Inr bid, w1) \<longrightarrow>
      (\<exists>d'. m_overview (svc (snd (handle_call_tool rt memory_client
                 ''refresh-financial-overview'' arguments w))) = Some d' \<and>
            map_of d' ''account_balances'' =
              Some (JObj (account_balances (m_accounts (svc w)) [])) \<and>
            map_of d' ''monthly_overview'' = Some (monthly_overview (m_groups (svc w))) \<and>
            map_of d' ''last_updated'' = Some (JStr (m_now (svc w))) \<and>
            (\<forall>k'. k' \<noteq> ''account_balances'' \<and> k' \<noteq> ''monthly_overview'' \<and>
                  k' \<noteq> ''last_updated'' \<longrightarrow>
                  map_of d' k' = map_of (loaded_document (svc w)) k')))"
proof (intro conjI impI)
  assume "map_of a ''section'' = Some (JStr k) \<and> map_of a ''data'' = Some data"
  then show "\<exists>d'. m_overview (svc (snd (handle_call_tool rt memory_client
                 ''update-financial-overview-section'' (Some a) w))) = Some d' \<and>
            (k \<noteq> ''last_updated'' \<longrightarrow> map_of d' k = Some data) \<and>
            map_of d' ''last_updated'' = Some (JStr (m_now (svc w))) \<and>
            (\<forall>k'. k' \<noteq> k \<and> k' \<noteq> ''last_updated'' \<longrightarrow>
                  map_of d' k' = map_of (loaded_document (svc w)) k')"
    by (simp add: update_section_run map_of_dict_set)
next
  assume "get_budget_id memory_client arguments w = (Inr bid, w1)"
  then show "\<exists>d'. m_overview (svc (snd (handle_call_tool rt memory_client
                 ''refresh-financial-overview'' arguments w))) = Some d' \<and>
            map_of d' ''account_balances'' =
              Some (JObj (account_balances (m_accounts (svc w)) [])) \<and>
            map_of d' ''monthly_overview'' = Some (monthly_overview (m_groups (svc w))) \<and>
            map_of d' ''last_updated'' = Some (JStr (m_now (svc w))) \<and>
            (\<forall>k'. k' \<noteq> ''account_balances'' \<and> k' \<noteq> ''monthly_overview'' \<and>
                  k' \<noteq> ''last_updated'' \<longrightarrow>
                  map_of d' k' = map_of (loaded_document (svc w)) k')"
    by (simp add: refresh_run_memory refreshed_overview_def map_of_dict_set)
qed

theorem overview_writes_preserve_other_sections_witness:
  "m_overview (svc (snd (handle_call_tool plain_runtime memory_client
      ''update-financial-overview-section'' goals_arguments noted_world))) =
     Some [(''last_updated'', JStr ''2024-05-01T00:00:00''),
           (''action_items'', JList [JStr ''call the bank'']),
           (''goals'', JObj [(''target'', JInt 5000)])] \<and>
   m_overview (svc (snd (handle_call_tool plain_runtime memory_client
      ''refresh-financial-overview'' None noted_world))) =
     Some [(''last_updated'', JStr ''2024-05-01T00:00:00''),
           (''action_items'', JList [JStr ''call the bank'']),
           (''account_balances'', JObj []),
           (''monthly_overview'',
            JObj [(''fixed_bills'', JNum (Finite 0)),
                  (''discretionary_spending'', JNum (Finite 0)),
                  (''savings_rate'', JInt 0)])] \<and>
   (\<exists>d'. m_overview (svc (snd (handle_call_tool plain_runtime memory_client
             ''update-financial-overview-section'' goals_arguments noted_world))) = Some d' \<and>
         map_of d' ''goals'' = Some (JObj [(''target'', JInt 5000)]) \<and>
         map_of d' ''action_items'' = Some (JList [JStr ''call the bank''])) \<and>
   (\<exists>d'. m_overview (svc (snd (handle_call_tool plain_runtime memory_client
             ''refresh-financial-overview'' None noted_world))) = Some d' \<and>
         map_of d' ''action_items'' = Some (JList [JStr ''call the bank'']))"
proof -
  let ?a = "[(''section'', JStr ''goals''), (''data'', JObj [(''target'', JInt 5000)])]"
  have h1: "map_of ?a ''section'' = Some (JStr ''goals'') \<and>
      map_of ?a ''data'' = Some (JObj [(''target'', JInt 5000)])"
    by simp
  have h2: "get_budget_id memory_client None noted_world =
      (Inr (JStr ''b-1''), noted_world\<lparr>trace := [GetDefaultBudget]\<rparr>)"
    by (simp add: run_defs noted_world_def)
  have doc: "loaded_document (svc noted_world) =
      [(''last_updated'', JStr ''2024-04-01T00:00:00''),
       (''action_items'', JList [JStr ''call the bank''])]"
    by (simp add: loaded_document_def noted_world_def)
  have e1: "m_overview (svc (snd (handle_call_tool plain_runtime memory_client
      ''update-financial-overview-section'' goals_arguments noted_world))) =
     Some [(''last_updated'', JStr ''2024-05-01T00:00:00''),
           (''action_items'', JList [JStr ''call the bank'']),
           (''goals'', JObj [(''target'', JInt 5000)])]"
    unfolding goals_arguments_def
    by (simp add: update_section_run [OF conjunct1 [OF h1] conjunct2 [OF h1]] doc)
       (simp add: noted_world_def empty_memory_def)
  have e2: "m_overview (svc (snd (handle_call_tool plain_runtime memory_client
      ''refresh-financial-overview'' None noted_world))) =
     Some [(''last_updated'', JStr ''2024-05-01T00:00:00''),
           (''action_items'', JList [JStr ''call the bank'']),
           (''account_balances'', JObj []),
           (''monthly_overview'',
            JObj [(''fixed_bills'', JNum (Finite 0)),
                  (''discretionary_spending'', JNum (Finite 0)),
                  (''savings_rate'', JInt 0)])]"
    by (simp add: refresh_run_memory [OF h2] doc refreshed_overview_def monthly_overview_def
        savings_rate_def)
       (simp add: noted_world_def empty_memory_def)
  from overview_writes_preserve_other_sections
    [of ?a "''goals''" "JObj [(''target'', JInt 5000)]" plain_runtime noted_world None
        "JStr ''b-1''" "noted_world\<lparr>trace := [GetDefaultBudget]\<rparr>"]
    h1 h2 doc e1 e2
  show ?thesis
    unfolding goals_arguments_def by simp
qed

text \<open>
  C5 as stated fails for the key \<open>last_updated\<close>: it is another top-level key than the
  section written, and the write changes it.
\<close>

theorem last_updated_restamped_counterexample:
  "map_of (loaded_document (svc noted_world)) ''last_updated'' =
     Some (JStr ''2024-04-01T00:00:00'') \<and>
   m_overview (svc (snd (handle_call_tool plain_runtime memory_client
      ''update-financial-overview-section'' goals_arguments noted_world))) =
     Some [(''last_updated'', JStr ''2024-05-01T00:00:00''),
           (''action_items'', JList [JStr ''call the bank'']),
           (''goals'', JObj [(''target'', JInt 5000)])]"
  by (simp add: run_defs goals_arguments_def noted_world_def loaded_document_def
      tool_update_financial_overview_section_def missing_required_def no_arguments_def
      arguments_or_empty_def arg_def subscript_def notes_update_overview_section_def
      notes_load_overview_def notes_save_overview_def)

section \<open>What the transaction tools send\<close>

lemma vbind_InrE:
  assumes "vbind r f = Inr y"
  obtains x where "r = Inr x" and "f x = Inr y"
  using assms by (cases r) (simp_all add: vbind_def)

lemma opt_field_Inr:
  assumes "opt_field co a k = Inr v"
  shows "(v = None) = (\<not> supplied a k)"
proof (cases "map_of a k")
  case None
  with assms show ?thesis
    by (auto simp: opt_field_def supplied_def)
next
  case (Some x)
  show ?thesis
  proof (cases "x = JNull")
    case True
    with Some assms show ?thesis
      by (auto simp: opt_field_def supplied_def)
  next
    case False
    with Some assms obtain y where "co x = Some y" and "v = Some y"
      by (cases "co x") (auto simp: opt_field_def)
    with Some False show ?thesis
      by (simp add: supplied_def)
  qed
qed

lemma opt_field_Some:
  assumes "opt_field co a k = Inr (Some x)"
  shows "\<exists>v. map_of a k = Some v \<and> co v = Some x"
  using assms by (auto simp: opt_field_def split: option.splits if_splits)

lemma req_field_Inr:
  assumes "req_field co a k = Inr x"
  shows "\<exists>v. map_of a k = Some v \<and> co v = Some x"
  using assms by (auto simp: req_field_def split: option.splits)

lemma default_field_Some:
  assumes "default_field co d a k = Inr x" and "map_of a k = Some v"
  shows "co v = Some x"
  using assms by (auto simp: default_field_def split: option.splits)

lemma coerce_str_Some: "coerce_str rt v = Some s \<Longrightarrow> v = JStr s"
  by (cases v) (simp_all add: coerce_str_def)

lemma req_field_str_Inr: "req_field (coerce_str rt) a k = Inr s \<Longrightarrow> map_of a k = Some (JStr s)"
  by (auto dest!: req_field_Inr coerce_str_Some)

lemma opt_field_str_Some:
  "opt_field (coerce_str rt) a k = Inr (Some s) \<Longrightarrow> map_of a k = Some (JStr s)"
  by (auto dest!: opt_field_Some coerce_str_Some)

lemma default_field_Inr: "default_field co d a k = Inr x \<Longrightarrow> map_of a k = None \<Longrightarrow> x = d"
  by (simp add: default_field_def)

lemma dump_opt_JStr [simp]: "(dump_opt JStr x = JNull) = (x = None)"
  by (cases x) (simp_all add: dump_opt_def)

lemma dump_opt_JInt [simp]: "(dump_opt JInt x = JNull) = (x = None)"
  by (cases x) (simp_all add: dump_opt_def)

lemma dump_opt_JBool [simp]: "(dump_opt JBool x = JNull) = (x = None)"
  by (cases x) (simp_all add: dump_opt_def)

lemma filter_Cons_append: "filter P (x # xs) = (if P x then [x] else []) @ filter P xs"
  by simp

lemma map_of_filter_Some:
  "map_of (filter P xs) k = Some v \<Longrightarrow> distinct (map fst xs) \<Longrightarrow>
   map_of xs k = Some v \<and> P (k, v)"
proof (induction xs)
  case Nil
  then show ?case by simp
next
  case (Cons x xs)
  obtain k' v' where x: "x = (k', v')"
    by (cases x)
  show ?case
  proof (cases "k' = k")
    case True
    have notin: "k \<notin> fst ` set (filter P xs)"
      using Cons.prems(2) x True by auto
    then have "map_of (filter P xs) k = None"
      by (simp add: map_of_eq_None_iff)
    with Cons.prems(1) x True show ?thesis
      by (auto split: if_splits)
  next
    case False
    with Cons x show ?thesis
      by (auto split: if_splits)
  qed
qed

text \<open>What arguments validated by a string field, an optional string field, an integer
  field and a boolean field dump to.\<close>

lemma dump_str_value:
  "opt_field (coerce_str rt) a k = Inr x \<Longrightarrow> dump_opt JStr x \<noteq> JNull \<Longrightarrow>
   map_of a k = Some (dump_opt JStr x)"
  by (cases x) (auto simp: dump_opt_def dest: opt_field_str_Some)

lemma dump_int_value:
  "opt_field (coerce_int rt) a k = Inr x \<Longrightarrow> dump_opt JInt x \<noteq> JNull \<Longrightarrow>
   map_option JInt (Option.bind (map_of a k) (coerce_int rt)) = Some (dump_opt JInt x)"
  by (cases x) (auto simp: dump_opt_def dest: opt_field_Some)

lemma dump_bool_value:
  "opt_field (coerce_bool rt) a k = Inr x \<Longrightarrow> dump_opt JBool x \<noteq> JNull \<Longrightarrow>
   map_option JBool (Option.bind (map_of a k) (coerce_bool rt)) = Some (dump_opt JBool x)"
  by (cases x) (auto simp: dump_opt_def dest: opt_field_Some)

lemma validate_CreateTransactionInput_fields:
  assumes "validate_CreateTransactionInput rt a = Inr args"
  obtains b acc d am pid pn cid me cl ap fc im where
      "opt_field (coerce_str rt) a ''budget_id'' = Inr b"
      "req_field (coerce_str rt) a ''account_id'' = Inr acc"
      "req_field (coerce_str rt) a ''date'' = Inr d"
      "req_field (coerce_int rt) a ''amount'' = Inr am"
      "opt_field (coerce_str rt) a ''payee_id'' = Inr pid"
      "opt_field (coerce_str rt) a ''payee_name'' = Inr pn"
      "opt_field (coerce_str rt) a ''category_id'' = Inr cid"
      "opt_field (coerce_str rt) a ''memo'' = Inr me"
      "opt_field (coerce_str rt) a ''cleared'' = Inr cl"
      "default_field (coerce_bool rt) False a ''approved'' = Inr ap"
      "opt_field (coerce_str rt) a ''flag_color'' = Inr fc"
      "opt_field (coerce_str rt) a ''import_id'' = Inr im"
      "args = \<lparr>ct_budget_id = b, ct_account_id = acc, ct_date = d, ct_amount = am,
               ct_payee_id = pid, ct_payee_name = pn, ct_category_id = cid, ct_memo = me,
               ct_cleared = cl, ct_approved = ap, ct_flag_color = fc, ct_import_id = im\<rparr>"
  using assms unfolding validate_CreateTransactionInput_def
  by (elim vbind_InrE) simp

lemma validate_CreateTransactionInput_Inr:
  assumes "validate_CreateTransactionInput rt a = Inr args"
  shows "(ct_payee_id args = None) = (\<not> supplied a ''payee_id'')"
    and "(ct_payee_name args = None) = (\<not> supplied a ''payee_name'')"
    and "(ct_category_id args = None) = (\<not> supplied a ''category_id'')"
    and "(ct_memo args = None) = (\<not> supplied a ''memo'')"
    and "(ct_cleared args = None) = (\<not> supplied a ''cleared'')"
    and "(ct_flag_color args = None) = (\<not> supplied a ''flag_color'')"
    and "(ct_import_id args = None) = (\<not> supplied a ''import_id'')"
    and "map_of a ''approved'' = None \<longrightarrow> ct_approved args = False"
proof -
  from assms obtain b acc d am pid pn cid me cl ap fc im where
    f: "opt_field (coerce_str rt) a ''payee_id'' = Inr pid"
      "opt_field (coerce_str rt) a ''payee_name'' = Inr pn"
      "opt_field (coerce_str rt) a ''category_id'' = Inr cid"
      "opt_field (coerce_str rt) a ''memo'' = Inr me"
      "opt_field (coerce_str rt) a ''cleared'' = Inr cl"
      "default_field (coerce_bool rt) False a ''approved'' = Inr ap"
      "opt_field (coerce_str rt) a ''flag_color'' = Inr fc"
      "opt_field (coerce_str rt) a ''import_id'' = Inr im"
    and r: "args = \<lparr>ct_budget_id = b, ct_account_id = acc, ct_date = d, ct_amount = am,
               ct_payee_id = pid, ct_payee_name = pn, ct_category_id = cid, ct_memo = me,
               ct_cleared = cl, ct_approved = ap, ct_flag_color = fc, ct_import_id = im\<rparr>"
    by (rule validate_CreateTransactionInput_fields)
  show "(ct_payee_id args = None) = (\<not> supplied a ''payee_id'')"
    and "(ct_payee_name args = None) = (\<not> supplied a ''payee_name'')"
    and "(ct_category_id args = None) = (\<not> supplied a ''category_id'')"
    and "(ct_memo args = None) = (\<not> supplied a ''memo'')"
    and "(ct_cleared args = None) = (\<not> supplied a ''cleared'')"
    and "(ct_flag_color args = None) = (\<not> supplied a ''flag_color'')"
    and "(ct_import_id args = None) = (\<not> supplied a ''import_id'')"
    and "map_of a ''approved'' = None \<longrightarrow> ct_approved args = False"
    using opt_field_Inr [OF f(1)] opt_field_Inr [OF f(2)] opt_field_Inr [OF f(3)]
      opt_field_Inr [OF f(4)] opt_field_Inr [OF f(5)] opt_field_Inr [OF f(7)]
      opt_field_Inr [OF f(8)] default_field_Inr [OF f(6)]
    by (simp_all add: r)
qed

lemma map_fst_if: "map fst (if c then [(k, v)] else []) = (if c then [k] else [])"
  by simp

lemma transaction_data_keys:
  assumes "validate_CreateTransactionInput rt a = Inr args"
  shows "map fst (transaction_data args) = new_transaction_keys a"
  unfolding transaction_data_def dump_CreateTransactionInput_def new_transaction_keys_def
  by (simp add: filter_Cons_append map_fst_if validate_CreateTransactionInput_Inr [OF assms]
      del: filter.simps split del: if_split)

lemma transaction_data_no_null: "JNull \<notin> snd ` set (transaction_data args)"
  by (auto simp: transaction_data_def)

lemma transaction_data_approved:
  "map_of (transaction_data args) ''approved'' = Some (JBool (ct_approved args))"
  by (simp add: transaction_data_def dump_CreateTransactionInput_def)

lemma approved_value:
  assumes "default_field (coerce_bool rt) False a ''approved'' = Inr ap"
  shows "new_transaction_value rt a ''approved'' = Some (JBool ap)"
proof (cases "map_of a ''approved''")
  case None
  with default_field_Inr [OF assms] show ?thesis
    by (simp add: new_transaction_value_def)
next
  case (Some v)
  with default_field_Some [OF assms Some] show ?thesis
    by (simp add: new_transaction_value_def)
qed

lemma transaction_data_values:
  assumes "validate_CreateTransactionInput rt a = Inr args"
    and "map_of (transaction_data args) k = Some v"
  shows "new_transaction_value rt a k = Some v"
proof -
  from assms(1) obtain b acc d am pid pn cid me cl ap fc im where
    f: "opt_field (coerce_str rt) a ''budget_id'' = Inr b"
      "req_field (coerce_str rt) a ''account_id'' = Inr acc"
      "req_field (coerce_str rt) a ''date'' = Inr d"
      "req_field (coerce_int rt) a ''amount'' = Inr am"
      "opt_field (coerce_str rt) a ''payee_id'' = Inr pid"
      "opt_field (coerce_str rt) a ''payee_name'' = Inr pn"
      "opt_field (coerce_str rt) a ''category_id'' = Inr cid"
      "opt_field (coerce_str rt) a ''memo'' = Inr me"
      "opt_field (coerce_str rt) a ''cleared'' = Inr cl"
      "default_field (coerce_bool rt) False a ''approved'' = Inr ap"
      "opt_field (coerce_str rt) a ''flag_color'' = Inr fc"
      "opt_field (coerce_str rt) a ''import_id'' = Inr im"
    and r: "args = \<lparr>ct_budget_id = b, ct_account_id = acc, ct_date = d, ct_amount = am,
               ct_payee_id = pid, ct_payee_name = pn, ct_category_id = cid, ct_memo = me,
               ct_cleared = cl, ct_approved = ap, ct_flag_color = fc, ct_import_id = im\<rparr>"
    by (rule validate_CreateTransactionInput_fields)
  have distinct: "distinct (map fst (dump_CreateTransactionInput args))"
    by (simp add: dump_CreateTransactionInput_def)
  from map_of_filter_Some [OF assms(2) [unfolded transaction_data_def] distinct]
  have dumped: "map_of (dump_CreateTransactionInput args) k = Some v"
    and v: "v \<noteq> JNull" and k: "k \<noteq> ''budget_id''"
    by simp_all
  have amount: "new_transaction_value rt a ''amount'' = Some (JInt am)"
    using req_field_Inr [OF f(4)] by (auto simp: new_transaction_value_def)
  note str = req_field_str_Inr [OF f(2)] req_field_str_Inr [OF f(3)]
  note opt = dump_str_value [OF f(5)] dump_str_value [OF f(6)] dump_str_value [OF f(7)]
    dump_str_value [OF f(8)] dump_str_value [OF f(9)] dump_str_value [OF f(11)]
    dump_str_value [OF f(12)]
  from dumped v k show ?thesis
    unfolding dump_CreateTransactionInput_def r
    using amount approved_value [OF f(10)] str opt
    by (auto simp: new_transaction_value_def split: if_splits)
qed

lemma validate_TransactionUpdate_fields:
  assumes "validate_TransactionUpdate rt v = Inr r"
  obtains a i acc d am cid pid me cl ap fc where
      "v = JObj a"
      "req_field (coerce_str rt) a ''id'' = Inr i"
      "opt_field (coerce_str rt) a ''account_id'' = Inr acc"
      "opt_field (coerce_str rt) a ''date'' = Inr d"
      "opt_field (coerce_int rt) a ''amount'' = Inr am"
      "opt_field (coerce_str rt) a ''category_id'' = Inr cid"
      "opt_field (coerce_str rt) a ''payee_id'' = Inr pid"
      "opt_field (coerce_str rt) a ''memo'' = Inr me"
      "opt_field (coerce_str rt) a ''cleared'' = Inr cl"
      "opt_field (coerce_bool rt) a ''approved'' = Inr ap"
      "opt_field (coerce_str rt) a ''flag_color'' = Inr fc"
      "r = \<lparr>tu_id = i, tu_account_id = acc, tu_date = d, tu_amount = am,
            tu_category_id = cid, tu_payee_id = pid, tu_memo = me, tu_cleared = cl,
            tu_approved = ap, tu_flag_color = fc\<rparr>"
proof (cases v)
  case (JObj a)
  with assms have
    "vbind (req_field (coerce_str rt) a ''id'') (\<lambda>i.
     vbind (opt_field (coerce_str rt) a ''account_id'') (\<lambda>acc.
     vbind (opt_field (coerce_str rt) a ''date'') (\<lambda>d.
     vbind (opt_field (coerce_int rt) a ''amount'') (\<lambda>am.
     vbind (opt_field (coerce_str rt) a ''category_id'') (\<lambda>cid.
     vbind (opt_field (coerce_str rt) a ''payee_id'') (\<lambda>pid.
     vbind (opt_field (coerce_str rt) a ''memo'') (\<lambda>me.
     vbind (opt_field (coerce_str rt) a ''cleared'') (\<lambda>cl.
     vbind (opt_field (coerce_bool rt) a ''approved'') (\<lambda>ap.
     vbind (opt_field (coerce_str rt) a ''flag_color'') (\<lambda>fc.
       Inr \<lparr>tu_id = i, tu_account_id = acc, tu_date = d, tu_amount = am,
            tu_category_id = cid, tu_payee_id = pid, tu_memo = me, tu_cleared = cl,
            tu_approved = ap, tu_flag_color = fc\<rparr>)))))))))) = Inr r"
    by (simp add: validate_TransactionUpdate_def)
  then show thesis
    using that [OF JObj] by (elim vbind_InrE) simp
qed (use assms in \<open>simp_all add: validate_TransactionUpdate_def\<close>)

lemma update_data_sends:
  assumes "validate_TransactionUpdate rt v = Inr r"
  shows "sends_supplied_fields rt v (update_data r)"
proof -
  from assms obtain a i acc d am cid pid me cl ap fc where v: "v = JObj a"
    and f: "req_field (coerce_str rt) a ''id'' = Inr i"
      "opt_field (coerce_str rt) a ''account_id'' = Inr acc"
      "opt_field (coerce_str rt) a ''date'' = Inr d"
      "opt_field (coerce_int rt) a ''amount'' = Inr am"
      "opt_field (coerce_str rt) a ''category_id'' = Inr cid"
      "opt_field (coerce_str rt) a ''payee_id'' = Inr pid"
      "opt_field (coerce_str rt) a ''memo'' = Inr me"
      "opt_field (coerce_str rt) a ''cleared'' = Inr cl"
      "opt_field (coerce_bool rt) a ''approved'' = Inr ap"
      "opt_field (coerce_str rt) a ''flag_color'' = Inr fc"
    and r: "r = \<lparr>tu_id = i, tu_account_id = acc, tu_date = d, tu_amount = am,
            tu_category_id = cid, tu_payee_id = pid, tu_memo = me, tu_cleared = cl,
            tu_approved = ap, tu_flag_color = fc\<rparr>"
    by (rule validate_TransactionUpdate_fields)
  note s = opt_field_Inr [OF f(2)] opt_field_Inr [OF f(3)] opt_field_Inr [OF f(4)]
    opt_field_Inr [OF f(5)] opt_field_Inr [OF f(6)] opt_field_Inr [OF f(7)]
    opt_field_Inr [OF f(8)] opt_field_Inr [OF f(9)] opt_field_Inr [OF f(10)]
  have keys: "map fst (update_data r) = update_keys a"
    unfolding update_data_def dump_TransactionUpdate_def update_keys_def r
    by (simp add: filter_Cons_append map_fst_if s del: filter.simps split del: if_split)
  have nonull: "JNull \<notin> snd ` set (update_data r)"
    by (auto simp: update_data_def)
  have ident: "map_of (update_data r) ''id'' = map_of a ''id''"
    unfolding update_data_def dump_TransactionUpdate_def r
    by (simp add: filter_Cons_append req_field_str_Inr [OF f(1)]
        del: filter.simps split del: if_split)
  have distinct: "distinct (map fst (dump_TransactionUpdate r))"
    by (simp add: dump_TransactionUpdate_def)
  note opt = dump_str_value [OF f(2)] dump_str_value [OF f(3)] dump_int_value [OF f(4)]
    dump_str_value [OF f(5)] dump_str_value [OF f(6)] dump_str_value [OF f(7)]
    dump_str_value [OF f(8)] dump_bool_value [OF f(9)] dump_str_value [OF f(10)]
  have pinned: "update_value rt a k = Some x" if "map_of (update_data r) k = Some x" for k x
  proof -
    from map_of_filter_Some [OF that [unfolded update_data_def] distinct]
    have dumped: "map_of (dump_TransactionUpdate r) k = Some x" and x: "x \<noteq> JNull"
      by simp_all
    from dumped x show ?thesis
      unfolding dump_TransactionUpdate_def r
      using req_field_str_Inr [OF f(1)] opt
      by (auto simp: update_value_def split: if_splits)
  qed
  have "\<forall>k \<in> set (update_keys a). map_of (update_data r) k = update_value rt a k"
  proof
    fix k assume "k \<in> set (update_keys a)"
    then have "k \<in> fst ` set (update_data r)"
      using keys by (metis set_map)
    then obtain x where "map_of (update_data r) k = Some x"
      by (cases "map_of (update_data r) k") (auto simp: map_of_eq_None_iff)
    with pinned show "map_of (update_data r) k = update_value rt a k"
      by simp
  qed
  with v keys nonull ident show ?thesis
    by (simp add: sends_supplied_fields_def)
qed

lemma validate_each_sends:
  "validate_each rt vs = Inr rs \<Longrightarrow>
   list_all2 (sends_supplied_fields rt) vs (map update_data rs)"
proof (induction vs arbitrary: rs)
  case Nil
  then show ?case by simp
next
  case (Cons v vs)
  from Cons.prems have "vbind (validate_TransactionUpdate rt v) (\<lambda>r.
      vbind (validate_each rt vs) (\<lambda>rs. Inr (r # rs))) = Inr rs"
    by simp
  then obtain r rs' where r: "validate_TransactionUpdate rt v = Inr r"
    and rs': "validate_each rt vs = Inr rs'" and rs: "rs = r # rs'"
    by (elim vbind_InrE) simp
  from Cons.IH [OF rs'] update_data_sends [OF r] rs show ?case
    by simp
qed

lemma validate_UpdateTransactionsInput_sends:
  assumes "validate_UpdateTransactionsInput rt a = Inr uargs"
    and "map_of a ''transactions'' = Some (JList recs)"
  shows "list_all2 (sends_supplied_fields rt) recs (map update_data (ut_transactions uargs))"
proof -
  from assms have "vbind (opt_field (coerce_str rt) a ''budget_id'') (\<lambda>b.
     vbind (validate_each rt recs) (\<lambda>txs.
       Inr \<lparr>ut_budget_id = b, ut_transactions = txs\<rparr>)) = Inr uargs"
    by (simp add: validate_UpdateTransactionsInput_def)
  then obtain b txs where "validate_each rt recs = Inr txs"
    and "uargs = \<lparr>ut_budget_id = b, ut_transactions = txs\<rparr>"
    by (elim vbind_InrE) auto
  then show ?thesis
    by (simp add: validate_each_sends)
qed

lemma create_transaction_calls:
  assumes "validate_CreateTransactionInput rt (arguments_or_empty arguments) = Inr args"
    and "get_budget_id client (Some (dump_CreateTransactionInput args)) w = (Inr bid, w1)"
  shows "new_calls w1 (snd (handle_call_tool rt client ''create-transaction'' arguments w)) =
     (if new_transaction_accepts rt (transaction_data args)
      then [CreateTransaction bid (transaction_data args)] else [])"
  by (simp add: create_transaction_run [OF assms] new_calls_def split: prod.splits)

lemma update_transactions_calls:
  assumes "validate_UpdateTransactionsInput rt (arguments_or_empty arguments) = Inr uargs"
    and "get_budget_id client (Some (dump_UpdateTransactionsInput uargs)) w = (Inr bid, w1)"
  shows "new_calls w1 (snd (handle_call_tool rt client ''update-transactions'' arguments w)) =
     (if list_all (save_transaction_accepts rt) (map update_data (ut_transactions uargs))
      then [UpdateTransactions bid (map update_data (ut_transactions uargs))] else [])"
  by (simp add: update_transactions_run [OF assms] new_calls_def split: prod.splits)

text \<open>
  C6. With the arguments accepted by the schema and the budget resolved, a
  \<open>create-transaction\<close> invocation builds one new-transaction request. It carries no
  key set to null: its keys are the required fields, \<open>approved\<close>, and the optional
  fields that were supplied non-null, so every optional field absent from the arguments is
  omitted; \<open>budget_id\<close> is not among them; each key carries the value the schema made of
  the argument; and \<open>approved\<close> is false when it was not supplied. That request is what
  is sent to the service, in one call, when the request model accepts it, and nothing is
  sent otherwise. An \<open>update-transactions\<close> invocation builds one payload per record,
  whose keys are exactly \<open>id\<close> and the fields the record supplied non-null, each with
  the value the schema made of it and none null; the payloads are sent in one call when
  the request model accepts each of them, and nothing is sent otherwise.
\<close>

theorem transaction_payloads_have_no_nulls:
  "(validate_CreateTransactionInput rt (arguments_or_empty arguments) = Inr args \<and>
    get_budget_id client (Some (dump_CreateTransactionInput args)) w = (Inr bid, w1) \<longrightarrow>
      (\<exists>p. new_calls w1 (snd (handle_call_tool rt client ''create-transaction'' arguments w)) =
              (if new_transaction_accepts rt p then [CreateTransaction bid p] else []) \<and>
           JNull \<notin> snd ` set p \<and>
           ''budget_id'' \<notin> fst ` set p \<and>
           map fst p = new_transaction_keys (arguments_or_empty arguments) \<and>
           (\<forall>k \<in> set (new_transaction_keys (arguments_or_empty arguments)).
              map_of p k = new_transaction_value rt (arguments_or_empty arguments) k) \<and>
           (map_of (arguments_or_empty arguments) ''approved'' = None \<longrightarrow>
              map_of p ''approved'' = Some (JBool False)))) \<and>
   (validate_UpdateTransactionsInput rt (arguments_or_empty arguments) = Inr uargs \<and>
    get_budget_id client (Some (dump_UpdateTransactionsInput uargs)) w = (Inr bid, w1) \<and>
    map_of (arguments_or_empty arguments) ''transactions'' = Some (JList recs) \<longrightarrow>
      (\<exists>ps. new_calls w1 (snd (handle_call_tool rt client ''update-transactions'' arguments w)) =
              (if list_all (save_transaction_accepts rt) ps
               then [UpdateTransactions bid ps] else []) \<and>
            list_all2 (sends_supplied_fields rt) recs ps))"
proof (intro conjI impI)
  assume h: "validate_CreateTransactionInput rt (arguments_or_empty arguments) = Inr args \<and>
    get_budget_id client (Some (dump_CreateTransactionInput args)) w = (Inr bid, w1)"
  let ?a = "arguments_or_empty arguments"
  let ?p = "transaction_data args"
  have keys: "map fst ?p = new_transaction_keys ?a"
    by (rule transaction_data_keys [OF conjunct1 [OF h]])
  have "''budget_id'' \<notin> set (map fst ?p)"
    unfolding keys by (simp add: new_transaction_keys_def)
  then have nobudget: "''budget_id'' \<notin> fst ` set ?p"
    by simp
  have approved: "map_of ?a ''approved'' = None \<longrightarrow> map_of ?p ''approved'' = Some (JBool False)"
    using validate_CreateTransactionInput_Inr(8) [OF conjunct1 [OF h]]
    by (simp add: transaction_data_approved)
  have pinned: "\<forall>k \<in> set (new_transaction_keys ?a). map_of ?p k = new_transaction_value rt ?a k"
  proof
    fix k assume "k \<in> set (new_transaction_keys ?a)"
    then have "k \<in> fst ` set ?p"
      using keys by (metis set_map)
    then obtain v where "map_of ?p k = Some v"
      by (cases "map_of ?p k") (auto simp: map_of_eq_None_iff)
    with transaction_data_values [OF conjunct1 [OF h]]
    show "map_of ?p k = new_transaction_value rt ?a k"
      by simp
  qed
  from create_transaction_calls [OF conjunct1 [OF h] conjunct2 [OF h]] keys nobudget approved
    pinned transaction_data_no_null [of args]
  show "\<exists>p. new_calls w1 (snd (handle_call_tool rt client ''create-transaction'' arguments w)) =
              (if new_transaction_accepts rt p then [CreateTransaction bid p] else []) \<and>
           JNull \<notin> snd ` set p \<and>
           ''budget_id'' \<notin> fst ` set p \<and>
           map fst p = new_transaction_keys ?a \<and>
           (\<forall>k \<in> set (new_transaction_keys ?a). map_of p k = new_transaction_value rt ?a k) \<and>
           (map_of ?a ''approved'' = None \<longrightarrow> map_of p ''approved'' = Some (JBool False))"
    by (intro exI [of _ ?p]) simp
next
  assume h: "validate_UpdateTransactionsInput rt (arguments_or_empty arguments) = Inr uargs \<and>
    get_budget_id client (Some (dump_UpdateTransactionsInput uargs)) w = (Inr bid, w1) \<and>
    map_of (arguments_or_empty arguments) ''transactions'' = Some (JList recs)"
  then have v: "validate_UpdateTransactionsInput rt (arguments_or_empty arguments) = Inr uargs"
    and b: "get_budget_id client (Some (dump_UpdateTransactionsInput uargs)) w = (Inr bid, w1)"
    and t: "map_of (arguments_or_empty arguments) ''transactions'' = Some (JList recs)"
    by simp_all
  from update_transactions_calls [OF v b] validate_UpdateTransactionsInput_sends [OF v t]
  show "\<exists>ps. new_calls w1 (snd (handle_call_tool rt client ''update-transactions'' arguments w)) =
              (if list_all (save_transaction_accepts rt) ps
               then [UpdateTransactions bid ps] else []) \<and>
            list_all2 (sends_supplied_fields rt) recs ps"
    by (intro exI [of _ "map update_data (ut_transactions uargs)"]) simp
qed

theorem transaction_payloads_have_no_nulls_witness:
  "new_calls start_world
     (snd (handle_call_tool plain_runtime memory_client ''create-transaction''
             required_only_arguments start_world)) =
     [CreateTransaction (JStr ''b-7'')
        [(''account_id'', JStr ''0b9a5c1e-7d42-4f3a-9e6b-2c8d1f4a7e90''),
         (''date'', JStr ''2024-05-02''), (''amount'', JInt (- 12500)),
         (''approved'', JBool False)]] \<and>
   new_calls \<lparr>svc = empty_memory, trace = [GetDefaultBudget]\<rparr>
     (snd (handle_call_tool plain_runtime memory_client ''update-transactions''
             memo_update_arguments start_world)) =
     [UpdateTransactions (JStr ''b-1'') [[(''id'', JStr ''t-1''), (''memo'', JStr ''lunch'')]]] \<and>
   sends_supplied_fields plain_runtime (JObj [(''id'', JStr ''t-1''), (''memo'', JStr ''lunch'')])
     [(''id'', JStr ''t-1''), (''memo'', JStr ''lunch'')] \<and>
   new_transaction_keys (arguments_or_empty required_only_arguments) =
     [''account_id'', ''date'', ''amount'', ''approved''] \<and>
   new_calls start_world
     (snd (handle_call_tool plain_runtime memory_client ''create-transaction''
             undated_arguments start_world)) = []"
proof -
  let ?args = "\<lparr>ct_budget_id = Some ''b-7'',
      ct_account_id = ''0b9a5c1e-7d42-4f3a-9e6b-2c8d1f4a7e90'', ct_date = ''2024-05-02'',
      ct_amount = - 12500, ct_payee_id = None, ct_payee_name = None, ct_category_id = None,
      ct_memo = None, ct_cleared = None, ct_approved = False, ct_flag_color = None,
      ct_import_id = None\<rparr>"
  let ?bad = "?args\<lparr>ct_date := ''next week''\<rparr>"
  let ?tx = "\<lparr>tu_id = ''t-1'', tu_account_id = None, tu_date = None, tu_amount = None,
      tu_category_id = None, tu_payee_id = None, tu_memo = Some ''lunch'', tu_cleared = None,
      tu_approved = None, tu_flag_color = None\<rparr>"
  let ?uargs = "\<lparr>ut_budget_id = None, ut_transactions = [?tx]\<rparr>"
  let ?w1 = "\<lparr>svc = empty_memory, trace = [GetDefaultBudget]\<rparr>"
  have v1: "validate_CreateTransactionInput plain_runtime
      (arguments_or_empty required_only_arguments) = Inr ?args"
    by (simp add: required_only_arguments_def arguments_or_empty_def
        validate_CreateTransactionInput_def vbind_def opt_field_def req_field_def
        default_field_def coerce_str_def coerce_int_def)
  have v3: "validate_CreateTransactionInput plain_runtime
      (arguments_or_empty undated_arguments) = Inr ?bad"
    by (simp add: undated_arguments_def arguments_or_empty_def
        validate_CreateTransactionInput_def vbind_def opt_field_def req_field_def
        default_field_def coerce_str_def coerce_int_def)
  have b1: "get_budget_id memory_client (Some (dump_CreateTransactionInput ?args)) start_world =
      (Inr (JStr ''b-7''), start_world)"
    by (simp add: get_budget_id_def explicit_budget_id_def has_key_def
        dump_CreateTransactionInput_def dump_opt_def ret_def)
  have b3: "get_budget_id memory_client (Some (dump_CreateTransactionInput ?bad)) start_world =
      (Inr (JStr ''b-7''), start_world)"
    by (simp add: get_budget_id_def explicit_budget_id_def has_key_def
        dump_CreateTransactionInput_def dump_opt_def ret_def)
  have d1: "transaction_data ?args =
      [(''account_id'', JStr ''0b9a5c1e-7d42-4f3a-9e6b-2c8d1f4a7e90''),
       (''date'', JStr ''2024-05-02''), (''amount'', JInt (- 12500)),
       (''approved'', JBool False)]"
    by (simp add: transaction_data_def dump_CreateTransactionInput_def dump_opt_def)
  have d3: "transaction_data ?bad =
      [(''account_id'', JStr ''0b9a5c1e-7d42-4f3a-9e6b-2c8d1f4a7e90''),
       (''date'', JStr ''next week''), (''amount'', JInt (- 12500)),
       (''approved'', JBool False)]"
    by (simp add: transaction_data_def dump_CreateTransactionInput_def dump_opt_def)
  have a1: "new_transaction_accepts plain_runtime (transaction_data ?args)"
    unfolding d1 by (simp add: plain_runtime_def date_accepted_def iso_date_def)
  have a3: "\<not> new_transaction_accepts plain_runtime (transaction_data ?bad)"
    unfolding d3 by (simp add: plain_runtime_def date_accepted_def iso_date_def)
  have v2: "validate_UpdateTransactionsInput plain_runtime
      (arguments_or_empty memo_update_arguments) = Inr ?uargs"
    by (simp add: memo_update_arguments_def arguments_or_empty_def
        validate_UpdateTransactionsInput_def validate_TransactionUpdate_def vbind_def
        opt_field_def req_field_def coerce_str_def)
  have b2: "get_budget_id memory_client (Some (dump_UpdateTransactionsInput ?uargs)) start_world =
      (Inr (JStr ''b-1''), ?w1)"
    by (simp add: run_defs dump_UpdateTransactionsInput_def dump_opt_def start_world_def)
  have t2: "map_of (arguments_or_empty memo_update_arguments) ''transactions'' =
      Some (JList [JObj [(''id'', JStr ''t-1''), (''memo'', JStr ''lunch'')]])"
    by (simp add: memo_update_arguments_def arguments_or_empty_def)
  have d2: "map update_data (ut_transactions ?uargs) =
      [[(''id'', JStr ''t-1''), (''memo'', JStr ''lunch'')]]"
    by (simp add: update_data_def dump_TransactionUpdate_def dump_opt_def)
  have a2: "list_all (save_transaction_accepts plain_runtime)
      (map update_data (ut_transactions ?uargs))"
    unfolding d2 by (simp add: plain_runtime_def date_accepted_def)
  have c1: "new_calls start_world
      (snd (handle_call_tool plain_runtime memory_client ''create-transaction''
              required_only_arguments start_world)) =
      [CreateTransaction (JStr ''b-7'') (transaction_data ?args)]"
    using create_transaction_calls [OF v1 b1] a1 by simp
  have c3: "new_calls start_world
      (snd (handle_call_tool plain_runtime memory_client ''create-transaction''
              undated_arguments start_world)) = []"
    using create_transaction_calls [OF v3 b3] a3 by simp
  have c2: "new_calls ?w1
      (snd (handle_call_tool plain_runtime memory_client ''update-transactions''
              memo_update_arguments start_world)) =
      [UpdateTransactions (JStr ''b-1'') (map update_data (ut_transactions ?uargs))]"
    using update_transactions_calls [OF v2 b2] a2 by simp
  note main = transaction_payloads_have_no_nulls
  have "\<exists>ps. new_calls ?w1
            (snd (handle_call_tool plain_runtime memory_client ''update-transactions''
                    memo_update_arguments start_world)) =
          (if list_all (save_transaction_accepts plain_runtime) ps
           then [UpdateTransactions (JStr ''b-1'') ps] else []) \<and>
        list_all2 (sends_supplied_fields plain_runtime)
          [JObj [(''id'', JStr ''t-1''), (''memo'', JStr ''lunch'')]] ps"
    using main [of plain_runtime memo_update_arguments ?args memory_client start_world
        "JStr ''b-1''" ?w1 ?uargs "[JObj [(''id'', JStr ''t-1''), (''memo'', JStr ''lunch'')]]"]
      v2 b2 t2
    by blast
  then obtain ps where ps: "new_calls ?w1
        (snd (handle_call_tool plain_runtime memory_client ''update-transactions''
                memo_update_arguments start_world)) =
      (if list_all (save_transaction_accepts plain_runtime) ps
       then [UpdateTransactions (JStr ''b-1'') ps] else [])"
    and sends: "list_all2 (sends_supplied_fields plain_runtime)
      [JObj [(''id'', JStr ''t-1''), (''memo'', JStr ''lunch'')]] ps"
    by blast
  from ps c2 have "ps = map update_data (ut_transactions ?uargs)"
    by (simp split: if_splits)
  with sends d2 have e2: "sends_supplied_fields plain_runtime
      (JObj [(''id'', JStr ''t-1''), (''memo'', JStr ''lunch'')])
      [(''id'', JStr ''t-1''), (''memo'', JStr ''lunch'')]"
    by simp
  have "\<exists>p. new_calls start_world
            (snd (handle_call_tool plain_runtime memory_client ''create-transaction''
                    required_only_arguments start_world)) =
          (if new_transaction_accepts plain_runtime p
           then [CreateTransaction (JStr ''b-7'') p] else []) \<and>
        map fst p = new_transaction_keys (arguments_or_empty required_only_arguments)"
    using main [of plain_runtime required_only_arguments ?args memory_client start_world
        "JStr ''b-7''" start_world ?uargs "[]"]
      v1 b1
    by blast
  then obtain p where p: "new_calls start_world
        (snd (handle_call_tool plain_runtime memory_client ''create-transaction''
                required_only_arguments start_world)) =
      (if new_transaction_accepts plain_runtime p
       then [CreateTransaction (JStr ''b-7'') p] else [])"
    and keys: "map fst p = new_transaction_keys (arguments_or_empty required_only_arguments)"
    by blast
  from p c1 have "p = transaction_data ?args"
    by (simp split: if_splits)
  with keys d1 have e1: "new_transaction_keys (arguments_or_empty required_only_arguments) =
      [''account_id'', ''date'', ''amount'', ''approved'']"
    by simp
  from e1 e2 c1 c2 c3 d1 d2 show ?thesis
    by simp
qed

section \<open>Default budget resolution, across the dispatcher\<close>

lemma issues_ret [simp]: "issues P (ret x)"
  by (simp add: issues_def ret_def)

lemma issues_raise [simp]: "issues P (raise e)"
  by (simp add: issues_def raise_def)

lemma issues_lift [simp]: "issues P (lift r)"
  by (simp add: issues_def lift_def)

lemma issues_text_result [simp]: "issues P (text_result t)"
  by (simp add: text_result_def)

lemma issues_arg [simp]: "issues P (arg a k)"
  by (simp add: arg_def)

lemma issues_perform: "P c \<Longrightarrow> issues P (perform c op)"
  by (simp add: issues_def perform_def split: prod.splits)

lemma issues_bind:
  assumes m: "issues P m" and f: "\<And>x. issues P (f x)"
  shows "issues P (bind m f)"
  unfolding issues_def
proof
  fix w
  from m obtain cs where cs: "trace (snd (m w)) = trace w @ cs" "\<forall>c \<in> set cs. P c"
    unfolding issues_def by blast
  show "\<exists>cs. trace (snd (bind m f w)) = trace w @ cs \<and> (\<forall>c \<in> set cs. P c)"
  proof (cases "m w")
    case (Pair r w')
    show ?thesis
    proof (cases r)
      case (Inl e)
      with Pair cs show ?thesis
        by (auto simp: bind_def)
    next
      case (Inr x)
      from f [of x] obtain ds where ds: "trace (snd (f x w')) = trace w' @ ds"
        "\<forall>c \<in> set ds. P c"
        unfolding issues_def by blast
      from Pair Inr cs ds have "trace (snd (bind m f w)) = trace w @ (cs @ ds)"
        by (simp add: bind_def)
      with cs ds show ?thesis
        by (intro exI [of _ "cs @ ds"]) auto
    qed
  qed
qed

lemma issues_if: "issues P a \<Longrightarrow> issues P b \<Longrightarrow> issues P (if c then a else b)"
  by simp

lemma issues_mono: "issues P m \<Longrightarrow> (\<And>c. P c \<Longrightarrow> Q c) \<Longrightarrow> issues Q m"
  unfolding issues_def by blast

lemma budget_free_for_budget: "budget_free c \<Longrightarrow> for_budget v c"
  by (simp add: budget_free_def for_budget_def)

lemma disciplined_budget_free:
  assumes "issues budget_free m"
  shows "disciplined client e m"
  unfolding disciplined_def
proof
  fix w
  from assms obtain cs where "trace (snd (m w)) = trace w @ cs" "\<forall>c \<in> set cs. budget_free c"
    unfolding issues_def by blast
  then show "\<exists>cs. trace (snd (m w)) = trace w @ cs \<and>
      (case e of Some v \<Rightarrow> \<forall>c \<in> set cs. for_budget v c
       | None \<Rightarrow> (\<forall>c \<in> set cs. budget_free c) \<or> resolved_first client w cs)"
    by (intro exI [of _ cs]) (auto split: option.splits intro: budget_free_for_budget)
qed

lemma disciplined_raise [simp]: "disciplined client e (raise x)"
  by (rule disciplined_budget_free) simp

lemma disciplined_if:
  "disciplined client e a \<Longrightarrow> disciplined client e b \<Longrightarrow> disciplined client e (if c then a else b)"
  by simp

lemma disciplined_validated:
  assumes "\<And>args. r = Inr args \<Longrightarrow> disciplined client e (f args)"
  shows "disciplined client e (bind (lift r) f)"
proof (cases r)
  case (Inl x)
  then show ?thesis by (simp add: bind_def lift_def disciplined_def raise_def
      split: option.splits)
next
  case (Inr args)
  with assms [OF Inr] show ?thesis
    by (simp add: bind_def lift_def disciplined_def)
qed

lemma resolve_then:
  fixes body :: "json \<Rightarrow> ('s, 'a) io"
  assumes body: "\<And>bid. issues (for_budget bid) (body bid)"
  shows "disciplined client (explicit_budget_id a) (bind (get_budget_id client a) body)"
proof (cases "explicit_budget_id a")
  case (Some v)
  from body [of v] have "\<forall>w. \<exists>cs. trace (snd (body v w)) = trace w @ cs \<and>
      (\<forall>c \<in> set cs. for_budget v c)"
    by (simp add: issues_def)
  with Some show ?thesis
    by (simp add: disciplined_def get_budget_id_def)
next
  case None
  show ?thesis
    unfolding disciplined_def None option.case
  proof
    fix w :: "'s world"
    let ?m = "bind (get_budget_id client a) body"
    obtain r s1 where g: "get_default_budget client (svc w) = (r, s1)"
      by (cases "get_default_budget client (svc w)")
    let ?w1 = "\<lparr>svc = s1, trace = trace w @ [GetDefaultBudget]\<rparr>"
    show "\<exists>cs. trace (snd (?m w)) = trace w @ cs \<and>
        ((\<forall>c \<in> set cs. budget_free c) \<or> resolved_first client w cs)"
    proof (cases r)
      case (Inl e)
      with None g have "trace (snd (?m w)) = trace w @ [GetDefaultBudget]"
        by (simp add: get_budget_id_def bind_def perform_def)
      moreover from Inl g have "resolved_first client w [GetDefaultBudget]"
        by (simp add: resolved_first_def)
      ultimately show ?thesis
        by blast
    next
      case (Inr b)
      from body [of "JStr (b_id b)"] obtain ds where
        ds: "trace (snd (body (JStr (b_id b)) ?w1)) = trace ?w1 @ ds"
          "\<forall>c \<in> set ds. for_budget (JStr (b_id b)) c"
        unfolding issues_def by blast
      from None g Inr have "?m w = body (JStr (b_id b)) ?w1"
        by (simp add: get_budget_id_def bind_def perform_def ret_def)
      with ds have "trace (snd (?m w)) = trace w @ (GetDefaultBudget # ds)"
        by simp
      moreover from Inr g ds have "resolved_first client w (GetDefaultBudget # ds)"
        by (simp add: resolved_first_def)
      ultimately show ?thesis
        by blast
    qed
  qed
qed

lemma explicit_of_dump:
  assumes "opt_field (coerce_str rt) (arguments_or_empty arguments) ''budget_id'' = Inr b"
  shows "explicit_budget_id (Some ((''budget_id'', dump_opt JStr b) # rest)) =
     explicit_budget_id arguments"
proof (cases arguments)
  case None
  with assms show ?thesis
    by (simp add: arguments_or_empty_def opt_field_def explicit_budget_id_def has_key_def
        dump_opt_def)
next
  case (Some a)
  show ?thesis
  proof (cases "map_of a ''budget_id''")
    case None
    with Some assms show ?thesis
      by (simp add: arguments_or_empty_def opt_field_def explicit_budget_id_def has_key_def
          dump_opt_def)
  next
    case (Some x)
    have ne: "a \<noteq> []"
      using Some by auto
    show ?thesis
    proof (cases x)
      case (JStr s)
      with Some \<open>arguments = Some a\<close> assms ne show ?thesis
        by (auto simp: arguments_or_empty_def opt_field_def explicit_budget_id_def has_key_def
            dump_opt_def coerce_str_def)
    qed (use Some \<open>arguments = Some a\<close> assms ne in
         \<open>simp_all add: arguments_or_empty_def opt_field_def explicit_budget_id_def has_key_def
            dump_opt_def coerce_str_def\<close>)
  qed
qed

lemma disciplined_typed:
  fixes body :: "'b \<Rightarrow> json \<Rightarrow> ('s, 'a) io"
  assumes e: "\<And>args. r = Inr args \<Longrightarrow> explicit_budget_id (Some (dump args)) = e"
    and body: "\<And>args bid. issues (for_budget bid) (body args bid)"
  shows "disciplined client e
     (bind (lift r) (\<lambda>args. bind (get_budget_id client (Some (dump args))) (body args)))"
proof (rule disciplined_validated)
  fix args
  assume "r = Inr args"
  from e [OF this] resolve_then [of "body args" client "Some (dump args)", OF body]
  show "disciplined client e (bind (get_budget_id client (Some (dump args))) (body args))"
    by simp
qed

lemma explicit_BudgetIdInput:
  assumes "validate_BudgetIdInput rt (arguments_or_empty arguments) = Inr args"
  shows "explicit_budget_id (Some (dump_BudgetIdInput args)) = explicit_budget_id arguments"
  using assms unfolding validate_BudgetIdInput_def dump_BudgetIdInput_def
  by (elim vbind_InrE) (auto intro: explicit_of_dump)

lemma explicit_ListTransactionsInput:
  assumes "validate_ListTransactionsInput rt (arguments_or_empty arguments) = Inr args"
  shows "explicit_budget_id (Some (dump_ListTransactionsInput args)) =
     explicit_budget_id arguments"
  using assms unfolding validate_ListTransactionsInput_def dump_ListTransactionsInput_def
  by (elim vbind_InrE) (auto intro: explicit_of_dump)

lemma explicit_ListMonthlyTransactionsInput:
  assumes "validate_ListMonthlyTransactionsInput rt (arguments_or_empty arguments) = Inr args"
  shows "explicit_budget_id (Some (dump_ListMonthlyTransactionsInput args)) =
     explicit_budget_id arguments"
  using assms
  unfolding validate_ListMonthlyTransactionsInput_def dump_ListMonthlyTransactionsInput_def
  by (elim vbind_InrE) (auto intro: explicit_of_dump)

lemma explicit_DeleteTransactionInput:
  assumes "validate_DeleteTransactionInput rt (arguments_or_empty arguments) = Inr args"
  shows "explicit_budget_id (Some (dump_DeleteTransactionInput args)) =
     explicit_budget_id arguments"
  using assms unfolding validate_DeleteTransactionInput_def dump_DeleteTransactionInput_def
  by (elim vbind_InrE) (auto intro: explicit_of_dump)

lemma explicit_UpdateTransactionsInput:
  assumes "validate_UpdateTransactionsInput rt (arguments_or_empty arguments) = Inr args"
  shows "explicit_budget_id (Some (dump_UpdateTransactionsInput args)) =
     explicit_budget_id arguments"
  using assms unfolding validate_UpdateTransactionsInput_def dump_UpdateTransactionsInput_def
  by (elim vbind_InrE) (auto intro: explicit_of_dump)

lemma explicit_CreateTransactionInput:
  assumes "validate_CreateTransactionInput rt (arguments_or_empty arguments) = Inr args"
  shows "explicit_budget_id (Some (dump_CreateTransactionInput args)) =
     explicit_budget_id arguments"
  using assms unfolding validate_CreateTransactionInput_def dump_CreateTransactionInput_def
  by (elim vbind_InrE) (auto intro: explicit_of_dump)

lemmas issues_intros = issues_bind issues_perform issues_if

lemma disc_list_budgets: "disciplined client e (tool_list_budgets client)"
  unfolding tool_list_budgets_def
  by (rule disciplined_budget_free) (intro issues_intros; simp add: budget_free_def)

lemma disc_get_overview: "disciplined client e (tool_get_financial_overview rt client)"
  unfolding tool_get_financial_overview_def
  by (rule disciplined_budget_free) (intro issues_intros; simp add: budget_free_def)

lemma disc_update_section:
  "disciplined client e (tool_update_financial_overview_section rt client a)"
  unfolding tool_update_financial_overview_section_def
  by (rule disciplined_budget_free) (intro issues_intros; simp add: budget_free_def)

lemma disc_list_accounts:
  "disciplined client (explicit_budget_id a) (tool_list_accounts rt client a)"
  unfolding tool_list_accounts_def
  by (rule disciplined_typed, erule explicit_BudgetIdInput)
     (intro issues_intros; simp add: for_budget_def)

lemma disc_list_categories:
  "disciplined client (explicit_budget_id a) (tool_list_categories rt client a)"
  unfolding tool_list_categories_def
  by (rule disciplined_typed, erule explicit_BudgetIdInput)
     (intro issues_intros; simp add: for_budget_def)

lemma disc_list_payees:
  "disciplined client (explicit_budget_id a) (tool_list_payees rt client a)"
  unfolding tool_list_payees_def
  by (rule disciplined_typed, erule explicit_BudgetIdInput)
     (intro issues_intros; simp add: for_budget_def)

lemma disc_list_transactions:
  "disciplined client (explicit_budget_id a) (tool_list_transactions rt client a)"
  unfolding tool_list_transactions_def
  by (rule disciplined_typed, erule explicit_ListTransactionsInput)
     (intro issues_intros; simp add: for_budget_def)

lemma disc_list_monthly_transactions:
  "disciplined client (explicit_budget_id a) (tool_list_monthly_transactions rt client a)"
  unfolding tool_list_monthly_transactions_def
  by (rule disciplined_typed, erule explicit_ListMonthlyTransactionsInput)
     (intro issues_intros; simp add: for_budget_def)

lemma disc_create_transaction:
  "disciplined client (explicit_budget_id a) (tool_create_transaction rt client a)"
  unfolding tool_create_transaction_def
  by (rule disciplined_typed, erule explicit_CreateTransactionInput)
     (intro issues_intros; simp add: for_budget_def)

lemma disc_update_transactions:
  "disciplined client (explicit_budget_id a) (tool_update_transactions rt client a)"
  unfolding tool_update_transactions_def
  by (rule disciplined_typed, erule explicit_UpdateTransactionsInput)
     (intro issues_intros; simp add: for_budget_def)

lemma disc_delete_transaction:
  "disciplined client (explicit_budget_id a) (tool_delete_transaction rt client a)"
  unfolding tool_delete_transaction_def
  by (rule disciplined_typed, erule explicit_DeleteTransactionInput)
     (intro issues_intros; simp add: for_budget_def)

lemma disc_list_scheduled:
  "disciplined client (explicit_budget_id a) (tool_list_scheduled_transactions rt client a)"
  unfolding tool_list_scheduled_transactions_def
  by (rule resolve_then) (intro issues_intros; simp add: for_budget_def)

lemma disc_refresh:
  "disciplined client (explicit_budget_id a) (tool_refresh_financial_overview client a)"
  unfolding tool_refresh_financial_overview_def
  by (rule resolve_then) (intro issues_intros; simp add: for_budget_def)

lemma disc_rename:
  "disciplined client (explicit_budget_id a) (tool_rename_payees rt client a)"
  unfolding tool_rename_payees_def
  by (intro disciplined_if disciplined_raise resolve_then)
     (intro issues_intros; simp add: for_budget_def)

lemma disc_assign:
  "disciplined client (explicit_budget_id a) (tool_assign_budget_amount rt client a)"
  unfolding tool_assign_budget_amount_def
  by (intro disciplined_if disciplined_raise resolve_then)
     (intro issues_intros; simp add: for_budget_def)

lemma disc_move:
  "disciplined client (explicit_budget_id a) (tool_move_budget_amount rt client a)"
  unfolding tool_move_budget_amount_def
  by (intro disciplined_if disciplined_raise resolve_then)
     (intro issues_intros; simp add: for_budget_def)

lemma disc_handle:
  "disciplined client (explicit_budget_id a) (handle_call_tool rt client name a)"
  unfolding handle_call_tool_def
  by (intro disciplined_if disciplined_raise disc_list_budgets disc_get_overview
      disc_update_section disc_list_accounts disc_list_categories disc_list_payees
      disc_list_transactions disc_list_monthly_transactions disc_create_transaction
      disc_update_transactions disc_delete_transaction disc_list_scheduled disc_refresh
      disc_rename disc_assign disc_move)

lemma explicit_budget_id_iff:
  "(explicit_budget_id arguments = Some v) =
   (\<exists>a. arguments = Some a \<and> map_of a ''budget_id'' = Some v \<and> truthy v)"
  by (cases arguments)
     (auto simp: explicit_budget_id_def has_key_def split: option.splits if_splits)

text \<open>
  C1. The budget id given explicitly is the value of the key \<open>budget_id\<close> when the
  mapping has it with a non-empty (truthy) value. When it is given, resolution returns it
  verbatim and calls nothing, and no call of the invocation is a default-budget lookup:
  every call that takes a budget takes that value. When it is omitted or empty,
  resolution returns the id of the budget \<open>get_default_budget\<close> returns; the calls of
  the invocation either take no budget at all (the tool takes none, or validation failed),
  or they start with the default-budget lookup, and every later call is made for the id of
  the budget it returned: resolution comes before any listing or mutating call.
\<close>

theorem budget_resolution:
  "((explicit_budget_id arguments = Some v) =
      (\<exists>a. arguments = Some a \<and> map_of a ''budget_id'' = Some v \<and> truthy v)) \<and>
   (explicit_budget_id arguments = Some v \<longrightarrow>
      get_budget_id client arguments w = (Inr v, w)) \<and>
   (explicit_budget_id arguments = None \<and> get_default_budget client (svc w) = (Inr b, s1) \<longrightarrow>
      get_budget_id client arguments w =
        (Inr (JStr (b_id b)), \<lparr>svc = s1, trace = trace w @ [GetDefaultBudget]\<rparr>)) \<and>
   (\<exists>cs. trace (snd (handle_call_tool rt client name arguments w)) = trace w @ cs \<and>
      (explicit_budget_id arguments = Some v \<longrightarrow> (\<forall>c \<in> set cs. for_budget v c)) \<and>
      (explicit_budget_id arguments = None \<longrightarrow>
         (\<forall>c \<in> set cs. budget_free c) \<or> resolved_first client w cs))"
proof (intro conjI)
  show "(explicit_budget_id arguments = Some v) =
      (\<exists>a. arguments = Some a \<and> map_of a ''budget_id'' = Some v \<and> truthy v)"
    by (rule explicit_budget_id_iff)
  show "explicit_budget_id arguments = Some v \<longrightarrow>
      get_budget_id client arguments w = (Inr v, w)"
    by (simp add: get_budget_id_def ret_def)
  show "explicit_budget_id arguments = None \<and>
      get_default_budget client (svc w) = (Inr b, s1) \<longrightarrow>
      get_budget_id client arguments w =
        (Inr (JStr (b_id b)), \<lparr>svc = s1, trace = trace w @ [GetDefaultBudget]\<rparr>)"
    by (simp add: get_budget_id_def bind_def perform_def ret_def)
  from disc_handle [of client arguments rt name]
  obtain cs where cs: "trace (snd (handle_call_tool rt client name arguments w)) = trace w @ cs"
    "case explicit_budget_id arguments of
       Some v \<Rightarrow> \<forall>c \<in> set cs. for_budget v c
     | None \<Rightarrow> (\<forall>c \<in> set cs. budget_free c) \<or> resolved_first client w cs"
    unfolding disciplined_def by blast
  then show "\<exists>cs. trace (snd (handle_call_tool rt client name arguments w)) = trace w @ cs \<and>
      (explicit_budget_id arguments = Some v \<longrightarrow> (\<forall>c \<in> set cs. for_budget v c)) \<and>
      (explicit_budget_id arguments = None \<longrightarrow>
         (\<forall>c \<in> set cs. budget_free c) \<or> resolved_first client w cs)"
    by (intro exI [of _ cs]) (auto split: option.splits)
qed

theorem budget_resolution_witness:
  "explicit_budget_id listing_arguments = Some (JStr ''b-7'') \<and>
   get_budget_id memory_client listing_arguments start_world = (Inr (JStr ''b-7''), start_world) \<and>
   trace (snd (handle_call_tool plain_runtime memory_client ''list-accounts'' listing_arguments
                 start_world)) = [GetAccounts (JStr ''b-7'')] \<and>
   for_budget (JStr ''b-7'') (GetAccounts (JStr ''b-7'')) \<and>
   explicit_budget_id None = None \<and>
   get_budget_id memory_client None start_world =
     (Inr (JStr ''b-1''), \<lparr>svc = empty_memory, trace = [GetDefaultBudget]\<rparr>) \<and>
   trace (snd (handle_call_tool plain_runtime memory_client ''list-accounts'' None start_world)) =
     [GetDefaultBudget, GetAccounts (JStr ''b-1'')] \<and>
   for_budget (JStr ''b-1'') (GetAccounts (JStr ''b-1''))"
proof -
  have e1: "explicit_budget_id listing_arguments = Some (JStr ''b-7'')"
    by (simp add: explicit_budget_id_def listing_arguments_def has_key_def)
  have e2: "explicit_budget_id None = None"
    by (simp add: explicit_budget_id_def)
  have d: "get_default_budget memory_client (svc start_world) =
      (Inr \<lparr>b_id = ''b-1'', b_name = ''Home''\<rparr>, empty_memory)"
    by (simp add: memory_client_def memory_get_default_budget_def start_world_def
        empty_memory_def)
  have t1: "trace (snd (handle_call_tool plain_runtime memory_client ''list-accounts''
      listing_arguments start_world)) = [GetAccounts (JStr ''b-7'')]"
    by (simp add: run_defs tool_list_accounts_def listing_arguments_def arguments_or_empty_def
        validate_BudgetIdInput_def vbind_def opt_field_def coerce_str_def
        dump_BudgetIdInput_def dump_opt_def start_world_def)
  have t2: "trace (snd (handle_call_tool plain_runtime memory_client ''list-accounts'' None
      start_world)) = [GetDefaultBudget, GetAccounts (JStr ''b-1'')]"
    by (simp add: run_defs tool_list_accounts_def arguments_or_empty_def
        validate_BudgetIdInput_def vbind_def opt_field_def coerce_str_def
        dump_BudgetIdInput_def dump_opt_def start_world_def)
  have s: "trace start_world = []"
    by (simp add: start_world_def)
  from budget_resolution [of listing_arguments "JStr ''b-7''" memory_client start_world
      "\<lparr>b_id = ''b-1'', b_name = ''Home''\<rparr>" empty_memory plain_runtime "''list-accounts''"]
    e1 t1 s
  have r1: "get_budget_id memory_client listing_arguments start_world =
      (Inr (JStr ''b-7''), start_world)"
    "for_budget (JStr ''b-7'') (GetAccounts (JStr ''b-7''))"
    by auto
  from budget_resolution [of None "JStr ''b-7''" memory_client start_world
      "\<lparr>b_id = ''b-1'', b_name = ''Home''\<rparr>" empty_memory plain_runtime "''list-accounts''"]
    e2 d t2 s
  have r2: "get_budget_id memory_client None start_world =
      (Inr (JStr ''b-1''), \<lparr>svc = empty_memory, trace = [GetDefaultBudget]\<rparr>)"
    "for_budget (JStr ''b-1'') (GetAccounts (JStr ''b-1''))"
    by (auto simp: resolved_first_def budget_free_def)
  from e1 e2 t1 t2 r1 r2 show ?thesis
    by simp
qed

section \<open>The calls of move-budget-amount\<close>

lemma move_keys_present:
  assumes "map_of a ''month'' = Some month" and "map_of a ''from_category_id'' = Some A"
    and "map_of a ''to_category_id'' = Some B" and "map_of a ''amount'' = Some amount"
  shows "\<not> missing_required (Some a)
      [''month'', ''from_category_id'', ''to_category_id'', ''amount'']"
  using assms
  by (auto simp: missing_required_def no_arguments_def has_key_def arguments_or_empty_def)

lemma move_run:
  assumes a: "map_of a ''month'' = Some month" "map_of a ''from_category_id'' = Some A"
      "map_of a ''to_category_id'' = Some B" "map_of a ''amount'' = Some (JInt amt)"
    and b: "get_budget_id client (Some a) w = (Inr bid, w1)"
    and f: "get_month_category client bid month A (svc w1) = (Inr from_cat, s2)"
    and t: "get_month_category client bid month B s2 = (Inr to_cat, s3)"
    and r1: "assign_budget_amount client bid month A (JInt (c_budgeted from_cat - amt)) s3 =
      (r1, s4)"
    and r2: "assign_budget_amount client bid month B (JInt (c_budgeted to_cat + amt)) s4 =
      (r2, s5)"
  shows "handle_call_tool rt client ''move-budget-amount'' (Some a) w =
     (case r1 of
        Inl e \<Rightarrow>
          (Inl e,
           \<lparr>svc = s4,
            trace = trace w1 @
              [GetMonthCategory bid month A, GetMonthCategory bid month B,
               AssignBudgetAmount bid month A (JInt (c_budgeted from_cat - amt))]\<rparr>)
      | Inr u \<Rightarrow>
          ((case r2 of
              Inl e \<Rightarrow> Inl e
            | Inr u \<Rightarrow>
                (case int_truediv amt 1000 of
                   Inl e \<Rightarrow> Inl e
                 | Inr shown \<Rightarrow>
                     Inr [TextContent
                       (''Successfully moved '' @ format_2f rt shown @ '' from category '' @
                        c_name from_cat @ '' to '' @ c_name to_cat @ '' for '' @
                        py_str rt month @ ''.'')])),
           \<lparr>svc = s5,
            trace = trace w1 @
              [GetMonthCategory bid month A, GetMonthCategory bid month B,
               AssignBudgetAmount bid month A (JInt (c_budgeted from_cat - amt)),
               AssignBudgetAmount bid month B (JInt (c_budgeted to_cat + amt))]\<rparr>))"
  using a b f t r1 r2 move_keys_present [OF a]
  by (cases r1; cases r2; cases "int_truediv amt 1000")
     (simp_all add: handle_call_tool_def tool_move_budget_amount_def arg_def subscript_def
      arguments_or_empty_def bind_def perform_def lift_def ret_def raise_def text_result_def)

text \<open>
  C2 (as amended). For a \<open>move-budget-amount\<close> invocation with month \<open>M\<close>,
  from-category \<open>A\<close> whose budgeted amount is read as \<open>f\<close>, to-category \<open>B\<close> whose
  budgeted amount is read as \<open>t\<close>, and integer amount \<open>a\<close>: when the first assign
  call succeeds, the calls after budget resolution are the two reads followed by exactly
  two assign calls, \<open>assign(A, M, f - a)\<close> then \<open>assign(B, M, t + a)\<close>, the second
  running on the state the first one left; when the first assign call fails, its error
  ends the invocation and the second assign is never issued.
\<close>

theorem move_issues_two_assigns_in_order:
  assumes "map_of a ''month'' = Some month" and "map_of a ''from_category_id'' = Some A"
    and "map_of a ''to_category_id'' = Some B" and "map_of a ''amount'' = Some (JInt amt)"
    and "get_budget_id client (Some a) w = (Inr bid, w1)"
    and "get_month_category client bid month A (svc w1) = (Inr from_cat, s2)"
    and "get_month_category client bid month B s2 = (Inr to_cat, s3)"
    and "assign_budget_amount client bid month A (JInt (c_budgeted from_cat - amt)) s3 =
      (r1, s4)"
  shows "(r1 = Inr () \<longrightarrow>
           new_calls w1 (snd (handle_call_tool rt client ''move-budget-amount'' (Some a) w)) =
             [GetMonthCategory bid month A, GetMonthCategory bid month B,
              AssignBudgetAmount bid month A (JInt (c_budgeted from_cat - amt)),
              AssignBudgetAmount bid month B (JInt (c_budgeted to_cat + amt))] \<and>
           svc (snd (handle_call_tool rt client ''move-budget-amount'' (Some a) w)) =
             snd (assign_budget_amount client bid month B (JInt (c_budgeted to_cat + amt)) s4)) \<and>
         (r1 = Inl e \<longrightarrow>
           handle_call_tool rt client ''move-budget-amount'' (Some a) w =
             (Inl e,
              \<lparr>svc = s4,
               trace = trace w1 @
                 [GetMonthCategory bid month A, GetMonthCategory bid month B,
                  AssignBudgetAmount bid month A (JInt (c_budgeted from_cat - amt))]\<rparr>))"
proof -
  obtain r2 s5 where r2:
    "assign_budget_amount client bid month B (JInt (c_budgeted to_cat + amt)) s4 = (r2, s5)"
    by (cases "assign_budget_amount client bid month B (JInt (c_budgeted to_cat + amt)) s4")
  show ?thesis
    by (simp add: move_run [OF assms r2] r2 new_calls_def)
qed

theorem move_issues_two_assigns_in_order_witness:
  "new_calls transfer_world
     (snd (handle_call_tool plain_runtime memory_client ''move-budget-amount''
             (Some move_arguments) transfer_world)) =
     [GetMonthCategory (JStr ''b-7'') (JStr ''2024-05-01'') (JStr ''A''),
      GetMonthCategory (JStr ''b-7'') (JStr ''2024-05-01'') (JStr ''B''),
      AssignBudgetAmount (JStr ''b-7'') (JStr ''2024-05-01'') (JStr ''A'') (JInt 800),
      AssignBudgetAmount (JStr ''b-7'') (JStr ''2024-05-01'') (JStr ''B'') (JInt 700)]"
proof -
  let ?m = "JStr ''2024-05-01''"
  let ?b = "JStr ''b-7''"
  let ?s4 = "snd (assign_budget_amount memory_client ?b ?m (JStr ''A'') (JInt 800)
      transfer_memory)"
  have a: "map_of move_arguments ''month'' = Some ?m"
    "map_of move_arguments ''from_category_id'' = Some (JStr ''A'')"
    "map_of move_arguments ''to_category_id'' = Some (JStr ''B'')"
    "map_of move_arguments ''amount'' = Some (JInt 200)"
    by (simp_all add: move_arguments_def)
  have b: "get_budget_id memory_client (Some move_arguments) transfer_world =
      (Inr ?b, transfer_world)"
    by (simp add: get_budget_id_def explicit_budget_id_def has_key_def move_arguments_def
        ret_def)
  have f: "get_month_category memory_client ?b ?m (JStr ''A'') (svc transfer_world) =
      (Inr (plain_category ''A'' ''Rent'' False 1000), transfer_memory)"
    by (simp add: memory_client_def memory_get_month_category_def transfer_world_def
        transfer_memory_def)
  have t: "get_month_category memory_client ?b ?m (JStr ''B'') transfer_memory =
      (Inr (plain_category ''B'' ''Dining'' False 500), transfer_memory)"
    by (simp add: memory_client_def memory_get_month_category_def transfer_memory_def)
  have r: "assign_budget_amount memory_client ?b ?m (JStr ''A'')
      (JInt (c_budgeted (plain_category ''A'' ''Rent'' False 1000) - 200)) transfer_memory =
      (Inr (), ?s4)"
    by (simp add: memory_client_def memory_assign_budget_amount_def transfer_memory_def
        plain_category_def)
  from move_issues_two_assigns_in_order [OF a b f t r, of plain_runtime]
  show ?thesis
    by (simp add: plain_category_def)
qed

text \<open>
  C2 as stated fails when the first assign call fails: with both reads done (1000 and
  500), one assign call is issued, not two.
\<close>

theorem failed_first_assign_counterexample:
  "fst (get_month_category refusing_client (JStr ''b-7'') (JStr ''2024-05-01'') (JStr ''A'')
          transfer_memory) = Inr (plain_category ''A'' ''Rent'' False 1000) \<and>
   fst (get_month_category refusing_client (JStr ''b-7'') (JStr ''2024-05-01'') (JStr ''B'')
          transfer_memory) = Inr (plain_category ''B'' ''Dining'' False 500) \<and>
   handle_call_tool plain_runtime refusing_client ''move-budget-amount'' (Some move_arguments)
     transfer_world =
     (Inl (UpstreamServiceError ''rate limited''),
      \<lparr>svc = transfer_memory,
       trace =
         [GetMonthCategory (JStr ''b-7'') (JStr ''2024-05-01'') (JStr ''A''),
          GetMonthCategory (JStr ''b-7'') (JStr ''2024-05-01'') (JStr ''B''),
          AssignBudgetAmount (JStr ''b-7'') (JStr ''2024-05-01'') (JStr ''A'') (JInt 800)]\<rparr>)"
  by (simp add: handle_call_tool_def tool_move_budget_amount_def missing_required_def
      no_arguments_def has_key_def arguments_or_empty_def arg_def subscript_def bind_def
      perform_def lift_def ret_def raise_def get_budget_id_def explicit_budget_id_def
      move_arguments_def refusing_client_def memory_client_def memory_get_month_category_def
      transfer_world_def transfer_memory_def plain_category_def)

section \<open>Conservation of the budgeted amounts\<close>

text \<open>
  C3 holds between two different categories and fails when the from-category and the
  to-category are the same one. Moving 200 from a category to itself succeeds and leaves it
  with 1200 budgeted instead of 1000: both new amounts are computed from the amount read
  before either write, and the second write overrides the first.
\<close>

theorem move_to_same_category_creates_budget:
  "map_option c_budgeted
     (map_of (m_month_categories transfer_memory) (JStr ''2024-05-01'', JStr ''A'')) =
     Some 1000 \<and>
   \<not> isl (fst (handle_call_tool plain_runtime memory_client ''move-budget-amount''
                 (Some same_category_arguments) transfer_world)) \<and>
   map_option c_budgeted
     (map_of (m_month_categories
                (svc (snd (handle_call_tool plain_runtime memory_client ''move-budget-amount''
                             (Some same_category_arguments) transfer_world))))
        (JStr ''2024-05-01'', JStr ''A'')) = Some 1200"
  by (simp add: handle_call_tool_def tool_move_budget_amount_def missing_required_def
      no_arguments_def has_key_def arguments_or_empty_def arg_def subscript_def bind_def
      perform_def lift_def ret_def raise_def text_result_def get_budget_id_def
      explicit_budget_id_def same_category_arguments_def memory_client_def
      memory_get_month_category_def memory_assign_budget_amount_def transfer_world_def
      transfer_memory_def plain_category_def float_eval)

lemma memory_budget_id_keeps_state:
  "get_budget_id memory_client arguments w = (r, w1) \<Longrightarrow> svc w1 = svc w"
  by (auto simp: get_budget_id_def ret_def bind_def perform_def memory_client_def
      memory_get_default_budget_def split: option.splits)

lemma move_conserves_between_distinct_categories:
  assumes a: "map_of a ''month'' = Some month" "map_of a ''from_category_id'' = Some A"
      "map_of a ''to_category_id'' = Some B" "map_of a ''amount'' = Some (JInt amt)"
    and ne: "A \<noteq> B"
    and b: "get_budget_id memory_client (Some a) w = (Inr bid, w1)"
    and f: "map_of (m_month_categories (svc w)) (month, A) = Some from_cat"
    and t: "map_of (m_month_categories (svc w)) (month, B) = Some to_cat"
  shows "\<exists>from_cat' to_cat'.
      map_of (m_month_categories
                (svc (snd (handle_call_tool rt memory_client ''move-budget-amount'' (Some a) w))))
        (month, A) = Some from_cat' \<and>
      map_of (m_month_categories
                (svc (snd (handle_call_tool rt memory_client ''move-budget-amount'' (Some a) w))))
        (month, B) = Some to_cat' \<and>
      c_budgeted from_cat' + c_budgeted to_cat' = c_budgeted from_cat + c_budgeted to_cat"
proof -
  let ?s = "svc w"
  let ?s4 = "?s\<lparr>m_month_categories :=
      dict_set (m_month_categories ?s) (month, A)
        (from_cat\<lparr>c_budgeted := c_budgeted from_cat - amt\<rparr>)\<rparr>"
  let ?s5 = "?s4\<lparr>m_month_categories :=
      dict_set (m_month_categories ?s4) (month, B)
        (to_cat\<lparr>c_budgeted := c_budgeted to_cat + amt\<rparr>)\<rparr>"
  have same: "svc w1 = ?s"
    by (rule memory_budget_id_keeps_state [OF b])
  have g1: "get_month_category memory_client bid month A (svc w1) = (Inr from_cat, ?s)"
    using f by (simp add: same memory_client_def memory_get_month_category_def)
  have g2: "get_month_category memory_client bid month B ?s = (Inr to_cat, ?s)"
    using t by (simp add: memory_client_def memory_get_month_category_def)
  have r1: "assign_budget_amount memory_client bid month A
      (JInt (c_budgeted from_cat - amt)) ?s = (Inr (), ?s4)"
    using f by (simp add: memory_client_def memory_assign_budget_amount_def)
  have t4: "map_of (m_month_categories ?s4) (month, B) = Some to_cat"
    using t ne by (simp add: map_of_dict_set)
  have r2: "assign_budget_amount memory_client bid month B
      (JInt (c_budgeted to_cat + amt)) ?s4 = (Inr (), ?s5)"
    using t4 by (simp add: memory_client_def memory_assign_budget_amount_def)
  have final: "svc (snd (handle_call_tool rt memory_client ''move-budget-amount'' (Some a) w)) =
      ?s5"
    by (simp add: move_run [OF a b g1 g2 r1 r2])
  show ?thesis
    unfolding final using ne by (simp add: map_of_dict_set)
qed

end
